theory Spec2Isabelle
  imports Complex_Main "HOL-Library.Multiset"
begin

section \<open>Errors raised by the Python source\<close>

datatype py_error =
    TypeError
  | UnboundLocalError
  | IndexError
  | RuntimeError
  | ZeroDivisionError
  | ValueError
  | KeyError
  | NameError
  | AttributeError
  | NonFinite

text \<open>
  \<open>NonFinite\<close> is no exception: it stands for a floating-point result that is an
  infinity or a NaN (a tensor divided by zero), which no real number models. The run
  goes on with such a value; the model stops there.
\<close>

definition bind_err :: "py_error + 'a \<Rightarrow> ('a \<Rightarrow> py_error + 'b) \<Rightarrow> py_error + 'b" where
  "bind_err m f = (case m of Inl e \<Rightarrow> Inl e | Inr x \<Rightarrow> f x)"

section \<open>Criterion construction: the adaptive-smoothing coefficient\<close>

text \<open>
  \<^verbatim>\<open>self.beta = 1 if adaptive_smoothing is not None else adaptive_smoothing\<close>

  The configuration field \<open>adaptive_smoothing\<close> is an \<open>Optional[float]\<close>; Python's
  \<open>None\<close> is \<open>None\<close> here, and so is a \<open>beta\<close> that is \<open>None\<close>.
\<close>

definition init_beta :: "real option \<Rightarrow> real option" where
  "init_beta adaptive_smoothing =
     (if adaptive_smoothing \<noteq> None then Some 1 else adaptive_smoothing)"

section \<open>The bounded history queue\<close>

text \<open>
  \<^verbatim>\<open>
  def push_to_FIFO_queue(self, tensor):
      tensor_sz = tensor.size(0)
      current_queue_sz = self.queue.size(0)
      if tensor_sz + current_queue_sz >= self.kd_queue_size:
          self.queue = self.queue[tensor_sz: ]
      self.queue = torch.cat((self.queue, tensor))
  \<close>
  The queue is a one-dimensional tensor, oldest entry first; the function returns the
  new queue. A slice that starts beyond the end is empty, as \<open>drop\<close> is.
\<close>

definition push_to_FIFO_queue :: "int \<Rightarrow> real list \<Rightarrow> real list \<Rightarrow> real list" where
  "push_to_FIFO_queue kd_queue_size queue tensor =
     (let tensor_sz = int (length tensor);
          current_queue_sz = int (length queue);
          queue' = (if tensor_sz + current_queue_sz \<ge> kd_queue_size
                    then drop (nat tensor_sz) queue else queue)
      in queue' @ tensor)"

text \<open>The queue after a sequence of pushes, one call per batch, in order.\<close>

definition push_all :: "int \<Rightarrow> real list \<Rightarrow> real list list \<Rightarrow> real list" where
  "push_all kd_queue_size queue tensors = foldl (push_to_FIFO_queue kd_queue_size) queue tensors"

section \<open>Tensor helpers\<close>

text \<open>
  One-dimensional tensors are lists of reals. \<open>masked_fill_\<close> writes a value where the
  mask is set; indexing by a boolean mask keeps the entries where the mask is set. The
  tensors of one batch have one entry per token, so a tensor and its mask have the same
  length.
\<close>

definition masked_fill :: "real list \<Rightarrow> bool list \<Rightarrow> real \<Rightarrow> real list" where
  "masked_fill xs msk v = map (\<lambda>(x, m). if m then v else x) (zip xs msk)"

definition mask_select :: "real list \<Rightarrow> bool list \<Rightarrow> real list" where
  "mask_select xs msk = map fst (filter snd (zip xs msk))"

text \<open>
  \<^verbatim>\<open>t.topk(k, dim=0, largest=True)[0][-1]\<close>: the values of \<open>topk\<close> are the \<open>k\<close>
  largest entries in descending order, so the last of them is the \<open>k\<close>-th largest.
  \<open>topk\<close> raises when \<open>k\<close> is out of range, and the index \<open>[-1]\<close> raises on the empty
  result of \<open>k = 0\<close>.
\<close>

definition topk_values :: "real list \<Rightarrow> int \<Rightarrow> py_error + real list" where
  "topk_values xs k =
     (if k < 0 \<or> int (length xs) < k then Inl RuntimeError
      else Inr (take (nat k) (rev (sort xs))))"

definition topk_last :: "real list \<Rightarrow> int \<Rightarrow> py_error + real" where
  "topk_last xs k =
     (case topk_values xs k of
        Inl e \<Rightarrow> Inl e
      | Inr vs \<Rightarrow> (if vs = [] then Inl IndexError else Inr (last vs)))"

section \<open>The batch-level strategy\<close>

text \<open>
  \<^verbatim>\<open>
  loss_gate = nll_loss.topk(math.ceil(nll_loss.size(0) * self.kd_rate),
                            dim=0, largest=True)[0][-1]
  KD_mask = nll_loss < loss_gate
  kd_loss = F.cross_entropy(student_logits_T, teacher_probs_T, reduction='none')
  kd_loss.masked_fill_(pad_mask, 0)
  kd_loss = kd_loss.view(-1)
  kd_loss = kd_loss[~KD_mask]
  extra['kd_loss'] = kd_loss.sum()
  \<close>
  \<open>nll_loss\<close> is the per-token student loss (zero at padding), flattened over the
  batch; \<open>cross_entropy_call\<close> is the outcome of the call of \<open>F.cross_entropy\<close>, the
  per-token distillation loss or the error it raises, which comes after the gate.
  \<open>kd_rate\<close> is an \<open>Optional[float]\<close>; multiplying by \<open>None\<close> raises.
\<close>

definition loss_gate_of :: "real list \<Rightarrow> real option \<Rightarrow> py_error + real" where
  "loss_gate_of values kd_rate =
     (case kd_rate of
        None \<Rightarrow> Inl TypeError
      | Some r \<Rightarrow> topk_last values \<lceil>real (length values) * r\<rceil>)"

definition batch_level_kd_loss ::
  "real option \<Rightarrow> real list \<Rightarrow> py_error + real list \<Rightarrow> bool list \<Rightarrow> py_error + real" where
  "batch_level_kd_loss kd_rate nll_loss cross_entropy_call pad_mask =
     (case loss_gate_of nll_loss kd_rate of
        Inl e \<Rightarrow> Inl e
      | Inr loss_gate \<Rightarrow>
          (let KD_mask = map (\<lambda>x. x < loss_gate) nll_loss
           in case cross_entropy_call of
                Inl e \<Rightarrow> Inl e
              | Inr kd_loss \<Rightarrow>
                  (let kd_loss1 = masked_fill kd_loss pad_mask 0;
                       kd_loss2 = mask_select kd_loss1 (map Not KD_mask)
                   in Inr (sum_list kd_loss2))))"

section \<open>Label-smoothed negative log-likelihood\<close>

text \<open>
  A two-dimensional tensor carries its last dimension with it (\<open>lprobs.size(-1)\<close> is
  defined for a tensor without rows too); it is well formed when every row has that
  many entries.
\<close>

record tensor2 =
  ncols :: nat
  rows :: "real list list"

definition wf_tensor2 :: "tensor2 \<Rightarrow> bool" where
  "wf_tensor2 t = list_all (\<lambda>r. length r = ncols t) (rows t)"

text \<open>A loss is a scalar after a reduction and a tensor with one entry per token before.\<close>

datatype loss_val = Scalar real | PerToken "real list"

text \<open>
  \<open>lprobs.gather(dim=-1, index=target)\<close> reads, in each row, the entry at that row's
  target; an index outside \<open>0 \<le> t < V\<close> raises. The target has one entry per row of
  \<open>lprobs\<close>, as \<open>get_lprobs_and_target\<close> flattens both from the same batch; another
  shape is rejected.
\<close>

fun gather_target :: "real list list \<Rightarrow> int list \<Rightarrow> py_error + real list" where
  "gather_target [] [] = Inr []"
| "gather_target (r # rs) (t # ts) =
     (if 0 \<le> t \<and> t < int (length r)
      then (case gather_target rs ts of
              Inl e \<Rightarrow> Inl e
            | Inr vs \<Rightarrow> Inr (r ! nat t # vs))
      else Inl RuntimeError)"
| "gather_target _ _ = Inl RuntimeError"

text \<open>
  \<^verbatim>\<open>
  def label_smoothed_nll_loss(lprobs, target, epsilon, ignore_index=None, reduce=True):
      if target.dim() == lprobs.dim() - 1:
          target = target.unsqueeze(-1)
      nll_loss = -lprobs.gather(dim=-1, index=target)
      smooth_loss = -lprobs.sum(dim=-1, keepdim=True)
      if ignore_index is not None:
          pad_mask = target.eq(ignore_index)
          nll_loss.masked_fill_(pad_mask, 0.0)
          smooth_loss.masked_fill_(pad_mask, 0.0)
      else:
          nll_loss = nll_loss.squeeze(-1)
          smooth_loss = smooth_loss.squeeze(-1)
      if reduce:
          nll_loss = nll_loss.sum()
          smooth_loss = smooth_loss.sum()
      eps_i = epsilon / (lprobs.size(-1) - 1)
      loss = (1.0 - epsilon - eps_i) * nll_loss + eps_i * smooth_loss
      return loss, nll_loss
  \<close>
  \<open>epsilon\<close> is a Python float and \<open>lprobs.size(-1) - 1\<close> a Python int, so the
  division raises \<open>ZeroDivisionError\<close> for a vocabulary of one entry.
\<close>

definition label_smoothed_nll_loss ::
  "tensor2 \<Rightarrow> int list \<Rightarrow> real \<Rightarrow> int option \<Rightarrow> bool \<Rightarrow> py_error + (loss_val \<times> loss_val)" where
  "label_smoothed_nll_loss lprobs target epsilon ignore_index reduce =
     (case gather_target (rows lprobs) target of
        Inl e \<Rightarrow> Inl e
      | Inr gathered \<Rightarrow>
          (let nll_loss0 = map uminus gathered;
               smooth_loss0 = map (\<lambda>r. - sum_list r) (rows lprobs);
               pad_mask = (case ignore_index of
                             None \<Rightarrow> map (\<lambda>t. False) target
                           | Some p \<Rightarrow> map (\<lambda>t. t = p) target);
               nll_loss1 = masked_fill nll_loss0 pad_mask 0;
               smooth_loss1 = masked_fill smooth_loss0 pad_mask 0
           in if int (ncols lprobs) - 1 = 0 then Inl ZeroDivisionError
              else (let eps_i = epsilon / real_of_int (int (ncols lprobs) - 1)
                    in if reduce
                       then (let nll_loss = sum_list nll_loss1;
                                 smooth_loss = sum_list smooth_loss1
                             in Inr (Scalar ((1 - epsilon - eps_i) * nll_loss + eps_i * smooth_loss),
                                     Scalar nll_loss))
                       else Inr (PerToken (map (\<lambda>(n, s). (1 - epsilon - eps_i) * n + eps_i * s)
                                            (zip nll_loss1 smooth_loss1)),
                                 PerToken nll_loss1))))"

section \<open>Softmax and the per-language distillation rates\<close>

definition softmax :: "real list \<Rightarrow> real list" where
  "softmax xs = map (\<lambda>x. exp x / sum_list (map exp xs)) xs"

text \<open>
  \<^verbatim>\<open>
  def get_lang_ids(self, tokens):
      non_pad_mask = tokens.ne(self.padding_idx)
      col_indices = torch.max(non_pad_mask, dim=1)[1]
      col_indices = col_indices.unsqueeze(1)
      lang_ids = tokens.gather(1, col_indices)
      return lang_ids.flatten().tolist()
  \<close>
  \<open>torch.max\<close> along a dimension returns the index of the first maximal entry: the
  first non-padding position of a row, and position 0 of a row that is all padding. It
  raises on rows without entries.
\<close>

definition first_max_index :: "bool list \<Rightarrow> nat" where
  "first_max_index bs = (if list_ex id bs then length (takeWhile Not bs) else 0)"

definition get_lang_ids :: "int \<Rightarrow> int list list \<Rightarrow> py_error + int list" where
  "get_lang_ids padding_idx tokens =
     (if list_ex (\<lambda>row. row = []) tokens then Inl IndexError
      else Inr (map (\<lambda>row. row ! first_max_index (map (\<lambda>t. t \<noteq> padding_idx) row)) tokens))"

text \<open>
  \<^verbatim>\<open>
  for idx, val in enumerate(self.get_lang_ids(inp_tokens)):
      indices.setdefault(val, []).append(idx)
  \<close>
  A Python dictionary keeps its keys in insertion order; it is an association list
  with one entry per key here.
\<close>

fun setdefault_append :: "(int \<times> nat list) list \<Rightarrow> int \<Rightarrow> nat \<Rightarrow> (int \<times> nat list) list" where
  "setdefault_append [] key idx = [(key, [idx])]"
| "setdefault_append ((k, v) # rest) key idx =
     (if k = key then (k, v @ [idx]) # rest else (k, v) # setdefault_append rest key idx)"

definition lang_indices :: "int list \<Rightarrow> (int \<times> nat list) list" where
  "lang_indices lang_ids =
     foldl (\<lambda>indices (idx, val). setdefault_append indices val idx) []
       (zip [0..<length lang_ids] lang_ids)"

text \<open>
  \<^verbatim>\<open>
  def get_lang_kd_rates(self, indices, T=1):
      if self.use_adaptive_kd_rates:
          lens = torch.cuda.FloatTensor([len(v) for v in indices.values()])
          lens_prob = F.softmax((1/lens)/T, dim=-1, dtype=torch.float32).tolist()
          return lens_prob
      else:
          return [self.kd_rate] * len(indices)
  \<close>
  The temperature is the \<open>Optional[float]\<close> field \<open>kd_selection_temp\<close>; dividing a
  tensor by \<open>None\<close> raises. Tensor division by zero does not raise: it gives an
  infinity or a NaN, which is no real number, reported here as \<open>NonFinite\<close>. The rates
  of the other branch are copies of the optional \<open>kd_rate\<close>.
\<close>

definition get_lang_kd_rates ::
  "bool \<Rightarrow> real option \<Rightarrow> (int \<times> nat list) list \<Rightarrow> real option \<Rightarrow> py_error + real option list" where
  "get_lang_kd_rates use_adaptive_kd_rates kd_rate indices T =
     (if use_adaptive_kd_rates
      then (let lens = map (\<lambda>(k, v). real (length v)) indices
            in case T of
                 None \<Rightarrow> Inl TypeError
               | Some temp \<Rightarrow>
                   (if temp = 0 \<or> list_ex (\<lambda>l. l = 0) lens then Inl NonFinite
                    else Inr (map Some (softmax (map (\<lambda>l. (1 / l) / temp) lens)))))
      else Inr (replicate (length indices) kd_rate))"

section \<open>The label-smoothed loss in the words of the specification\<close>

text \<open>
  The per-token quantities as section 4.3 of the specification writes them: the negative
  log-likelihood \<open>-lprobs[target]\<close>, the smoothing loss \<open>-\<Sum> lprobs\<close> over the
  vocabulary, both zero at a padding position, and
  \<open>(1 - \<epsilon> - eps_i) \<cdot> nll + eps_i \<cdot> smooth_loss\<close> with \<open>eps_i = \<epsilon> / (V - 1)\<close>.
\<close>

definition spec_nll :: "int option \<Rightarrow> real list \<Rightarrow> int \<Rightarrow> real" where
  "spec_nll ignore_index lprobs_row t = (if ignore_index = Some t then 0 else - (lprobs_row ! nat t))"

definition spec_smooth_loss :: "int option \<Rightarrow> real list \<Rightarrow> int \<Rightarrow> real" where
  "spec_smooth_loss ignore_index lprobs_row t =
     (if ignore_index = Some t then 0 else - sum_list lprobs_row)"

definition spec_token_loss :: "real \<Rightarrow> nat \<Rightarrow> int option \<Rightarrow> real list \<Rightarrow> int \<Rightarrow> real" where
  "spec_token_loss epsilon V ignore_index lprobs_row t =
     (1 - epsilon - epsilon / (real V - 1)) * spec_nll ignore_index lprobs_row t
     + (epsilon / (real V - 1)) * spec_smooth_loss ignore_index lprobs_row t"

section \<open>Architecture presets\<close>

text \<open>
  The configuration object is an \<open>argparse\<close> namespace: a finite map from attribute
  names to values. \<open>getattr(args, name, default)\<close> reads an attribute that is set,
  whatever its value, and the default otherwise; an assignment sets the attribute.
\<close>

datatype pyval = PyNone | PyBool bool | PyInt int | PyFloat real | PyStr string

type_synonym namespace = "string \<rightharpoonup> pyval"

definition getattr :: "namespace \<Rightarrow> string \<Rightarrow> pyval \<Rightarrow> pyval" where
  "getattr args name dflt = (case args name of Some v \<Rightarrow> v | None \<Rightarrow> dflt)"

definition setattr :: "namespace \<Rightarrow> string \<Rightarrow> pyval \<Rightarrow> namespace" where
  "setattr args name v = args(name \<mapsto> v)"

text \<open>
  Each preset is the sequence of assignments of the source, followed by the call of the
  host framework's \<open>base_architecture\<close>, which is no code of this repository and is a
  parameter here. Both mutate \<open>args\<close>; the functions return the namespace they leave.
  The source defines \<open>transformer_2layers\<close> twice; the first definition is registered
  as \<open>transformer_2layers_8heads\<close> before the second replaces the name, and carries
  its registered name here.
\<close>

definition transformer_small_link_8heads :: "(namespace \<Rightarrow> namespace) \<Rightarrow> namespace \<Rightarrow> namespace" where
  "transformer_small_link_8heads base_architecture args =
     (let args = setattr args ''link'' (getattr args ''link'' (PyBool True));
          args = setattr args ''encoder_embed_dim'' (getattr args ''encoder_embed_dim'' (PyInt 512));
          args = setattr args ''encoder_ffn_embed_dim'' (getattr args ''encoder_ffn_embed_dim'' (PyInt 1024));
          args = setattr args ''encoder_layers'' (getattr args ''encoder_layers'' (PyInt 3));
          args = setattr args ''encoder_attention_heads'' (getattr args ''encoder_attention_heads'' (PyInt 8));
          args = setattr args ''decoder_layers'' (getattr args ''decoder_layers'' (PyInt 6));
          args = setattr args ''decoder_attention_heads'' (getattr args ''decoder_attention_heads'' (PyInt 8))
      in base_architecture args)"

definition transformer_tiny_link_8heads :: "(namespace \<Rightarrow> namespace) \<Rightarrow> namespace \<Rightarrow> namespace" where
  "transformer_tiny_link_8heads base_architecture args =
     (let args = setattr args ''link'' (getattr args ''link'' (PyBool True));
          args = setattr args ''encoder_embed_dim'' (getattr args ''encoder_embed_dim'' (PyInt 512));
          args = setattr args ''encoder_ffn_embed_dim'' (getattr args ''encoder_ffn_embed_dim'' (PyInt 1024));
          args = setattr args ''encoder_layers'' (getattr args ''encoder_layers'' (PyInt 3));
          args = setattr args ''encoder_attention_heads'' (getattr args ''encoder_attention_heads'' (PyInt 8));
          args = setattr args ''decoder_layers'' (getattr args ''decoder_layers'' (PyInt 3));
          args = setattr args ''decoder_attention_heads'' (getattr args ''decoder_attention_heads'' (PyInt 8))
      in base_architecture args)"

definition transformer_small_link :: "(namespace \<Rightarrow> namespace) \<Rightarrow> namespace \<Rightarrow> namespace" where
  "transformer_small_link base_architecture args =
     (let args = setattr args ''link'' (getattr args ''link'' (PyBool True));
          args = setattr args ''encoder_embed_dim'' (getattr args ''encoder_embed_dim'' (PyInt 512));
          args = setattr args ''encoder_ffn_embed_dim'' (getattr args ''encoder_ffn_embed_dim'' (PyInt 1024));
          args = setattr args ''encoder_layers'' (getattr args ''encoder_layers'' (PyInt 3));
          args = setattr args ''encoder_attention_heads'' (getattr args ''encoder_attention_heads'' (PyInt 4));
          args = setattr args ''decoder_layers'' (getattr args ''decoder_layers'' (PyInt 6));
          args = setattr args ''decoder_attention_heads'' (getattr args ''decoder_attention_heads'' (PyInt 4))
      in base_architecture args)"

definition transformer_2layers_8heads :: "(namespace \<Rightarrow> namespace) \<Rightarrow> namespace \<Rightarrow> namespace" where
  "transformer_2layers_8heads base_architecture args =
     (let args = setattr args ''link'' (getattr args ''link'' (PyBool True));
          args = setattr args ''encoder_embed_dim'' (getattr args ''encoder_embed_dim'' (PyInt 512));
          args = setattr args ''encoder_ffn_embed_dim'' (getattr args ''encoder_ffn_embed_dim'' (PyInt 1024));
          args = setattr args ''encoder_layers'' (getattr args ''encoder_layers'' (PyInt 2));
          args = setattr args ''encoder_attention_heads'' (getattr args ''encoder_attention_heads'' (PyInt 8));
          args = setattr args ''decoder_layers'' (getattr args ''decoder_layers'' (PyInt 2));
          args = setattr args ''decoder_attention_heads'' (getattr args ''decoder_attention_heads'' (PyInt 8))
      in base_architecture args)"

definition transformer_2layers :: "(namespace \<Rightarrow> namespace) \<Rightarrow> namespace \<Rightarrow> namespace" where
  "transformer_2layers base_architecture args =
     (let args = setattr args ''link'' (getattr args ''link'' (PyBool True));
          args = setattr args ''encoder_embed_dim'' (getattr args ''encoder_embed_dim'' (PyInt 512));
          args = setattr args ''encoder_ffn_embed_dim'' (getattr args ''encoder_ffn_embed_dim'' (PyInt 1024));
          args = setattr args ''encoder_layers'' (getattr args ''encoder_layers'' (PyInt 2));
          args = setattr args ''encoder_attention_heads'' (getattr args ''encoder_attention_heads'' (PyInt 4));
          args = setattr args ''decoder_layers'' (getattr args ''decoder_layers'' (PyInt 2));
          args = setattr args ''decoder_attention_heads'' (getattr args ''decoder_attention_heads'' (PyInt 4))
      in base_architecture args)"

definition transformer_3layers_regressor :: "(namespace \<Rightarrow> namespace) \<Rightarrow> namespace \<Rightarrow> namespace" where
  "transformer_3layers_regressor base_architecture args =
     (let args = setattr args ''regressor'' (getattr args ''regressor'' (PyBool True));
          args = setattr args ''encoder_embed_dim'' (getattr args ''encoder_embed_dim'' (PyInt 512));
          args = setattr args ''encoder_ffn_embed_dim'' (getattr args ''encoder_ffn_embed_dim'' (PyInt 1024));
          args = setattr args ''encoder_layers'' (getattr args ''encoder_layers'' (PyInt 3));
          args = setattr args ''encoder_attention_heads'' (getattr args ''encoder_attention_heads'' (PyInt 4));
          args = setattr args ''decoder_layers'' (getattr args ''decoder_layers'' (PyInt 3));
          args = setattr args ''decoder_attention_heads'' (getattr args ''decoder_attention_heads'' (PyInt 4))
      in base_architecture args)"

definition transformer_2layers_regressor :: "(namespace \<Rightarrow> namespace) \<Rightarrow> namespace \<Rightarrow> namespace" where
  "transformer_2layers_regressor base_architecture args =
     (let args = setattr args ''regressor'' (getattr args ''regressor'' (PyBool True));
          args = setattr args ''encoder_embed_dim'' (getattr args ''encoder_embed_dim'' (PyInt 512));
          args = setattr args ''encoder_ffn_embed_dim'' (getattr args ''encoder_ffn_embed_dim'' (PyInt 1024));
          args = setattr args ''encoder_layers'' (getattr args ''encoder_layers'' (PyInt 2));
          args = setattr args ''encoder_attention_heads'' (getattr args ''encoder_attention_heads'' (PyInt 4));
          args = setattr args ''decoder_layers'' (getattr args ''decoder_layers'' (PyInt 2));
          args = setattr args ''decoder_attention_heads'' (getattr args ''decoder_attention_heads'' (PyInt 4))
      in base_architecture args)"

definition transformer_tiny_link :: "(namespace \<Rightarrow> namespace) \<Rightarrow> namespace \<Rightarrow> namespace" where
  "transformer_tiny_link base_architecture args =
     (let args = setattr args ''link'' (getattr args ''link'' (PyBool True));
          args = setattr args ''encoder_embed_dim'' (getattr args ''encoder_embed_dim'' (PyInt 512));
          args = setattr args ''encoder_ffn_embed_dim'' (getattr args ''encoder_ffn_embed_dim'' (PyInt 1024));
          args = setattr args ''encoder_layers'' (getattr args ''encoder_layers'' (PyInt 3));
          args = setattr args ''encoder_attention_heads'' (getattr args ''encoder_attention_heads'' (PyInt 4));
          args = setattr args ''decoder_layers'' (getattr args ''decoder_layers'' (PyInt 3));
          args = setattr args ''decoder_attention_heads'' (getattr args ''decoder_attention_heads'' (PyInt 4))
      in base_architecture args)"

definition transformer_tiny_nolink :: "(namespace \<Rightarrow> namespace) \<Rightarrow> namespace \<Rightarrow> namespace" where
  "transformer_tiny_nolink base_architecture args =
     (let args = setattr args ''link'' (getattr args ''link'' (PyBool False));
          args = setattr args ''encoder_embed_dim'' (getattr args ''encoder_embed_dim'' (PyInt 512));
          args = setattr args ''encoder_ffn_embed_dim'' (getattr args ''encoder_ffn_embed_dim'' (PyInt 1024));
          args = setattr args ''encoder_layers'' (getattr args ''encoder_layers'' (PyInt 3));
          args = setattr args ''encoder_attention_heads'' (getattr args ''encoder_attention_heads'' (PyInt 4));
          args = setattr args ''decoder_layers'' (getattr args ''decoder_layers'' (PyInt 3));
          args = setattr args ''decoder_attention_heads'' (getattr args ''decoder_attention_heads'' (PyInt 4))
      in base_architecture args)"

definition transformer_big :: "(namespace \<Rightarrow> namespace) \<Rightarrow> namespace \<Rightarrow> namespace" where
  "transformer_big base_architecture args =
     (let args = setattr args ''encoder_embed_dim'' (getattr args ''encoder_embed_dim'' (PyInt 1024));
          args = setattr args ''encoder_ffn_embed_dim'' (getattr args ''encoder_ffn_embed_dim'' (PyInt 4096));
          args = setattr args ''encoder_attention_heads'' (getattr args ''encoder_attention_heads'' (PyInt 16));
          args = setattr args ''encoder_normalize_before'' (getattr args ''encoder_normalize_before'' (PyBool False));
          args = setattr args ''decoder_embed_dim'' (getattr args ''decoder_embed_dim'' (PyInt 1024));
          args = setattr args ''decoder_ffn_embed_dim'' (getattr args ''decoder_ffn_embed_dim'' (PyInt 4096));
          args = setattr args ''decoder_attention_heads'' (getattr args ''decoder_attention_heads'' (PyInt 16))
      in base_architecture args)"

definition transformer_huge :: "(namespace \<Rightarrow> namespace) \<Rightarrow> namespace \<Rightarrow> namespace" where
  "transformer_huge base_architecture args =
     (let args = setattr args ''encoder_embed_dim'' (getattr args ''encoder_embed_dim'' (PyInt 1536));
          args = setattr args ''encoder_ffn_embed_dim'' (getattr args ''encoder_ffn_embed_dim'' (PyInt 4096));
          args = setattr args ''encoder_attention_heads'' (getattr args ''encoder_attention_heads'' (PyInt 16));
          args = setattr args ''encoder_normalize_before'' (getattr args ''encoder_normalize_before'' (PyBool False));
          args = setattr args ''decoder_embed_dim'' (getattr args ''decoder_embed_dim'' (PyInt 1536));
          args = setattr args ''decoder_ffn_embed_dim'' (getattr args ''decoder_ffn_embed_dim'' (PyInt 4096));
          args = setattr args ''decoder_attention_heads'' (getattr args ''decoder_attention_heads'' (PyInt 16))
      in base_architecture args)"

definition transformer_xlarge :: "(namespace \<Rightarrow> namespace) \<Rightarrow> namespace \<Rightarrow> namespace" where
  "transformer_xlarge base_architecture args =
     (let args = setattr args ''encoder_embed_dim'' (getattr args ''encoder_embed_dim'' (PyInt 2048));
          args = setattr args ''encoder_ffn_embed_dim'' (getattr args ''encoder_ffn_embed_dim'' (PyInt 8192));
          args = setattr args ''encoder_attention_heads'' (getattr args ''encoder_attention_heads'' (PyInt 16));
          args = setattr args ''encoder_normalize_before'' (getattr args ''encoder_normalize_before'' (PyBool False));
          args = setattr args ''decoder_embed_dim'' (getattr args ''decoder_embed_dim'' (PyInt 2048));
          args = setattr args ''decoder_ffn_embed_dim'' (getattr args ''decoder_ffn_embed_dim'' (PyInt 8192));
          args = setattr args ''decoder_attention_heads'' (getattr args ''decoder_attention_heads'' (PyInt 16))
      in base_architecture args)"

text \<open>The registry of \<open>register_model_architecture("transformer", name)\<close>.\<close>

definition arch_registry ::
  "(string \<times> ((namespace \<Rightarrow> namespace) \<Rightarrow> namespace \<Rightarrow> namespace)) list" where
  "arch_registry =
     [(''transformer_small_link_8heads'', transformer_small_link_8heads),
      (''transformer_tiny_link_8heads'', transformer_tiny_link_8heads),
      (''transformer_small_link'', transformer_small_link),
      (''transformer_2layers_8heads'', transformer_2layers_8heads),
      (''transformer_2layers'', transformer_2layers),
      (''transformer_3layers_regressor'', transformer_3layers_regressor),
      (''transformer_2layers_regressor'', transformer_2layers_regressor),
      (''transformer_tiny_link'', transformer_tiny_link),
      (''transformer_tiny_nolink'', transformer_tiny_nolink),
      (''transformer_2x'', transformer_big),
      (''transformer_4x'', transformer_huge),
      (''transformer_9x'', transformer_xlarge)]"

text \<open>
  The table of section 4.1 of the specification, one row per registered name (the table
  drops the prefix \<open>transformer_\<close>): embedding dimension, feed-forward dimension,
  encoder layers and heads, decoder layers and heads, and the extra flag. In the rows
  2x, 4x and 9x the embedding and feed-forward dimensions and the heads are those of
  the encoder and of the decoder, and \<open>normalize_before\<close> is the encoder's.
\<close>

definition spec_row ::
  "int \<Rightarrow> int \<Rightarrow> int \<Rightarrow> int \<Rightarrow> int \<Rightarrow> int \<Rightarrow> string \<Rightarrow> bool \<Rightarrow> (string \<times> pyval) list" where
  "spec_row embed_dim ffn enc_layers enc_heads dec_layers dec_heads flag flag_value =
     [(''encoder_embed_dim'', PyInt embed_dim), (''encoder_ffn_embed_dim'', PyInt ffn),
      (''encoder_layers'', PyInt enc_layers), (''encoder_attention_heads'', PyInt enc_heads),
      (''decoder_layers'', PyInt dec_layers), (''decoder_attention_heads'', PyInt dec_heads),
      (flag, PyBool flag_value)]"

definition spec_row_big :: "int \<Rightarrow> int \<Rightarrow> int \<Rightarrow> (string \<times> pyval) list" where
  "spec_row_big embed_dim ffn heads =
     [(''encoder_embed_dim'', PyInt embed_dim), (''decoder_embed_dim'', PyInt embed_dim),
      (''encoder_ffn_embed_dim'', PyInt ffn), (''decoder_ffn_embed_dim'', PyInt ffn),
      (''encoder_attention_heads'', PyInt heads), (''decoder_attention_heads'', PyInt heads),
      (''encoder_normalize_before'', PyBool False)]"

definition spec_preset_table :: "(string \<times> (string \<times> pyval) list) list" where
  "spec_preset_table =
     [(''transformer_small_link_8heads'', spec_row 512 1024 3 8 6 8 ''link'' True),
      (''transformer_tiny_link_8heads'', spec_row 512 1024 3 8 3 8 ''link'' True),
      (''transformer_small_link'', spec_row 512 1024 3 4 6 4 ''link'' True),
      (''transformer_2layers_8heads'', spec_row 512 1024 2 8 2 8 ''link'' True),
      (''transformer_2layers'', spec_row 512 1024 2 4 2 4 ''link'' True),
      (''transformer_3layers_regressor'', spec_row 512 1024 3 4 3 4 ''regressor'' True),
      (''transformer_2layers_regressor'', spec_row 512 1024 2 4 2 4 ''regressor'' True),
      (''transformer_tiny_link'', spec_row 512 1024 3 4 3 4 ''link'' True),
      (''transformer_tiny_nolink'', spec_row 512 1024 3 4 3 4 ''link'' False),
      (''transformer_2x'', spec_row_big 1024 4096 16),
      (''transformer_4x'', spec_row_big 1536 4096 16),
      (''transformer_9x'', spec_row_big 2048 8192 16)]"

text \<open>
  What the presets rely on in \<open>base_architecture\<close>: it fills attributes that are not
  set and leaves every attribute that is set as it is.
\<close>

definition fills_gaps_only :: "(namespace \<Rightarrow> namespace) \<Rightarrow> bool" where
  "fills_gaps_only base_architecture =
     (\<forall>args name v. args name = Some v \<longrightarrow> base_architecture args name = Some v)"

text \<open>A run of assignments \<open>args.k = getattr(args, "k", d)\<close>, in order.\<close>

definition fill_defaults :: "(string \<times> pyval) list \<Rightarrow> namespace \<Rightarrow> namespace" where
  "fill_defaults kvs args = foldl (\<lambda>a (k, d). setattr a k (getattr a k d)) args kvs"

section \<open>The criterion and its state\<close>

text \<open>
  \<open>self.alpha\<close> is \<open>None\<close>, a float of the configuration, or, after a batch with
  adaptive weighting, a tensor with one weight per token. \<open>self.queue\<close> is one tensor,
  or a dictionary with one tensor per source-language id.
\<close>

datatype weightage = NoWeight | Weight real | TokenWeights "real list"

datatype queue_state = GlobalQueue "real list" | LangQueues "int \<rightharpoonup> real list"

record criterion =
  sentence_avg :: bool
  eps :: real
  padding_idx :: int
  kd_strategy :: string
  student_temp :: real
  teacher_temp :: real
  kd_rate :: "real option"
  kd_queue_size :: int
  use_adaptive_weightage :: bool
  use_adaptive_kd_rates :: bool
  kd_selection_temp :: "real option"
  alpha :: weightage
  beta :: "real option"
  rambda :: real
  decay :: real
  loss_type :: string
  decoder_kd :: bool
  self_kd :: bool
  cross_kd :: bool
  value_kd :: bool
  report_accuracy :: bool
  queue :: queue_state

text \<open>
  The constructor, from the configuration fields and the task's \<open>kd_strategy\<close>,
  \<open>src_lang_ids\<close> and padding index:
  \<^verbatim>\<open>
  self.alpha = alpha if not use_adaptive_weightage else None
  self.beta = 1 if adaptive_smoothing is not None else adaptive_smoothing
  if self.kd_strategy == "global_multi_level":
      self.queue = {}
      for id in self.task.src_lang_ids:
          self.queue[id] = torch.cuda.FloatTensor([])
  else:
      self.queue = torch.cuda.FloatTensor([])
  \<close>
  The other fields are copied.
\<close>

definition init_alpha :: "real option \<Rightarrow> bool \<Rightarrow> weightage" where
  "init_alpha alpha_cfg adaptive =
     (if \<not> adaptive then (case alpha_cfg of None \<Rightarrow> NoWeight | Some a \<Rightarrow> Weight a) else NoWeight)"

definition init_queue :: "string \<Rightarrow> int list \<Rightarrow> queue_state" where
  "init_queue strategy src_lang_ids =
     (if strategy = ''global_multi_level''
      then LangQueues (foldl (\<lambda>q i. q(i \<mapsto> [])) Map.empty src_lang_ids)
      else GlobalQueue [])"

section \<open>Token-level distillation losses\<close>

definition relu :: "real \<Rightarrow> real" where
  "relu x = max 0 x"

definition log_softmax :: "real list \<Rightarrow> real list" where
  "log_softmax xs = map (\<lambda>x. x - ln (sum_list (map exp xs))) xs"

text \<open>
  \<open>F.cross_entropy(input, target, reduction='none')\<close> with class probabilities as
  target: per row, minus the sum of the target probabilities times the log-softmax of
  the input. Rows of different shapes are rejected.
\<close>

fun cross_entropy :: "real list list \<Rightarrow> real list list \<Rightarrow> py_error + real list" where
  "cross_entropy [] [] = Inr []"
| "cross_entropy (x # xs) (p # ps) =
     (if length x = length p
      then (case cross_entropy xs ps of
              Inl e \<Rightarrow> Inl e
            | Inr ls \<Rightarrow> Inr (- sum_list (map (\<lambda>(pv, lv). pv * lv) (zip p (log_softmax x))) # ls))
      else Inl RuntimeError)"
| "cross_entropy _ _ = Inl RuntimeError"

definition div_temp :: "real list list \<Rightarrow> real \<Rightarrow> py_error + real list list" where
  "div_temp logits temp =
     (if temp = 0 then Inl NonFinite else Inr (map (map (\<lambda>x. x / temp)) logits))"

text \<open>
  \<^verbatim>\<open>
  student_logits_T = student_logits/self.student_temp
  teacher_probs_T = F.softmax(teacher_logits/self.teacher_temp, dim=-1, dtype=torch.float32)
  kd_loss = F.cross_entropy(student_logits_T, teacher_probs_T, reduction='none')
  \<close>
\<close>

definition kd_cross_entropy ::
  "criterion \<Rightarrow> real list list \<Rightarrow> real list list \<Rightarrow> py_error + real list" where
  "kd_cross_entropy crit student_logits teacher_logits =
     bind_err (div_temp student_logits (student_temp crit)) (\<lambda>student_logits_T.
     bind_err (div_temp teacher_logits (teacher_temp crit)) (\<lambda>teacher_logits_T.
       cross_entropy student_logits_T (map softmax teacher_logits_T)))"

text \<open>
  \<open>((1.0 - self.alpha) * golden_loss).sum() + (self.alpha * kd_loss).sum()\<close> on
  per-token tensors, and \<open>(1.0 - self.alpha) * golden_loss.sum() + self.alpha * kd\<close> on
  sums. Arithmetic with \<open>None\<close> raises.
\<close>

definition blend_tokens :: "weightage \<Rightarrow> real list \<Rightarrow> real list \<Rightarrow> py_error + real" where
  "blend_tokens a golden_loss kd_loss =
     (case a of
        NoWeight \<Rightarrow> Inl TypeError
      | Weight w \<Rightarrow>
          Inr (sum_list (map (\<lambda>g. (1 - w) * g) golden_loss) + sum_list (map (\<lambda>k. w * k) kd_loss))
      | TokenWeights ws \<Rightarrow>
          (if length ws = length golden_loss \<and> length ws = length kd_loss
           then Inr (sum_list (map (\<lambda>(w, g). (1 - w) * g) (zip ws golden_loss))
                     + sum_list (map (\<lambda>(w, k). w * k) (zip ws kd_loss)))
           else Inl RuntimeError))"

definition blend_sums :: "weightage \<Rightarrow> real \<Rightarrow> real \<Rightarrow> py_error + loss_val" where
  "blend_sums a golden_sum kd_sum =
     (case a of
        NoWeight \<Rightarrow> Inl TypeError
      | Weight w \<Rightarrow> Inr (Scalar ((1 - w) * golden_sum + w * kd_sum))
      | TokenWeights ws \<Rightarrow> Inr (PerToken (map (\<lambda>w. (1 - w) * golden_sum + w * kd_sum) ws)))"

text \<open>
  The result of a strategy: the loss, the variable \<open>kd_loss\<close> as the branch leaves it,
  the entries it writes to \<open>extra\<close>, and the criterion with its new state.
\<close>

type_synonym extra = "string \<rightharpoonup> loss_val"

type_synonym strategy_result = "loss_val \<times> real list \<times> extra \<times> criterion"

definition kd_extras :: "extra \<Rightarrow> real \<Rightarrow> real list \<Rightarrow> real list \<Rightarrow> extra" where
  "kd_extras extra kd_sum nll_loss nll_loss_teacher =
     extra(''kd_loss'' \<mapsto> Scalar kd_sum,
           ''nll_loss_student'' \<mapsto> Scalar (sum_list nll_loss),
           ''nll_loss_teacher'' \<mapsto> Scalar (sum_list nll_loss_teacher))"

text \<open>
  \<^verbatim>\<open>
  elif self.kd_strategy == 'word_and_seq_level':
      kd_loss = F.cross_entropy(student_logits_T, teacher_probs_T, reduction='none')
      kd_loss.masked_fill_(pad_mask, 0)
      extra['kd_loss'] = kd_loss.sum()
      extra['nll_loss_student'] = nll_loss.sum()
      extra['nll_loss_teacher'] = nll_loss_teacher.sum()
      if self.use_adaptive_weightage:
          with torch.no_grad():
              self.alpha = F.relu(torch.tanh(self.beta * (nll_loss_teacher - nll_loss)))
      loss = ((1.0 - self.alpha) * golden_loss).sum() + (self.alpha * kd_loss).sum()
  \<close>
\<close>

definition word_and_seq_level ::
  "criterion \<Rightarrow> extra \<Rightarrow> real list \<Rightarrow> real list \<Rightarrow> real list \<Rightarrow> bool list
     \<Rightarrow> py_error + real list \<Rightarrow> py_error + strategy_result" where
  "word_and_seq_level crit extra golden_loss nll_loss nll_loss_teacher pad_mask cross_entropy_call =
     bind_err cross_entropy_call (\<lambda>kd_loss0.
       let kd_loss = masked_fill kd_loss0 pad_mask 0;
           extra1 = kd_extras extra (sum_list kd_loss) nll_loss nll_loss_teacher
       in bind_err
            (if use_adaptive_weightage crit
             then (case beta crit of
                     None \<Rightarrow> Inl TypeError
                   | Some b \<Rightarrow>
                       Inr (crit\<lparr>alpha := TokenWeights
                              (map (\<lambda>(t, s). relu (tanh (b * (t - s))))
                                 (zip nll_loss_teacher nll_loss))\<rparr>))
             else Inr crit)
            (\<lambda>crit1.
               bind_err (blend_tokens (alpha crit1) golden_loss kd_loss) (\<lambda>loss.
                 Inr (Scalar loss, kd_loss, extra1, crit1))))"

text \<open>The batch-level branch: the selection above, then the blend.\<close>

definition batch_level ::
  "criterion \<Rightarrow> extra \<Rightarrow> real list \<Rightarrow> real list \<Rightarrow> real list \<Rightarrow> bool list
     \<Rightarrow> py_error + real list \<Rightarrow> py_error + strategy_result" where
  "batch_level crit extra golden_loss nll_loss nll_loss_teacher pad_mask cross_entropy_call =
     bind_err (loss_gate_of nll_loss (kd_rate crit)) (\<lambda>loss_gate.
     bind_err cross_entropy_call (\<lambda>kd_loss0.
       let KD_mask = map (\<lambda>x. x < loss_gate) nll_loss;
           kd_loss = mask_select (masked_fill kd_loss0 pad_mask 0) (map Not KD_mask)
       in bind_err (batch_level_kd_loss (kd_rate crit) nll_loss cross_entropy_call pad_mask)
            (\<lambda>kd_sum.
               bind_err (blend_sums (alpha crit) (sum_list golden_loss) kd_sum) (\<lambda>loss.
                 Inr (loss, kd_loss,
                      kd_extras extra kd_sum nll_loss nll_loss_teacher, crit)))))"

text \<open>
  \<^verbatim>\<open>
  elif not self.use_adaptive_weightage and self.kd_strategy == 'global_level':
      kd_loss = F.cross_entropy(student_logits_T, teacher_probs_T, reduction='none')
      self.push_to_FIFO_queue(nll_loss)
      loss_gate = self.queue.topk(math.ceil(self.queue.size(0) * self.kd_rate),
                                  dim=0, largest=True)[0][-1]
      KD_mask = nll_loss < loss_gate # B * T
      kd_loss.masked_fill_(pad_mask, 0)
      kd_loss = kd_loss.view(-1)
      kd_loss = kd_loss[~KD_mask]
      ...
      loss = (1.0 - self.alpha) * golden_loss.sum() + self.alpha * kd_loss.sum()
  \<close>
\<close>

definition global_level ::
  "criterion \<Rightarrow> extra \<Rightarrow> real list \<Rightarrow> real list \<Rightarrow> real list \<Rightarrow> bool list
     \<Rightarrow> py_error + real list \<Rightarrow> py_error + strategy_result" where
  "global_level crit extra golden_loss nll_loss nll_loss_teacher pad_mask cross_entropy_call =
     bind_err cross_entropy_call (\<lambda>kd_loss0.
       case queue crit of
         LangQueues _ \<Rightarrow> Inl AttributeError
       | GlobalQueue q \<Rightarrow>
           (let q1 = push_to_FIFO_queue (kd_queue_size crit) q nll_loss;
                crit1 = crit\<lparr>queue := GlobalQueue q1\<rparr>
            in bind_err (loss_gate_of q1 (kd_rate crit)) (\<lambda>loss_gate.
                 let KD_mask = map (\<lambda>x. x < loss_gate) nll_loss;
                     kd_loss = mask_select (masked_fill kd_loss0 pad_mask 0) (map Not KD_mask);
                     kd_sum = sum_list kd_loss
                 in bind_err (blend_sums (alpha crit1) (sum_list golden_loss) kd_sum) (\<lambda>loss.
                      Inr (loss, kd_loss,
                           kd_extras extra kd_sum nll_loss nll_loss_teacher, crit1)))))"

section \<open>The global multi-level strategy\<close>

text \<open>
  \<open>nll_loss.view(inp_tokens.size(0), -1)\<close>: one row per sentence. The view raises when
  the number of sentences is zero or does not divide the number of tokens.
\<close>

definition view_rows :: "nat \<Rightarrow> real list \<Rightarrow> py_error + real list list" where
  "view_rows b xs =
     (if b = 0 \<or> length xs mod b \<noteq> 0 then Inl RuntimeError
      else (let t = length xs div b
            in Inr (map (\<lambda>i. take t (drop (i * t) xs)) [0..<b])))"

text \<open>\<open>t.index_select(0, idx).view(-1)\<close>: the chosen rows, one after the other.\<close>

definition index_select_flat :: "real list list \<Rightarrow> nat list \<Rightarrow> py_error + real list" where
  "index_select_flat rws idx =
     (if list_all (\<lambda>i. i < length rws) idx then Inr (concat (map (\<lambda>i. rws ! i) idx))
      else Inl IndexError)"

text \<open>\<open>mask.nonzero().view(-1)\<close> and \<open>t.gather(0, idx)\<close> on one-dimensional tensors.\<close>

definition nonzero :: "bool list \<Rightarrow> nat list" where
  "nonzero msk = filter (\<lambda>i. msk ! i) [0..<length msk]"

definition gather0 :: "real list \<Rightarrow> nat list \<Rightarrow> py_error + real list" where
  "gather0 xs idx =
     (if list_all (\<lambda>i. i < length xs) idx then Inr (map (\<lambda>i. xs ! i) idx)
      else Inl RuntimeError)"

text \<open>
  \<^verbatim>\<open>
  def push_to_lang_FIFO_queue(self, id, tensor):
      tensor = tensor.detach()
      tensor_sz = tensor.size(0)
      current_queue_sz = self.queue[id].size(0)
      if tensor_sz + current_queue_sz >= self.kd_queue_size:
          self.queue[id] = self.queue[id][tensor_sz: ]
      self.queue[id] = torch.cat((self.queue[id], tensor))
  \<close>
  The body is that of \<open>push_to_FIFO_queue\<close> on the queue of the language; a language
  id without a queue raises \<open>KeyError\<close>.
\<close>

definition push_to_lang_FIFO_queue ::
  "int \<Rightarrow> (int \<rightharpoonup> real list) \<Rightarrow> int \<Rightarrow> real list \<Rightarrow> py_error + (int \<rightharpoonup> real list)" where
  "push_to_lang_FIFO_queue queue_size queues lang tensor =
     (case queues lang of
        None \<Rightarrow> Inl KeyError
      | Some q \<Rightarrow> Inr (queues(lang \<mapsto> push_to_FIFO_queue queue_size q tensor)))"

text \<open>
  \<^verbatim>\<open>
  for key, val in indices.items():
      nll_loss_lang = nll_loss.index_select(0, torch.cuda.LongTensor(val)).view(-1)
      self.push_to_lang_FIFO_queue(key, nll_loss_lang)
  \<close>
  The loop returns the queues and the variable \<open>nll_loss_lang\<close> as its last round
  leaves it (unbound when there is no round).
\<close>

fun push_lang_losses ::
  "int \<Rightarrow> real list list \<Rightarrow> (int \<times> nat list) list \<Rightarrow> (int \<rightharpoonup> real list) \<Rightarrow> real list option
     \<Rightarrow> py_error + ((int \<rightharpoonup> real list) \<times> real list option)" where
  "push_lang_losses queue_size nll_rows [] queues nll_loss_lang = Inr (queues, nll_loss_lang)"
| "push_lang_losses queue_size nll_rows ((key, val) # rest) queues nll_loss_lang =
     bind_err (index_select_flat nll_rows val) (\<lambda>nll_loss_lang1.
     bind_err (push_to_lang_FIFO_queue queue_size queues key nll_loss_lang1) (\<lambda>queues1.
       push_lang_losses queue_size nll_rows rest queues1 (Some nll_loss_lang1)))"

text \<open>
  \<^verbatim>\<open>
  for idx, kd_rate in zip(indices.keys(), kd_rates):
      loss_gate = self.queue[idx].topk(math.ceil(self.queue[idx].size(0) * kd_rate),
                                       dim=0, largest=True)[0][-1]
      KD_mask = nll_loss_lang >= loss_gate
      KD_indices = KD_mask.nonzero().view(-1)
      total_kd_loss += kd_loss.gather(0, KD_indices).sum()
  \<close>
  \<open>nll_loss_lang\<close> is the variable of the loop before: it is not assigned in this one.
\<close>

fun select_lang_losses ::
  "(int \<rightharpoonup> real list) \<Rightarrow> real list option \<Rightarrow> real list \<Rightarrow> (int \<times> real option) list \<Rightarrow> real
     \<Rightarrow> py_error + real" where
  "select_lang_losses queues nll_loss_lang kd_loss [] total_kd_loss = Inr total_kd_loss"
| "select_lang_losses queues nll_loss_lang kd_loss ((idx, rate) # rest) total_kd_loss =
     (case queues idx of
        None \<Rightarrow> Inl KeyError
      | Some q \<Rightarrow>
          bind_err (loss_gate_of q rate) (\<lambda>loss_gate.
            case nll_loss_lang of
              None \<Rightarrow> Inl UnboundLocalError
            | Some nll \<Rightarrow>
                (let KD_mask = map (\<lambda>x. loss_gate \<le> x) nll;
                     KD_indices = nonzero KD_mask
                 in bind_err (gather0 kd_loss KD_indices) (\<lambda>vals.
                      select_lang_losses queues nll_loss_lang kd_loss rest
                        (total_kd_loss + sum_list vals)))))"

text \<open>
  \<^verbatim>\<open>
  elif not self.use_adaptive_weightage and self.kd_strategy == "global_multi_level":
      kd_loss = F.cross_entropy(student_logits_T, teacher_probs_T, reduction='none')
      kd_loss.masked_fill_(pad_mask, 0)
      kd_loss = kd_loss.view(-1)
      indices, total_kd_loss = dict(), 0
      inp_tokens = sample["net_input"]["src_tokens"]
      for idx, val in enumerate(self.get_lang_ids(inp_tokens)):
          indices.setdefault(val, []).append(idx)
      nll_loss = nll_loss.view(inp_tokens.size(0), -1)
      (the two loops, with kd_rates = self.get_lang_kd_rates(indices, self.kd_selection_temp)
       between them)
      extra['kd_loss'] = total_kd_loss
      extra['nll_loss_student'] = nll_loss.sum()
      extra['nll_loss_teacher'] = nll_loss_teacher.sum()
      loss = (1.0 - self.alpha) * golden_loss.sum() + self.alpha * total_kd_loss
  \<close>
\<close>

definition global_multi_level_kd ::
  "criterion \<Rightarrow> int list list \<Rightarrow> real list \<Rightarrow> real list
     \<Rightarrow> py_error + (real \<times> (int \<rightharpoonup> real list))" where
  "global_multi_level_kd crit src_tokens nll_loss kd_loss =
     bind_err (get_lang_ids (padding_idx crit) src_tokens) (\<lambda>lang_ids.
       let indices = lang_indices lang_ids
       in bind_err (view_rows (length src_tokens) nll_loss) (\<lambda>nll_rows.
            case queue crit of
              GlobalQueue _ \<Rightarrow> Inl IndexError
            | LangQueues queues \<Rightarrow>
                bind_err (push_lang_losses (kd_queue_size crit) nll_rows indices queues None)
                  (\<lambda>(queues1, nll_loss_lang).
                bind_err (get_lang_kd_rates (use_adaptive_kd_rates crit) (kd_rate crit) indices
                            (kd_selection_temp crit)) (\<lambda>kd_rates.
                bind_err (select_lang_losses queues1 nll_loss_lang kd_loss
                            (zip (map fst indices) kd_rates) 0) (\<lambda>total_kd_loss.
                  Inr (total_kd_loss, queues1))))))"

definition global_multi_level ::
  "criterion \<Rightarrow> extra \<Rightarrow> real list \<Rightarrow> real list \<Rightarrow> real list \<Rightarrow> bool list
     \<Rightarrow> py_error + real list \<Rightarrow> int list list \<Rightarrow> py_error + strategy_result" where
  "global_multi_level crit extra golden_loss nll_loss nll_loss_teacher pad_mask cross_entropy_call
       src_tokens =
     bind_err cross_entropy_call (\<lambda>kd_loss0.
       let kd_loss = masked_fill kd_loss0 pad_mask 0
       in bind_err (global_multi_level_kd crit src_tokens nll_loss kd_loss)
            (\<lambda>(total_kd_loss, queues1).
               bind_err (blend_sums (alpha crit) (sum_list golden_loss) total_kd_loss) (\<lambda>loss.
                 Inr (loss, kd_loss,
                      kd_extras extra total_kd_loss nll_loss nll_loss_teacher,
                      crit\<lparr>queue := LangQueues queues1\<rparr>))))"

section \<open>The token-level part of \<open>compute_loss\<close>\<close>

text \<open>
  The inputs are the flattened results of \<open>get_lprobs_and_target\<close> (the model's
  log-probabilities, one row per token, and the targets), the student logits
  \<open>net_output[0]\<close> flattened the same way, the logits \<open>teacher_output[0]\<close> of the
  optional \<open>teacher_output\<close>, the optional \<open>teacher_lprobs\<close> of the sample and the
  source tokens. The statements are those of lines 295 to 438 of the source, in order:
  \<^verbatim>\<open>
  pad_mask = target.eq(self.padding_idx).view(-1)
  teacher_logits = teacher_output[0]
  golden_loss, nll_loss = label_smoothed_nll_loss(lprobs, target, self.eps,
                              ignore_index=self.padding_idx, reduce=False)
  if teacher_lprobs is not None:
      _, nll_loss_teacher = label_smoothed_nll_loss(teacher_lprobs, target, ...)
  nll_loss_teacher = nll_loss_teacher.view(-1)
  extra['golden_loss'] = golden_loss.sum()
  if teacher_output is None:
      loss = golden_loss
  elif self.kd_strategy == 'word_and_seq_level': ...
  elif not self.use_adaptive_weightage and self.kd_strategy == 'batch_level': ...
  elif not self.use_adaptive_weightage and self.kd_strategy == 'global_level': ...
  elif not self.use_adaptive_weightage and self.kd_strategy == "global_multi_level": ...
  else:
      raise ValueError("unknown strategy or parameter mismatch")
  \<close>
  Subscripting \<open>None\<close> raises \<open>TypeError\<close>; reading \<open>nll_loss_teacher\<close> when the
  sample had no \<open>teacher_lprobs\<close> raises \<open>UnboundLocalError\<close>. The result is the loss,
  the variable \<open>kd_loss\<close> (unbound after the first branch), \<open>golden_loss\<close>, \<open>extra\<close>
  and the criterion.
\<close>

fun tokens_of :: "loss_val \<Rightarrow> real list" where
  "tokens_of (PerToken xs) = xs"
| "tokens_of (Scalar x) = [x]"

definition compute_token_loss ::
  "criterion \<Rightarrow> tensor2 \<Rightarrow> int list \<Rightarrow> real list list \<Rightarrow> real list list option
     \<Rightarrow> tensor2 option \<Rightarrow> int list list
     \<Rightarrow> py_error + (loss_val \<times> real list option \<times> real list \<times> extra \<times> criterion)" where
  "compute_token_loss crit lprobs target student_logits teacher_output teacher_lprobs src_tokens =
     (let pad_mask = map (\<lambda>t. t = padding_idx crit) target
      in bind_err (case teacher_output of None \<Rightarrow> Inl TypeError | Some t \<Rightarrow> Inr t)
           (\<lambda>teacher_logits.
         bind_err (label_smoothed_nll_loss lprobs target (eps crit) (Some (padding_idx crit)) False)
           (\<lambda>(golden_loss0, nll_loss0).
         bind_err (case teacher_lprobs of
                     None \<Rightarrow> Inr None
                   | Some tlp \<Rightarrow>
                       bind_err (label_smoothed_nll_loss tlp target (eps crit)
                                   (Some (padding_idx crit)) False)
                         (\<lambda>(l, n). Inr (Some n)))
           (\<lambda>nll_loss_teacher0.
         bind_err (case nll_loss_teacher0 of
                     None \<Rightarrow> Inl UnboundLocalError
                   | Some n \<Rightarrow> Inr (tokens_of n))
           (\<lambda>nll_loss_teacher.
            let nll_loss = tokens_of nll_loss0;
                golden_loss = tokens_of golden_loss0;
                extra = [''golden_loss'' \<mapsto> Scalar (sum_list golden_loss)];
                cross_entropy_call = kd_cross_entropy crit student_logits teacher_logits;
                with_kd = (\<lambda>r. bind_err r (\<lambda>(loss, kd_loss, extra1, crit1).
                                   Inr (loss, Some kd_loss, golden_loss, extra1, crit1)))
            in if teacher_output = None
               then Inr (PerToken golden_loss, None, golden_loss, extra, crit)
               else if kd_strategy crit = ''word_and_seq_level''
               then with_kd (word_and_seq_level crit extra golden_loss nll_loss nll_loss_teacher
                               pad_mask cross_entropy_call)
               else if \<not> use_adaptive_weightage crit \<and> kd_strategy crit = ''batch_level''
               then with_kd (batch_level crit extra golden_loss nll_loss nll_loss_teacher
                               pad_mask cross_entropy_call)
               else if \<not> use_adaptive_weightage crit \<and> kd_strategy crit = ''global_level''
               then with_kd (global_level crit extra golden_loss nll_loss nll_loss_teacher
                               pad_mask cross_entropy_call)
               else if \<not> use_adaptive_weightage crit \<and> kd_strategy crit = ''global_multi_level''
               then with_kd (global_multi_level crit extra golden_loss nll_loss nll_loss_teacher
                               pad_mask cross_entropy_call src_tokens)
               else Inl ValueError)))))"

section \<open>The per-language selection in the words of the specification\<close>

text \<open>
  Section 4.3: gate and select per language, accumulate the total over the languages.
  For each language of the batch, with the gate of that language, the per-token KD
  values of the tokens of that language's sentences whose student loss is at or above
  the gate are summed. \<open>nll_rows\<close> and \<open>kd_rows\<close> hold one row per sentence.
\<close>

definition spec_multi_level_total ::
  "(int \<times> nat list) list \<Rightarrow> (int \<Rightarrow> real) \<Rightarrow> real list list \<Rightarrow> real list list \<Rightarrow> real" where
  "spec_multi_level_total indices gate nll_rows kd_rows =
     (\<Sum>(lang, sentences)\<leftarrow>indices.
        \<Sum>i\<leftarrow>sentences.
          \<Sum>(n, k)\<leftarrow>zip (nll_rows ! i) (kd_rows ! i). if gate lang \<le> n then k else 0)"

text \<open>A criterion as the constructor leaves it for the global multi-level strategy.\<close>

definition multi_level_criterion :: "int list \<Rightarrow> real option \<Rightarrow> int \<Rightarrow> criterion" where
  "multi_level_criterion src_lang_ids rate queue_size =
     \<lparr>sentence_avg = False, eps = 0, padding_idx = 1,
      kd_strategy = ''global_multi_level'', student_temp = 1, teacher_temp = 1,
      kd_rate = rate, kd_queue_size = queue_size,
      use_adaptive_weightage = False, use_adaptive_kd_rates = False,
      kd_selection_temp = None, alpha = init_alpha (Some (1 / 2)) False,
      beta = init_beta None, rambda = 1000000, decay = 985 / 1000,
      loss_type = ''mse'', decoder_kd = False, self_kd = True, cross_kd = True,
      value_kd = False, report_accuracy = False,
      queue = init_queue ''global_multi_level'' src_lang_ids\<rparr>"

section \<open>Representation distillation\<close>

text \<open>
  The attention and value-relation maps are tensors of the tensor library, which is no
  code of this repository: the type of the maps and the library's reductions are
  parameters. Each reduction returns a number or raises (on shapes that do not fit).
  \<^item> \<open>mse_loss a b\<close> is \<open>F.mse_loss(a, b, reduction='mean')\<close>;
  \<^item> \<open>kl_div_mean a b\<close> is \<open>F.kl_div(a, b, reduction='mean')\<close>;
  \<^item> \<open>kl_flat_sum a b\<close> is \<open>F.kl_div(F.log_softmax(rearrange(a, 'B C H W -> B C (H W)'),
    dim=-1), F.log_softmax(rearrange(b, 'B C H W -> B C (H W)'), dim=-1), reduction='sum',
    log_target=True)\<close>, and \<open>kl_flat_batchmean\<close> the same with \<open>reduction='batchmean'\<close>;
  \<^item> \<open>shape2 t\<close> is \<open>t.shape[2]\<close> and \<open>last4 t\<close> is \<open>t[:, -4:, :, :]\<close>.
\<close>

record 't torch_ops =
  mse_loss :: "'t \<Rightarrow> 't \<Rightarrow> py_error + real"
  kl_div_mean :: "'t \<Rightarrow> 't \<Rightarrow> py_error + real"
  kl_flat_sum :: "'t \<Rightarrow> 't \<Rightarrow> py_error + real"
  kl_flat_batchmean :: "'t \<Rightarrow> 't \<Rightarrow> py_error + real"
  shape2 :: "'t \<Rightarrow> py_error + nat"
  last4 :: "'t \<Rightarrow> py_error + 't"

text \<open>
  The maps that reach \<open>compute_loss\<close>: the student's come from the model's output, the
  teacher's from \<open>sample.get(..., None)\<close>.
\<close>

record 't rep_maps =
  attn :: "'t option"
  teacher_attn :: "'t option"
  decoder_self_attn :: "'t option"
  decoder_cross_attn :: "'t option"
  teacher_decoder_self_attn :: "'t option"
  teacher_decoder_cross_attn :: "'t option"
  value_relation :: "'t option"
  teacher_value_relation :: "'t option"
  regressed_maps :: "'t option"

text \<open>The local variables that hold the terms; Python's \<open>None\<close> is \<open>None\<close>.\<close>

record rep_terms =
  attn_loss :: "real option"
  decoder_self_attn_loss :: "real option"
  decoder_cross_attn_loss :: "real option"
  value_relation_loss :: "real option"
  regression_loss :: "real option"

definition no_terms :: rep_terms where
  "no_terms = \<lparr>attn_loss = None, decoder_self_attn_loss = None, decoder_cross_attn_loss = None,
                value_relation_loss = None, regression_loss = None\<rparr>"

text \<open>A library call on optional maps: a map that is \<open>None\<close> makes the call raise.\<close>

definition call2 ::
  "('t \<Rightarrow> 't \<Rightarrow> py_error + real) \<Rightarrow> 't option \<Rightarrow> 't option \<Rightarrow> py_error + real" where
  "call2 f a b =
     (case a of
        None \<Rightarrow> Inl AttributeError
      | Some x \<Rightarrow> (case b of None \<Rightarrow> Inl AttributeError | Some y \<Rightarrow> f x y))"

text \<open>
  \<open>self.decay ** n\<close> for a Python float and an int: a negative power of zero raises.
\<close>

definition py_pow :: "real \<Rightarrow> int \<Rightarrow> py_error + real" where
  "py_pow d n =
     (if 0 \<le> n then Inr (d ^ nat n)
      else if d = 0 then Inl ZeroDivisionError
      else Inr (1 / d ^ nat (- n)))"

text \<open>
  A term \<open>call * ... (self.decay ** (epoch-1)) ...\<close>: the library call, then the power,
  then the products and quotients of the source, given as \<open>g raw pw\<close>.
\<close>

definition weigh ::
  "criterion \<Rightarrow> int \<Rightarrow> py_error + real \<Rightarrow> (real \<Rightarrow> real \<Rightarrow> real) \<Rightarrow> py_error + real" where
  "weigh crit epoch call g =
     bind_err call (\<lambda>raw. bind_err (py_pow (decay crit) (epoch - 1)) (\<lambda>pw. Inr (g raw pw)))"

text \<open>
  \<^verbatim>\<open>
  if self.value_kd:
      x = value_relation.shape[2]
      value_relation_loss = F.kl_div(F.log_softmax(rearrange(teacher_value_relation, ...), dim=-1),
          F.log_softmax(rearrange(value_relation, ...), dim=-1), reduction='batchmean',
          log_target=True) * self.rambda * (self.decay ** (epoch-1)) / (x * 4)
  \<close>
\<close>

definition value_block ::
  "'t torch_ops \<Rightarrow> criterion \<Rightarrow> int \<Rightarrow> 't rep_maps \<Rightarrow> rep_terms \<Rightarrow> py_error + rep_terms" where
  "value_block ops crit epoch maps terms =
     (if value_kd crit
      then bind_err (case value_relation maps of
                       None \<Rightarrow> Inl AttributeError
                     | Some v \<Rightarrow> shape2 ops v) (\<lambda>x.
           bind_err (weigh crit epoch
                       (call2 (kl_flat_batchmean ops) (teacher_value_relation maps)
                          (value_relation maps))
                       (\<lambda>raw pw. raw * rambda crit * pw / (real x * 4))) (\<lambda>v.
             if x = 0 then Inl NonFinite
             else Inr (terms\<lparr>value_relation_loss := Some v\<rparr>)))
      else Inr terms)"

text \<open>
  \<^verbatim>\<open>
  if self.self_kd and self.cross_kd:
      decoder_self_attn_loss = f(decoder_self_attn, teacher_decoder_self_attn) ... / 2
      decoder_cross_attn_loss = f(decoder_cross_attn, teacher_decoder_cross_attn) ... / 2
  elif self.self_kd:
      decoder_self_attn_loss = f(decoder_self_attn, teacher_decoder_self_attn) ...
  elif self.cross_kd:
      decoder_cross_attn_loss = f(decoder_cross_attn, teacher_decoder_cross_attn) ...
  \<close>
  with \<open>f\<close> the mean-squared error or the summed divergence, and \<open>whole\<close> and \<open>half\<close>
  the arithmetic of the source around the call.
\<close>

definition decoder_block ::
  "('t \<Rightarrow> 't \<Rightarrow> py_error + real) \<Rightarrow> (real \<Rightarrow> real \<Rightarrow> real) \<Rightarrow> (real \<Rightarrow> real \<Rightarrow> real)
     \<Rightarrow> criterion \<Rightarrow> int \<Rightarrow> 't rep_maps \<Rightarrow> rep_terms \<Rightarrow> py_error + rep_terms" where
  "decoder_block f whole half crit epoch maps terms =
     (if self_kd crit \<and> cross_kd crit
      then bind_err (weigh crit epoch
                       (call2 f (decoder_self_attn maps) (teacher_decoder_self_attn maps)) half)
             (\<lambda>s.
           bind_err (weigh crit epoch
                       (call2 f (decoder_cross_attn maps) (teacher_decoder_cross_attn maps)) half)
             (\<lambda>c. Inr (terms\<lparr>decoder_self_attn_loss := Some s,
                               decoder_cross_attn_loss := Some c\<rparr>)))
      else if self_kd crit
      then bind_err (weigh crit epoch
                       (call2 f (decoder_self_attn maps) (teacher_decoder_self_attn maps)) whole)
             (\<lambda>s. Inr (terms\<lparr>decoder_self_attn_loss := Some s\<rparr>))
      else if cross_kd crit
      then bind_err (weigh crit epoch
                       (call2 f (decoder_cross_attn maps) (teacher_decoder_cross_attn maps)) whole)
             (\<lambda>c. Inr (terms\<lparr>decoder_cross_attn_loss := Some c\<rparr>))
      else Inr terms)"

text \<open>The arithmetic around the calls, as the source writes it for each family.\<close>

definition mse_whole :: "criterion \<Rightarrow> real \<Rightarrow> real \<Rightarrow> real" where
  "mse_whole crit raw pw = raw * rambda crit * pw"

definition mse_half :: "criterion \<Rightarrow> real \<Rightarrow> real \<Rightarrow> real" where
  "mse_half crit raw pw = raw * rambda crit * pw / 2"

definition kld_whole :: "criterion \<Rightarrow> real \<Rightarrow> real \<Rightarrow> real" where
  "kld_whole crit raw pw = raw * pw * rambda crit"

definition kld_half :: "criterion \<Rightarrow> real \<Rightarrow> real \<Rightarrow> real" where
  "kld_half crit raw pw = raw * pw / 2 * rambda crit"

text \<open>
  The terms of the modes that fall through to the common summation. \<open>regression\<close> with
  \<open>decoder_kd\<close> and \<open>minilm\<close> read the local variable \<open>decoder_attn\<close>, which nothing
  assigns before: \<open>UnboundLocalError\<close>. In \<open>minilm\<close> the slices come first, and
  subscripting a value relation that is \<open>None\<close> raises \<open>TypeError\<close>.
\<close>

definition mse_terms ::
  "'t torch_ops \<Rightarrow> criterion \<Rightarrow> int \<Rightarrow> 't rep_maps \<Rightarrow> py_error + rep_terms" where
  "mse_terms ops crit epoch maps =
     bind_err (weigh crit epoch (call2 (mse_loss ops) (attn maps) (teacher_attn maps))
                 (mse_whole crit)) (\<lambda>a.
     bind_err (value_block ops crit epoch maps (no_terms\<lparr>attn_loss := Some a\<rparr>)) (\<lambda>terms.
       if decoder_kd crit
       then decoder_block (mse_loss ops) (mse_whole crit) (mse_half crit) crit epoch maps terms
       else Inr terms))"

definition regression_terms ::
  "'t torch_ops \<Rightarrow> criterion \<Rightarrow> int \<Rightarrow> 't rep_maps \<Rightarrow> py_error + rep_terms" where
  "regression_terms ops crit epoch maps =
     bind_err (weigh crit epoch (call2 (mse_loss ops) (attn maps) (regressed_maps maps))
                 (\<lambda>raw pw. raw * rambda crit * pw / 50)) (\<lambda>r.
     bind_err (value_block ops crit epoch maps (no_terms\<lparr>regression_loss := Some r\<rparr>)) (\<lambda>terms.
       if decoder_kd crit then Inl UnboundLocalError else Inr terms))"

definition kld_terms ::
  "'t torch_ops \<Rightarrow> criterion \<Rightarrow> int \<Rightarrow> 't rep_maps \<Rightarrow> py_error + rep_terms" where
  "kld_terms ops crit epoch maps =
     bind_err (weigh crit epoch (call2 (kl_flat_sum ops) (attn maps) (teacher_attn maps))
                 (kld_whole crit)) (\<lambda>a.
       if decoder_kd crit
       then decoder_block (kl_flat_sum ops) (kld_whole crit) (kld_half crit) crit epoch maps
              (no_terms\<lparr>attn_loss := Some a\<rparr>)
       else Inr (no_terms\<lparr>attn_loss := Some a\<rparr>))"

definition decoder_terms ::
  "'t torch_ops \<Rightarrow> criterion \<Rightarrow> int \<Rightarrow> 't rep_maps \<Rightarrow> py_error + rep_terms" where
  "decoder_terms ops crit epoch maps =
     decoder_block (mse_loss ops) (mse_whole crit) (mse_half crit) crit epoch maps no_terms"

definition slice_last4 :: "'t torch_ops \<Rightarrow> 't option \<Rightarrow> py_error + 't" where
  "slice_last4 ops t = (case t of None \<Rightarrow> Inl TypeError | Some x \<Rightarrow> last4 ops x)"

definition minilm_terms ::
  "'t torch_ops \<Rightarrow> criterion \<Rightarrow> int \<Rightarrow> 't rep_maps \<Rightarrow> py_error + rep_terms" where
  "minilm_terms ops crit epoch maps =
     bind_err (slice_last4 ops (attn maps)) (\<lambda>attn1.
     bind_err (slice_last4 ops (teacher_attn maps)) (\<lambda>teacher_attn1.
     bind_err (slice_last4 ops (value_relation maps)) (\<lambda>value_relation1.
     bind_err (slice_last4 ops (teacher_value_relation maps)) (\<lambda>teacher_value_relation1.
       Inl UnboundLocalError))))"

text \<open>
  After an epoch above 100:
  \<^verbatim>\<open>
  attn_loss = F.kl_div(attn, teacher_attn, reduction='mean') * self.rambda * 0
  value_relation_loss = F.kl_div(value_relation, teacher_value_relation,
                                 reduction='mean') * self.rambda * 0
  \<close>
\<close>

definition late_terms :: "'t torch_ops \<Rightarrow> criterion \<Rightarrow> 't rep_maps \<Rightarrow> py_error + rep_terms" where
  "late_terms ops crit maps =
     bind_err (call2 (kl_div_mean ops) (attn maps) (teacher_attn maps)) (\<lambda>a.
     bind_err (call2 (kl_div_mean ops) (value_relation maps) (teacher_value_relation maps)) (\<lambda>v.
       Inr (no_terms\<lparr>attn_loss := Some (a * rambda crit * 0),
                      value_relation_loss := Some (v * rambda crit * 0)\<rparr>)))"

section \<open>The confidence-weighted modes\<close>

text \<open>Sums and products of a loss that is a scalar or a per-token tensor.\<close>

fun lv_scale :: "real \<Rightarrow> loss_val \<Rightarrow> loss_val" where
  "lv_scale c (Scalar x) = Scalar (c * x)"
| "lv_scale c (PerToken xs) = PerToken (map (\<lambda>x. c * x) xs)"

fun lv_add :: "loss_val \<Rightarrow> loss_val \<Rightarrow> py_error + loss_val" where
  "lv_add (Scalar x) (Scalar y) = Inr (Scalar (x + y))"
| "lv_add (Scalar x) (PerToken ys) = Inr (PerToken (map (\<lambda>y. x + y) ys))"
| "lv_add (PerToken xs) (Scalar y) = Inr (PerToken (map (\<lambda>x. x + y) xs))"
| "lv_add (PerToken xs) (PerToken ys) =
     (if length xs = length ys then Inr (PerToken (map (\<lambda>(x, y). x + y) (zip xs ys)))
      else Inl RuntimeError)"

text \<open>\<open>((1.0 - self.alpha) * golden_loss).sum()\<close> and \<open>c * self.alpha * s\<close>.\<close>

definition golden_part :: "weightage \<Rightarrow> real list \<Rightarrow> py_error + real" where
  "golden_part a golden_loss =
     (case a of
        NoWeight \<Rightarrow> Inl TypeError
      | Weight w \<Rightarrow> Inr (sum_list (map (\<lambda>g. (1 - w) * g) golden_loss))
      | TokenWeights ws \<Rightarrow>
          (if length ws = length golden_loss
           then Inr (sum_list (map (\<lambda>(w, g). (1 - w) * g) (zip ws golden_loss)))
           else Inl RuntimeError))"

definition alpha_times :: "real \<Rightarrow> weightage \<Rightarrow> real \<Rightarrow> py_error + loss_val" where
  "alpha_times c a s =
     (case a of
        NoWeight \<Rightarrow> Inl TypeError
      | Weight w \<Rightarrow> Inr (Scalar (c * w * s))
      | TokenWeights ws \<Rightarrow> Inr (PerToken (map (\<lambda>w. c * w * s) ws)))"

text \<open>
  \<^verbatim>\<open>
  probs = torch.exp(lprobs)
  entropy = torch.sum(probs * lprobs, dim=1)  # bsz
  avg_prob = 1 / probs.shape[-1] * torch.ones((1, probs.shape[-1]))
  weight = entropy / torch.sum(avg_prob * torch.log(avg_prob))  # bsz
  weight_mean = torch.mean(weight, dim=0)
  \<close>
  \<open>1 / probs.shape[-1]\<close> divides Python numbers and raises for an empty vocabulary. The
  divisor of \<open>weight\<close> is zero for a vocabulary of one entry, and the mean of no rows is
  a NaN.
\<close>

definition weight_mean :: "tensor2 \<Rightarrow> py_error + real" where
  "weight_mean lprobs =
     (if ncols lprobs = 0 then Inl ZeroDivisionError
      else (let avg_prob = 1 / real (ncols lprobs);
                divisor = sum_list (replicate (ncols lprobs) (avg_prob * ln avg_prob));
                entropy = map (\<lambda>r. sum_list (map (\<lambda>l. exp l * l) r)) (rows lprobs);
                weight = map (\<lambda>h. h / divisor) entropy
            in if divisor = 0 \<or> rows lprobs = [] then Inl NonFinite
               else Inr (sum_list weight / real (length weight))))"

text \<open>
  \<open>rep_loss = attn_loss + decoder_self_attn_loss + decoder_cross_attn_loss\<close>: a term that
  is \<open>None\<close> makes the sum raise. The result is the sum and the three terms.
\<close>

definition rep_sum :: "rep_terms \<Rightarrow> py_error + (real \<times> real \<times> real \<times> real)" where
  "rep_sum terms =
     (case attn_loss terms of
        None \<Rightarrow> Inl TypeError
      | Some a \<Rightarrow>
          (case decoder_self_attn_loss terms of
             None \<Rightarrow> Inl TypeError
           | Some s \<Rightarrow>
               (case decoder_cross_attn_loss terms of
                  None \<Rightarrow> Inl TypeError
                | Some c \<Rightarrow> Inr (a + s + c, a, s, c))))"

text \<open>
  \<^verbatim>\<open>
  rep_loss = (attn_loss + decoder_self_attn_loss + decoder_cross_attn_loss).sum()
  extra['attn_loss'] = attn_loss.sum()
  extra['decoder_self_attn_loss'] = decoder_self_attn_loss.sum()
  extra['decoder_cross_attn_loss'] = decoder_cross_attn_loss.sum()
  loss = ((1.0 - self.alpha) * golden_loss).sum()
  (weight_mean as above)
  rep_loss = weight_mean * rep_loss            # kld_uncertainty: ... * 2
  kd_loss =  (1 - weight_mean) * self.alpha * kd_loss.sum()   # kld_uncertainty: ... * 2
  extra['rep_loss'] = rep_loss                 # kld_uncertainty: extra['weight'] first
  extra['kd_loss'] = kd_loss
  loss += rep_loss + kd_loss
  return loss, extra
  \<close>
  \<open>factor\<close> is 1 in \<open>mse_uncertainty\<close> and 2 in \<open>kld_uncertainty\<close>, which also records
  the weight.
\<close>

definition uncertainty_return ::
  "criterion \<Rightarrow> real \<Rightarrow> bool \<Rightarrow> tensor2 \<Rightarrow> real list \<Rightarrow> real list option \<Rightarrow> extra \<Rightarrow> rep_terms
     \<Rightarrow> py_error + (loss_val \<times> extra)" where
  "uncertainty_return crit factor record_weight lprobs golden_loss kd_loss extra terms =
     bind_err (rep_sum terms) (\<lambda>(rep_loss0, a, s, c).
       let extra1 = extra(''attn_loss'' \<mapsto> Scalar a,
                          ''decoder_self_attn_loss'' \<mapsto> Scalar s,
                          ''decoder_cross_attn_loss'' \<mapsto> Scalar c)
       in bind_err (golden_part (alpha crit) golden_loss) (\<lambda>loss0.
          bind_err (weight_mean lprobs) (\<lambda>wm.
            let rep_loss = wm * rep_loss0 * factor
            in bind_err (case kd_loss of
                           None \<Rightarrow> bind_err (alpha_times (1 - wm) (alpha crit) 0)
                                     (\<lambda>x. Inl UnboundLocalError)
                         | Some kd \<Rightarrow> alpha_times (1 - wm) (alpha crit) (sum_list kd))
                 (\<lambda>kd_loss1.
                    let kd_loss2 = lv_scale factor kd_loss1;
                        extra2 = (if record_weight then extra1(''weight'' \<mapsto> Scalar wm) else extra1);
                        extra3 = extra2(''rep_loss'' \<mapsto> Scalar rep_loss, ''kd_loss'' \<mapsto> kd_loss2)
                    in bind_err (lv_add (Scalar rep_loss) kd_loss2) (\<lambda>added.
                       bind_err (lv_add (Scalar loss0) added) (\<lambda>loss.
                         Inr (loss, extra3)))))))"

text \<open>
  \<^verbatim>\<open>
  if attn_loss:
      extra['attn_loss'] = attn_loss.sum()
      loss += attn_loss
  \<close>
  and the same for the other four terms: a term that is \<open>None\<close> or zero is skipped.
\<close>

definition add_term ::
  "string \<Rightarrow> real option \<Rightarrow> loss_val \<times> extra \<Rightarrow> py_error + (loss_val \<times> extra)" where
  "add_term name term acc =
     (case term of
        None \<Rightarrow> Inr acc
      | Some v \<Rightarrow>
          (if v \<noteq> 0
           then bind_err (lv_add (fst acc) (Scalar v)) (\<lambda>loss.
                  Inr (loss, (snd acc)(name \<mapsto> Scalar v)))
           else Inr acc))"

definition add_terms :: "rep_terms \<Rightarrow> loss_val \<times> extra \<Rightarrow> py_error + (loss_val \<times> extra)" where
  "add_terms terms acc =
     bind_err (add_term ''attn_loss'' (attn_loss terms) acc) (\<lambda>acc1.
     bind_err (add_term ''decoder_self_attn_loss'' (decoder_self_attn_loss terms) acc1) (\<lambda>acc2.
     bind_err (add_term ''decoder_cross_attn_loss'' (decoder_cross_attn_loss terms) acc2) (\<lambda>acc3.
     bind_err (add_term ''value_relation_loss'' (value_relation_loss terms) acc3) (\<lambda>acc4.
       add_term ''regression_loss'' (regression_loss terms) acc4))))"

section \<open>The representation part of \<open>compute_loss\<close>\<close>

text \<open>
  Lines 439 to 606 of the source. \<open>if epoch:\<close> is false for \<open>None\<close> and for 0. The two
  confidence-weighted modes return from inside the branch; the others, and a loss type
  that is none of the seven, go on to the common summation.
\<close>

definition representation_losses ::
  "'t torch_ops \<Rightarrow> criterion \<Rightarrow> int option \<Rightarrow> 't rep_maps \<Rightarrow> tensor2 \<Rightarrow> real list
     \<Rightarrow> real list option \<Rightarrow> loss_val \<Rightarrow> extra \<Rightarrow> py_error + (loss_val \<times> extra)" where
  "representation_losses ops crit epoch maps lprobs golden_loss kd_loss loss extra =
     (case epoch of
        None \<Rightarrow> add_terms no_terms (loss, extra)
      | Some e \<Rightarrow>
          (if e = 0 then add_terms no_terms (loss, extra)
           else if e \<le> 100
           then (if attn maps \<noteq> None \<and> teacher_attn maps \<noteq> None
                 then (if loss_type crit = ''mse''
                       then bind_err (mse_terms ops crit e maps)
                              (\<lambda>terms. add_terms terms (loss, extra))
                       else if loss_type crit = ''mse_uncertainty''
                       then bind_err (mse_terms ops crit e maps)
                              (uncertainty_return crit 1 False lprobs golden_loss kd_loss extra)
                       else if loss_type crit = ''regression''
                       then bind_err (regression_terms ops crit e maps)
                              (\<lambda>terms. add_terms terms (loss, extra))
                       else if loss_type crit = ''kld_uncertainty''
                       then bind_err (golden_part (alpha crit) golden_loss) (\<lambda>loss0.
                            bind_err (kld_terms ops crit e maps)
                              (uncertainty_return crit 2 True lprobs golden_loss kd_loss extra))
                       else if loss_type crit = ''kld''
                       then bind_err (kld_terms ops crit e maps)
                              (\<lambda>terms. add_terms terms (loss, extra))
                       else if loss_type crit = ''decoder''
                       then bind_err (decoder_terms ops crit e maps)
                              (\<lambda>terms. add_terms terms (loss, extra))
                       else if loss_type crit = ''minilm''
                       then bind_err (minilm_terms ops crit e maps)
                              (\<lambda>terms. add_terms terms (loss, extra))
                       else add_terms no_terms (loss, extra))
                 else add_terms no_terms (loss, extra))
           else (if attn maps \<noteq> None \<and> teacher_attn maps \<noteq> None
                 then bind_err (late_terms ops crit maps)
                        (\<lambda>terms. add_terms terms (loss, extra))
                 else add_terms no_terms (loss, extra))))"

definition compute_loss ::
  "'t torch_ops \<Rightarrow> criterion \<Rightarrow> tensor2 \<Rightarrow> int list \<Rightarrow> real list list \<Rightarrow> int list list
     \<Rightarrow> int option \<Rightarrow> real list list option \<Rightarrow> tensor2 option \<Rightarrow> 't rep_maps
     \<Rightarrow> py_error + (loss_val \<times> extra \<times> criterion)" where
  "compute_loss ops crit lprobs target student_logits src_tokens epoch teacher_output
       teacher_lprobs maps =
     bind_err (compute_token_loss crit lprobs target student_logits teacher_output teacher_lprobs
                 src_tokens) (\<lambda>(loss, kd_loss, golden_loss, extra, crit1).
       bind_err (representation_losses ops crit1 epoch maps lprobs golden_loss kd_loss loss extra)
         (\<lambda>(loss1, extra1). Inr (loss1, extra1, crit1)))"

section \<open>The forward pass\<close>

text \<open>
  What the model returns for the batch, flattened to one row per token where the source
  flattens it: the log-probabilities of \<open>get_normalized_probs\<close>, the logits
  \<open>net_output[0]\<close>, the decoder attention tensors of \<open>net_output[1]\<close> and the triple
  \<open>(attn_output, value_relation, regressed_maps)\<close>. \<open>ignore_prefix_size\<close> is 0.
\<close>

record 't model_output =
  out_lprobs :: tensor2
  out_logits :: "real list list"
  out_self_attn_tensor :: "'t option"
  out_cross_attn_tensor :: "'t option"
  out_attn_output :: "'t option"
  out_value_relation :: "'t option"
  out_regressed_maps :: "'t option"

text \<open>
  The batch: the source tokens and targets, one row per sentence, the token count, and
  the teacher's artefacts, each read with \<open>sample.get(key, None)\<close>.
\<close>

record 't sample =
  sample_src_tokens :: "int list list"
  sample_target :: "int list list"
  sample_ntokens :: nat
  sample_teacher_output :: "real list list option"
  sample_teacher_lprobs :: "tensor2 option"
  sample_teacher_attn_output :: "'t option"
  sample_teacher_decoder_self_attn_output :: "'t option"
  sample_teacher_decoder_cross_attn_output :: "'t option"
  sample_teacher_value_relation :: "'t option"

text \<open>
  \<^verbatim>\<open>
  def compute_accuracy(self, model, net_output, sample):
      lprobs, target = self.get_lprobs_and_target(model, net_output, sample)
      mask = target.ne(self.padding_idx)
      n_correct = torch.sum(
          lprobs.argmax(1).masked_select(mask).eq(target.masked_select(mask)))
      total = torch.sum(mask)
      return n_correct, total
  \<close>
  \<open>argmax\<close> is the position of the first largest entry of a row and raises on rows
  without entries.
\<close>

definition argmax_row :: "real list \<Rightarrow> nat" where
  "argmax_row r = length (takeWhile (\<lambda>x. x \<noteq> Max (set r)) r)"

definition compute_accuracy :: "criterion \<Rightarrow> tensor2 \<Rightarrow> int list \<Rightarrow> py_error + (nat \<times> nat)" where
  "compute_accuracy crit lprobs targets =
     (if ncols lprobs = 0 \<or> length targets \<noteq> length (rows lprobs) then Inl IndexError
      else (let kept = filter (\<lambda>(r, t). t \<noteq> padding_idx crit) (zip (rows lprobs) targets)
            in Inr (length (filter (\<lambda>(r, t). int (argmax_row r) = t) kept), length kept)))"

text \<open>
  \<open>extra['k'].data if extra.get('k', None) is not None else d\<close>.
\<close>

definition extra_or :: "extra \<Rightarrow> string \<Rightarrow> loss_val \<Rightarrow> loss_val" where
  "extra_or extra k d = (case extra k of Some v \<Rightarrow> v | None \<Rightarrow> d)"

text \<open>
  \<^verbatim>\<open>
  def forward(self, model, sample, epoch=None, reduce=True, teacher_maps=None):
      net_output, (attn_output, value_relation, regressed_maps) = model(**sample["net_input"])
      decoder_self_attn_output = net_output[1]['self_attn_tensor']
      decoder_cross_attn_output = net_output[1]['cross_attn_tensor']
      teacher_output = sample.get("teacher_output", None)
      (the other teacher artefacts alike)
      loss, extra = self.compute_loss(model, net_output, sample, epoch, ...)
      sample_size = (sample["target"].size(0) if self.sentence_avg else sample["ntokens"])
      logging_output = {...}
      if self.report_accuracy:
          n_correct, total = self.compute_accuracy(model, net_output, sample)
          logging_output["n_correct"] = utils.item(n_correct.data)
          logging_output["total"] = utils.item(total.data)
      return loss, sample_size, logging_output
  \<close>
  The result carries the criterion too, whose queues and \<open>alpha\<close> the call changes.
\<close>

definition forward ::
  "'t torch_ops \<Rightarrow> criterion \<Rightarrow> 't model_output \<Rightarrow> 't sample \<Rightarrow> int option
     \<Rightarrow> py_error + (loss_val \<times> nat \<times> extra \<times> criterion)" where
  "forward ops crit out smp epoch =
     (let maps = \<lparr>attn = out_attn_output out,
                  teacher_attn = sample_teacher_attn_output smp,
                  decoder_self_attn = out_self_attn_tensor out,
                  decoder_cross_attn = out_cross_attn_tensor out,
                  teacher_decoder_self_attn = sample_teacher_decoder_self_attn_output smp,
                  teacher_decoder_cross_attn = sample_teacher_decoder_cross_attn_output smp,
                  value_relation = out_value_relation out,
                  teacher_value_relation = sample_teacher_value_relation smp,
                  regressed_maps = out_regressed_maps out\<rparr>;
          targets = concat (sample_target smp)
      in bind_err (compute_loss ops crit (out_lprobs out) targets (out_logits out) (sample_src_tokens smp)
                     epoch (sample_teacher_output smp) (sample_teacher_lprobs smp) maps)
           (\<lambda>(loss, extra, crit1).
              let sample_size = (if sentence_avg crit then length (sample_target smp) else sample_ntokens smp);
                  logging_output =
                    [''loss'' \<mapsto> loss,
                     ''ntokens'' \<mapsto> Scalar (real (sample_ntokens smp)),
                     ''nsentences'' \<mapsto> Scalar (real (length (sample_target smp))),
                     ''sample_size'' \<mapsto> Scalar (real sample_size),
                     ''kd_loss'' \<mapsto> extra_or extra ''kd_loss'' (Scalar 0),
                     ''nll_loss_student'' \<mapsto> extra_or extra ''nll_loss_student'' loss,
                     ''nll_loss_teacher'' \<mapsto> extra_or extra ''nll_loss_teacher'' (Scalar 0),
                     ''attn_loss'' \<mapsto> extra_or extra ''attn_loss'' (Scalar 0),
                     ''decoder_self_attn_loss'' \<mapsto>
                        extra_or extra ''decoder_self_attn_loss'' (Scalar 0),
                     ''decoder_cross_attn_loss'' \<mapsto>
                        extra_or extra ''decoder_cross_attn_loss'' (Scalar 0),
                     ''rep_loss'' \<mapsto> extra_or extra ''rep_loss'' (Scalar 0),
                     ''golden_loss'' \<mapsto> extra_or extra ''golden_loss'' (Scalar 0),
                     ''weight'' \<mapsto> extra_or extra ''weight'' (Scalar 0)]
              in if report_accuracy crit
                 then bind_err (compute_accuracy crit1 (out_lprobs out) targets) (\<lambda>(n_correct, total).
                        Inr (loss, sample_size,
                             logging_output(''n_correct'' \<mapsto> Scalar (real n_correct),
                                            ''total'' \<mapsto> Scalar (real total)),
                             crit1))
                 else Inr (loss, sample_size, logging_output, crit1)))"

section \<open>The representation weights in the words of the specification\<close>

text \<open>
  Section 4.3: the representation-loss weight \<open>rambda\<close> is scaled every epoch by
  \<open>decay^(epoch-1)\<close>. \<open>spec_weight\<close> is that product, and \<open>terms_total\<close> the sum of the
  terms a mode has set.
\<close>

definition spec_weight :: "criterion \<Rightarrow> int \<Rightarrow> real" where
  "spec_weight crit epoch = rambda crit * decay crit ^ nat (epoch - 1)"

definition term_or_zero :: "real option \<Rightarrow> real" where
  "term_or_zero t = (case t of None \<Rightarrow> 0 | Some v \<Rightarrow> v)"

definition terms_total :: "rep_terms \<Rightarrow> real" where
  "terms_total terms =
     term_or_zero (attn_loss terms) + term_or_zero (decoder_self_attn_loss terms)
     + term_or_zero (decoder_cross_attn_loss terms) + term_or_zero (value_relation_loss terms)
     + term_or_zero (regression_loss terms)"

text \<open>
  The decoder terms of a mode, from the values \<open>s\<close> and \<open>c\<close> of the two library calls:
  split evenly between self and cross attention when both are enabled.
\<close>

definition spec_decoder_self :: "criterion \<Rightarrow> int \<Rightarrow> real \<Rightarrow> real option" where
  "spec_decoder_self crit epoch s =
     (if self_kd crit
      then Some (s * spec_weight crit epoch * (if cross_kd crit then 1 / 2 else 1))
      else None)"

definition spec_decoder_cross :: "criterion \<Rightarrow> int \<Rightarrow> real \<Rightarrow> real option" where
  "spec_decoder_cross crit epoch c =
     (if cross_kd crit
      then Some (c * spec_weight crit epoch * (if self_kd crit then 1 / 2 else 1))
      else None)"

text \<open>
  The value-relation term, from the value \<open>v\<close> of the library call and
  \<open>x = value_relation.shape[2]\<close>: divided by \<open>4 \<cdot> x\<close>.
\<close>

definition spec_value :: "criterion \<Rightarrow> int \<Rightarrow> real \<Rightarrow> nat \<Rightarrow> real option" where
  "spec_value crit epoch v x =
     (if value_kd crit then Some (v * spec_weight crit epoch / (4 * real x)) else None)"

text \<open>
  The terms of the four modes that go on to the common summation, from the values of
  their library calls: the encoder-attention value \<open>a\<close>, the decoder values \<open>s\<close> and
  \<open>c\<close>, the value-relation value \<open>v\<close> with \<open>x = value_relation.shape[2]\<close>, and the
  regression value \<open>r\<close>, divided by 50.
\<close>

definition spec_mse_terms ::
  "criterion \<Rightarrow> int \<Rightarrow> real \<Rightarrow> real \<Rightarrow> real \<Rightarrow> real \<Rightarrow> nat \<Rightarrow> rep_terms" where
  "spec_mse_terms crit epoch a s c v x =
     \<lparr>attn_loss = Some (a * spec_weight crit epoch),
      decoder_self_attn_loss = (if decoder_kd crit then spec_decoder_self crit epoch s else None),
      decoder_cross_attn_loss = (if decoder_kd crit then spec_decoder_cross crit epoch c else None),
      value_relation_loss = spec_value crit epoch v x,
      regression_loss = None\<rparr>"

definition spec_regression_terms :: "criterion \<Rightarrow> int \<Rightarrow> real \<Rightarrow> real \<Rightarrow> nat \<Rightarrow> rep_terms" where
  "spec_regression_terms crit epoch r v x =
     \<lparr>attn_loss = None, decoder_self_attn_loss = None, decoder_cross_attn_loss = None,
      value_relation_loss = spec_value crit epoch v x,
      regression_loss = Some (r * spec_weight crit epoch / 50)\<rparr>"

definition spec_kld_terms :: "criterion \<Rightarrow> int \<Rightarrow> real \<Rightarrow> real \<Rightarrow> real \<Rightarrow> rep_terms" where
  "spec_kld_terms crit epoch a s c =
     \<lparr>attn_loss = Some (a * spec_weight crit epoch),
      decoder_self_attn_loss = (if decoder_kd crit then spec_decoder_self crit epoch s else None),
      decoder_cross_attn_loss = (if decoder_kd crit then spec_decoder_cross crit epoch c else None),
      value_relation_loss = None,
      regression_loss = None\<rparr>"

definition spec_decoder_terms :: "criterion \<Rightarrow> int \<Rightarrow> real \<Rightarrow> real \<Rightarrow> rep_terms" where
  "spec_decoder_terms crit epoch s c =
     \<lparr>attn_loss = None,
      decoder_self_attn_loss = spec_decoder_self crit epoch s,
      decoder_cross_attn_loss = spec_decoder_cross crit epoch c,
      value_relation_loss = None,
      regression_loss = None\<rparr>"

text \<open>
  The loss of a confidence-weighted mode, with all three attention terms enabled and a
  fixed \<open>alpha = w\<close>: the golden part, the attention terms weighted by the mean
  confidence weight \<open>wm\<close>, and the KD part weighted by \<open>1 - wm\<close>; \<open>factor\<close> is 1 for
  \<open>mse_uncertainty\<close> and 2 for \<open>kld_uncertainty\<close>.
\<close>

definition spec_uncertainty_loss ::
  "criterion \<Rightarrow> int \<Rightarrow> real \<Rightarrow> real \<Rightarrow> real \<Rightarrow> real list \<Rightarrow> real list \<Rightarrow> real \<Rightarrow> real
     \<Rightarrow> real \<Rightarrow> real" where
  "spec_uncertainty_loss crit epoch factor w wm golden_loss kd_loss a s c =
     sum_list (map (\<lambda>g. (1 - w) * g) golden_loss)
     + (wm * (a * spec_weight crit epoch + s * spec_weight crit epoch * (1 / 2)
              + c * spec_weight crit epoch * (1 / 2)) * factor
        + factor * ((1 - wm) * w * sum_list kd_loss))"

section \<open>An instance of the tensor library\<close>

text \<open>
  Maps of shape \<open>1 \<times> 1 \<times> 1 \<times> n\<close>, as the list of their \<open>n\<close> entries: the mean-squared
  error, the pointwise divergence \<open>target \<cdot> (log target - input)\<close> of \<open>F.kl_div\<close> (zero
  where the target is zero) and, for log-space targets,
  \<open>exp target \<cdot> (target - input)\<close> on the log-softmax of the flattened maps. The batch
  has one element, so the batch mean is the sum. A mean over no entries and the
  logarithm of a negative target are NaN.
\<close>

definition row_mse :: "real list \<Rightarrow> real list \<Rightarrow> py_error + real" where
  "row_mse a b =
     (if length a \<noteq> length b then Inl RuntimeError
      else if a = [] then Inl NonFinite
      else Inr (sum_list (map (\<lambda>(x, y). (x - y)\<^sup>2) (zip a b)) / real (length a)))"

definition row_kl_mean :: "real list \<Rightarrow> real list \<Rightarrow> py_error + real" where
  "row_kl_mean a b =
     (if length a \<noteq> length b then Inl RuntimeError
      else if a = [] \<or> list_ex (\<lambda>y. y < 0) b then Inl NonFinite
      else Inr (sum_list (map (\<lambda>(x, y). if y = 0 then 0 else y * (ln y - x)) (zip a b))
                / real (length a)))"

definition row_kl_flat :: "real list \<Rightarrow> real list \<Rightarrow> py_error + real" where
  "row_kl_flat a b =
     (if length a \<noteq> length b then Inl RuntimeError
      else Inr (sum_list (map (\<lambda>(x, y). exp y * (y - x)) (zip (log_softmax a) (log_softmax b)))))"

definition row_ops :: "real list torch_ops" where
  "row_ops = \<lparr>mse_loss = row_mse, kl_div_mean = row_kl_mean, kl_flat_sum = row_kl_flat,
              kl_flat_batchmean = row_kl_flat, shape2 = (\<lambda>t. Inr 1), last4 = (\<lambda>t. Inr t)\<rparr>"

text \<open>
  The criterion of the default configuration, with a fixed \<open>alpha\<close> of one half: the
  strategy \<open>word_and_seq_level\<close>, \<open>rambda = 1000000\<close>, \<open>decay = 0.985\<close>, loss type \<open>mse\<close>.
\<close>

definition default_criterion :: criterion where
  "default_criterion =
     \<lparr>sentence_avg = False, eps = 0, padding_idx = 1,
      kd_strategy = ''word_and_seq_level'', student_temp = 1, teacher_temp = 1,
      kd_rate = None, kd_queue_size = 20000,
      use_adaptive_weightage = False, use_adaptive_kd_rates = False,
      kd_selection_temp = None, alpha = init_alpha (Some (1 / 2)) False,
      beta = init_beta None, rambda = 1000000, decay = 985 / 1000,
      loss_type = ''mse'', decoder_kd = False, self_kd = True, cross_kd = True,
      value_kd = False, report_accuracy = False,
      queue = init_queue ''word_and_seq_level'' []\<rparr>"

section \<open>The entropy-weighted distillation loss\<close>

text \<open>
  \<^verbatim>\<open>
  def dynamic_kd_loss(student_logits, teacher_logits, temperature=1.0):
      with torch.no_grad():
          student_probs = F.softmax(student_logits, dim=-1)
          student_entropy = - torch.sum(student_probs * torch.log(student_probs + 1e-6), dim=1)
          instance_weight = student_entropy / torch.log(
              torch.ones_like(student_entropy) * student_logits.size(1))
      input = F.log_softmax(student_logits / temperature, dim=-1)
      target = F.softmax(teacher_logits / temperature, dim=-1)
      batch_loss = F.kl_div(input, target, reduction="none").sum(-1) * temperature ** 2  # bsz
      weighted_kld = torch.mean(batch_loss * instance_weight)
      return weighted_kld
  \<close>
  The logits are matrices with one row per example. Real numbers stand for the floats.
  With a vocabulary of one entry the divisor \<open>log 1\<close> is zero and the weight is no
  number; with no entry the entropy is an empty sum and the weight is zero.
\<close>

definition student_entropy :: "real list \<Rightarrow> real" where
  "student_entropy logits = - (\<Sum>p\<leftarrow>softmax logits. p * ln (p + 1 / 10 ^ 6))"

definition instance_weight :: "tensor2 \<Rightarrow> py_error + real list" where
  "instance_weight student_logits =
     (if ncols student_logits = 0 then Inr (map (\<lambda>r. 0) (rows student_logits))
      else if ncols student_logits = 1 then Inl NonFinite
      else Inr (map (\<lambda>r. student_entropy r / ln (real (ncols student_logits)))
                  (rows student_logits)))"

text \<open>
  \<open>F.kl_div(input, target, reduction="none").sum(-1)\<close> for one example: the sum of
  \<open>target \<cdot> (log target - input)\<close>, zero where the target is zero.
\<close>

definition kl_div_row :: "real list \<Rightarrow> real list \<Rightarrow> real" where
  "kl_div_row inp tgt = (\<Sum>(x, t)\<leftarrow>zip inp tgt. if t = 0 then 0 else t * (ln t - x))"

definition dynamic_kd_loss :: "tensor2 \<Rightarrow> tensor2 \<Rightarrow> real \<Rightarrow> py_error + real" where
  "dynamic_kd_loss student_logits teacher_logits temperature =
     bind_err (instance_weight student_logits) (\<lambda>w.
       if temperature = 0 then Inl NonFinite
       else if ncols student_logits \<noteq> ncols teacher_logits
               \<or> length (rows student_logits) \<noteq> length (rows teacher_logits)
       then Inl RuntimeError
       else (let inp = map (\<lambda>r. log_softmax (map (\<lambda>x. x / temperature) r)) (rows student_logits);
                 tgt = map (\<lambda>r. softmax (map (\<lambda>x. x / temperature) r)) (rows teacher_logits);
                 batch_loss = map (\<lambda>(i, t). kl_div_row i t * temperature\<^sup>2) (zip inp tgt)
             in if batch_loss = [] then Inl NonFinite
                else Inr (sum_list (map (\<lambda>(b, wi). b * wi) (zip batch_loss w))
                          / real (length batch_loss))))"

section \<open>Properties of the queue\<close>

lemma push_length_le:
  assumes "int (length q) \<le> K" and "int (length t) \<le> K"
  shows "int (length (push_to_FIFO_queue K q t)) \<le> K"
  using assms by (auto simp: push_to_FIFO_queue_def Let_def)

lemma push_all_length_le:
  assumes "int (length q) \<le> K" and "list_all (\<lambda>t. int (length t) \<le> K) ts"
  shows "int (length (push_all K q ts)) \<le> K"
  using assms unfolding push_all_def
proof (induction ts arbitrary: q)
  case Nil
  then show ?case by simp
next
  case (Cons t ts)
  then show ?case by (simp add: push_length_le)
qed

text \<open>
  Claim C3, as stated: after every push of a non-empty tensor the queue holds at most
  \<open>kd_queue_size\<close> entries. It fails when the pushed tensor alone is larger than the
  capacity: with capacity 3, pushing five values onto the empty queue leaves five.
\<close>

theorem C3_queue_bound_counterexample:
  "\<not> int (length (push_all 3 [] [[1, 2, 3, 4, 5]])) \<le> 3"
  by (simp add: push_all_def push_to_FIFO_queue_def)

text \<open>
  Claim C3, amended: when the queue starts within capacity and no pushed tensor has more
  than \<open>kd_queue_size\<close> entries, the queue holds at most \<open>kd_queue_size\<close> entries after
  each push of the sequence; and a push that evicts drops the oldest \<open>tensor_sz\<close>
  entries (the front of the queue), keeps the rest in order and appends the new tensor.
\<close>

theorem C3_queue_bound_amended:
  assumes "int (length q) \<le> K"
    and "list_all (\<lambda>t. int (length t) \<le> K) ts"
  shows "(\<forall>n \<le> length ts. int (length (push_all K q (take n ts))) \<le> K)
       \<and> (\<forall>q' t. int (length t) + int (length q') \<ge> K \<longrightarrow>
             push_to_FIFO_queue K q' t = drop (length t) q' @ t)
       \<and> (\<forall>q' t. int (length t) + int (length q') < K \<longrightarrow>
             push_to_FIFO_queue K q' t = q' @ t)"
proof (intro conjI allI impI)
  fix n assume "n \<le> length ts"
  have "list_all (\<lambda>t. int (length t) \<le> K) (take n ts)"
    using assms(2) by (auto simp: list_all_iff dest: in_set_takeD)
  then show "int (length (push_all K q (take n ts))) \<le> K"
    using assms(1) by (rule push_all_length_le[rotated])
next
  fix q' t :: "real list"
  assume "K \<le> int (length t) + int (length q')"
  then show "push_to_FIFO_queue K q' t = drop (length t) q' @ t"
    by (simp add: push_to_FIFO_queue_def Let_def)
next
  fix q' t :: "real list"
  assume "int (length t) + int (length q') < K"
  then show "push_to_FIFO_queue K q' t = q' @ t"
    by (simp add: push_to_FIFO_queue_def Let_def)
qed

theorem C3_queue_bound_amended_witness:
  "int (length (push_all 3 [] (take 3 [[1, 2], [3, 4], [5]]))) \<le> 3
   \<and> push_to_FIFO_queue 3 [1, 2] [3, 4] = [3, 4]"
proof -
  have a: "int (length ([] :: real list)) \<le> 3" by simp
  have b: "list_all (\<lambda>t. int (length t) \<le> 3) [[1, 2], [3, 4], [5 :: real]]" by simp
  have c: "(3::int) \<le> int (length [3, 4 :: real]) + int (length [1, 2 :: real])" by simp
  from C3_queue_bound_amended [OF a b] c show ?thesis by force
qed

text \<open>
  Claim C4: the coefficient \<open>beta\<close> is 1 when \<open>adaptive_smoothing\<close> is unset and the
  field's value when it is given. The constructor computes the opposite: a given value
  is replaced by 1, and an unset field leaves \<open>beta\<close> unset.
\<close>

theorem C4_beta_inverted:
  "init_beta (Some (1 / 2)) = Some 1 \<and> init_beta None = None"
  by (simp add: init_beta_def)

section \<open>Properties of the batch-level selection\<close>

lemma zip_as_map_upt:
  assumes "length xs = length ys"
  shows "zip xs ys = map (\<lambda>i. (xs ! i, ys ! i)) [0..<length xs]"
  using assms by (intro nth_equalityI) simp_all

lemma sum_list_mask_select:
  assumes "length xs = length ms"
  shows "sum_list (mask_select xs ms) = (\<Sum>i | i < length xs \<and> ms ! i. xs ! i)"
proof -
  have "mask_select xs ms = map (\<lambda>i. xs ! i) (filter (\<lambda>i. ms ! i) [0..<length xs])"
    unfolding mask_select_def zip_as_map_upt[OF assms]
    by (simp add: filter_map comp_def)
  moreover have "distinct (filter (\<lambda>i. ms ! i) [0..<length xs])" by simp
  moreover have "set (filter (\<lambda>i. ms ! i) [0..<length xs]) = {i. i < length xs \<and> ms ! i}"
    by auto
  ultimately show ?thesis
    by (simp add: sum_list_distinct_conv_sum_set)
qed

lemma masked_fill_no_pad:
  assumes "length xs = n"
  shows "masked_fill xs (replicate n False) v = xs"
  using assms by (auto simp: masked_fill_def intro!: nth_equalityI)

lemma filter_ge_nth_desc:
  fixes ys :: "real list"
  assumes "sorted_wrt (>) ys" and "j < length ys"
  shows "filter (\<lambda>x. ys ! j \<le> x) ys = take (Suc j) ys"
proof -
  have a: "\<forall>x \<in> set (take (Suc j) ys). ys ! j \<le> x"
  proof
    fix x assume "x \<in> set (take (Suc j) ys)"
    then obtain i where i: "i < Suc j" "x = ys ! i"
      using assms(2) by (auto simp: in_set_conv_nth)
    show "ys ! j \<le> x"
    proof (cases "i = j")
      case True then show ?thesis using i by simp
    next
      case False
      then have "i < j" using i by simp
      then have "ys ! j < ys ! i"
        using sorted_wrt_nth_less[OF assms(1) _ assms(2), of i] by simp
      then show ?thesis using i by simp
    qed
  qed
  have b: "\<forall>x \<in> set (drop (Suc j) ys). \<not> ys ! j \<le> x"
  proof
    fix x assume "x \<in> set (drop (Suc j) ys)"
    then obtain i0 where i0: "i0 < length (drop (Suc j) ys)" "x = drop (Suc j) ys ! i0"
      by (metis in_set_conv_nth)
    define i where "i = i0"
    have i: "Suc j + i < length ys" "x = ys ! (Suc j + i)"
      using i0 by (simp_all add: i_def)
    have "ys ! (Suc j + i) < ys ! j"
      using sorted_wrt_nth_less[OF assms(1) _ i(1), of j] by simp
    then show "\<not> ys ! j \<le> x" using i by simp
  qed
  have "filter (\<lambda>x. ys ! j \<le> x) ys
      = filter (\<lambda>x. ys ! j \<le> x) (take (Suc j) ys) @ filter (\<lambda>x. ys ! j \<le> x) (drop (Suc j) ys)"
    by (metis append_take_drop_id filter_append)
  also have "\<dots> = take (Suc j) ys"
    using a b by (simp add: filter_id_conv filter_empty_conv)
  finally show ?thesis .
qed

lemma count_ge_kth_largest:
  fixes xs :: "real list"
  assumes "distinct xs" and "j < length xs"
  shows "card {i. i < length xs \<and> rev (sort xs) ! j \<le> xs ! i} = Suc j"
proof -
  let ?ys = "rev (sort xs)"
  let ?P = "\<lambda>x. ?ys ! j \<le> x"
  have srt: "sorted_wrt (>) ?ys"
    using assms(1) by (simp add: sorted_wrt_rev strict_sorted_iff)
  have "length (filter ?P xs) = size (filter_mset ?P (mset xs))"
    by (metis mset_filter size_mset)
  also have "\<dots> = size (filter_mset ?P (mset ?ys))" by simp
  also have "\<dots> = length (filter ?P ?ys)"
    by (metis mset_filter size_mset)
  also have "\<dots> = length (take (Suc j) ?ys)"
    using filter_ge_nth_desc[OF srt] assms(2) by simp
  also have "\<dots> = Suc j" using assms(2) by simp
  finally show ?thesis by (simp add: length_filter_conv_card)
qed

lemma topk_last_nth:
  assumes "0 < k" and "k \<le> int (length xs)"
  shows "topk_last xs k = Inr (rev (sort xs) ! (nat k - 1))"
proof -
  have "0 < length (take (nat k) (rev (sort xs)))" using assms by simp
  then have "take (nat k) (rev (sort xs)) \<noteq> []" by blast
  moreover have "last (take (nat k) (rev (sort xs))) = rev (sort xs) ! (nat k - 1)"
  proof -
    have "length (take (nat k) (rev (sort xs))) = nat k" using assms by simp
    then have "last (take (nat k) (rev (sort xs))) = take (nat k) (rev (sort xs)) ! (nat k - 1)"
      using \<open>take (nat k) (rev (sort xs)) \<noteq> []\<close> by (simp add: last_conv_nth)
    also have "\<dots> = rev (sort xs) ! (nat k - 1)" using assms by simp
    finally show ?thesis .
  qed
  ultimately show ?thesis using assms
    by (simp add: topk_last_def topk_values_def)
qed

lemma batch_level_general:
  assumes "distinct nll" and "length kd = length nll" and "length pad_mask = length nll"
    and "pad_mask = replicate (length nll) False"
    and "0 < \<lceil>real (length nll) * r\<rceil>" and "\<lceil>real (length nll) * r\<rceil> \<le> int (length nll)"
  shows "\<exists>gate. loss_gate_of nll (Some r) = Inr gate
           \<and> batch_level_kd_loss (Some r) nll (Inr kd) pad_mask
               = Inr (\<Sum>i | i < length nll \<and> gate \<le> nll ! i. kd ! i)
           \<and> int (card {i. i < length nll \<and> gate \<le> nll ! i}) = \<lceil>real (length nll) * r\<rceil>"
proof -
  let ?k = "\<lceil>real (length nll) * r\<rceil>"
  let ?g = "rev (sort nll) ! (nat ?k - 1)"
  have g: "loss_gate_of nll (Some r) = Inr ?g"
    using topk_last_nth[OF assms(5,6)] by (simp add: loss_gate_of_def)
  have j: "nat ?k - 1 < length nll" using assms(5,6) by linarith
  have c: "card {i. i < length nll \<and> ?g \<le> nll ! i} = Suc (nat ?k - 1)"
    using count_ge_kth_largest[OF assms(1) j] .
  have m: "masked_fill kd pad_mask 0 = kd"
    using masked_fill_no_pad[of kd "length nll" 0] assms(2,4) by simp
  have "sum_list (mask_select kd (map Not (map (\<lambda>x. x < ?g) nll)))
      = (\<Sum>i | i < length kd \<and> (map Not (map (\<lambda>x. x < ?g) nll)) ! i. kd ! i)"
    using assms(2) by (intro sum_list_mask_select) simp
  also have "{i. i < length kd \<and> (map Not (map (\<lambda>x. x < ?g) nll)) ! i}
      = {i. i < length nll \<and> ?g \<le> nll ! i}"
    using assms(2) by (auto simp: not_less)
  finally have s: "sum_list (mask_select kd (map Not (map (\<lambda>x. x < ?g) nll)))
      = (\<Sum>i | i < length nll \<and> ?g \<le> nll ! i. kd ! i)" .
  have b: "batch_level_kd_loss (Some r) nll (Inr kd) pad_mask
      = Inr (\<Sum>i | i < length nll \<and> ?g \<le> nll ! i. kd ! i)"
    using s by (simp add: batch_level_kd_loss_def g m Let_def del: map_map)
  have "int (card {i. i < length nll \<and> ?g \<le> nll ! i}) = ?k"
    using c assms(5) by simp
  with g b show ?thesis by blast
qed

text \<open>
  Claim C1, as stated: with \<open>kd_rate = 0.5\<close> on ten tokens with distinct losses, the five
  tokens with the highest student loss are left out of the summed KD loss. On the batch
  below the gate is 6, and the sum is that of the KD values of the five tokens whose
  losses are 9, 6, 10, 8 and 7: the five highest are the ones kept.
\<close>

theorem C1_batch_level_counterexample:
  "loss_gate_of [3, 1, 4, 2, 5, 9, 6, 10, 8, 7] (Some (1 / 2)) = Inr 6
   \<and> batch_level_kd_loss (Some (1 / 2)) [3, 1, 4, 2, 5, 9, 6, 10, 8, 7]
        (Inr [1, 2, 4, 8, 16, 32, 64, 128, 256, 512]) (replicate 10 False)
      = Inr (32 + 64 + 128 + 256 + 512)"
  by (simp add: batch_level_kd_loss_def loss_gate_of_def topk_last_def topk_values_def
      masked_fill_def mask_select_def Let_def numeral_eq_Suc)

text \<open>
  Claim C1, amended: in the batch-level strategy with \<open>kd_rate = 0.5\<close> on a batch of
  ten non-padding tokens with distinct student losses, the gate is the fifth largest
  loss, and the summed KD loss is the sum of the KD values of the tokens whose loss is at
  or above the gate. These are exactly five tokens, the five with the highest loss; the
  five tokens strictly below the gate are left out.
\<close>

theorem C1_batch_level_amended:
  assumes "length nll = 10" and "distinct nll" and "length kd = 10"
    and "pad_mask = replicate 10 False"
  shows "\<exists>gate. loss_gate_of nll (Some (1 / 2)) = Inr gate
           \<and> batch_level_kd_loss (Some (1 / 2)) nll (Inr kd) pad_mask
               = Inr (\<Sum>i | i < 10 \<and> gate \<le> nll ! i. kd ! i)
           \<and> card {i. i < 10 \<and> gate \<le> nll ! i} = 5
           \<and> card {i. i < 10 \<and> nll ! i < gate} = 5"
proof -
  have k: "\<lceil>real (length nll) * (1 / 2)\<rceil> = 5" using assms(1) by simp
  obtain gate where g: "loss_gate_of nll (Some (1 / 2)) = Inr gate"
    and b: "batch_level_kd_loss (Some (1 / 2)) nll (Inr kd) pad_mask
               = Inr (\<Sum>i | i < length nll \<and> gate \<le> nll ! i. kd ! i)"
    and c: "int (card {i. i < length nll \<and> gate \<le> nll ! i}) = \<lceil>real (length nll) * (1 / 2)\<rceil>"
    using batch_level_general[of nll kd pad_mask "1 / 2"] assms k by auto
  have c5: "card {i. i < 10 \<and> gate \<le> nll ! i} = 5" using c k assms(1) by simp
  have d: "{i. i < 10 \<and> nll ! i < gate} = {..<10} - {i. i < 10 \<and> gate \<le> nll ! i}"
    by auto
  have "card ({..<10::nat} - {i. i < 10 \<and> gate \<le> nll ! i})
      = card {..<10::nat} - card {i. i < 10 \<and> gate \<le> nll ! i}"
    by (rule card_Diff_subset) auto
  with d have "card {i. i < 10 \<and> nll ! i < gate} = card {..<10::nat} - card {i. i < 10 \<and> gate \<le> nll ! i}"
    by simp
  then have c5': "card {i. i < 10 \<and> nll ! i < gate} = 5" using c5 by simp
  show ?thesis using g b c5 c5' assms(1) by auto
qed

theorem C1_batch_level_amended_witness:
  "\<exists>gate. loss_gate_of [3, 1, 4, 2, 5, 9, 6, 10, 8, 7] (Some (1 / 2)) = Inr gate
     \<and> batch_level_kd_loss (Some (1 / 2)) [3, 1, 4, 2, 5, 9, 6, 10, 8, 7]
          (Inr [1, 2, 4, 8, 16, 32, 64, 128, 256, 512]) (replicate 10 False)
        = Inr (\<Sum>i | i < 10 \<and> gate \<le> [3, 1, 4, 2, 5, 9, 6, 10, 8, 7] ! i.
                 [1, 2, 4, 8, 16, 32, 64, 128, 256, 512] ! i)
     \<and> card {i. i < 10 \<and> gate \<le> [3, 1, 4, 2, 5, 9, 6, 10, 8, 7 :: real] ! i} = 5
     \<and> card {i. i < 10 \<and> [3, 1, 4, 2, 5, 9, 6, 10, 8, 7 :: real] ! i < gate} = 5"
proof -
  have a: "length [3, 1, 4, 2, 5, 9, 6, 10, 8, 7 :: real] = 10" by simp
  have b: "distinct [3, 1, 4, 2, 5, 9, 6, 10, 8, 7 :: real]" by simp
  have c: "length [1, 2, 4, 8, 16, 32, 64, 128, 256, 512 :: real] = 10" by simp
  show ?thesis by (rule C1_batch_level_amended [OF a b c refl])
qed

section \<open>Properties of the label-smoothed loss\<close>

lemma gather_target_ok:
  assumes "length target = length rs"
    and "list_all (\<lambda>r. length r = V) rs"
    and "list_all (\<lambda>t. 0 \<le> t \<and> t < int V) target"
  shows "gather_target rs target = Inr (map (\<lambda>(r, t). r ! nat t) (zip rs target))"
  using assms
proof (induction target rs rule: list_induct2)
  case Nil
  then show ?case by simp
next
  case (Cons t ts r rs)
  then show ?case by simp
qed

lemma masked_fill_map2:
  assumes "length xs = length ts"
  shows "masked_fill xs (map P ts) v = map (\<lambda>(x, t). if P t then v else x) (zip xs ts)"
  using assms by (induction xs ts rule: list_induct2) (simp_all add: masked_fill_def)

lemma nll_loss1_eq:
  assumes "length target = length rs"
  shows "masked_fill (map uminus (map (\<lambda>(r, t). r ! nat t) (zip rs target)))
           (case ignore_index of None \<Rightarrow> map (\<lambda>t. False) target
                                | Some p \<Rightarrow> map (\<lambda>t. t = p) target) 0
         = map (\<lambda>(r, t). spec_nll ignore_index r t) (zip rs target)"
  using assms
  by (cases ignore_index; induction target rs rule: list_induct2)
     (simp_all add: masked_fill_def spec_nll_def)

lemma smooth_loss1_eq:
  assumes "length target = length rs"
  shows "masked_fill (map (\<lambda>r. - sum_list r) rs)
           (case ignore_index of None \<Rightarrow> map (\<lambda>t. False) target
                                | Some p \<Rightarrow> map (\<lambda>t. t = p) target) 0
         = map (\<lambda>(r, t). spec_smooth_loss ignore_index r t) (zip rs target)"
  using assms
  by (cases ignore_index; induction target rs rule: list_induct2)
     (simp_all add: masked_fill_def spec_smooth_loss_def)

lemma zip_map2_same:
  "zip (map f ps) (map g ps) = map (\<lambda>p. (f p, g p)) ps"
  by (induction ps) auto

text \<open>With a vocabulary of one entry the division by \<open>V - 1\<close> raises.\<close>

lemma label_smoothed_nll_loss_one_word:
  assumes "ncols lprobs = 1"
  shows "\<exists>e. label_smoothed_nll_loss lprobs target epsilon ignore_index reduce = Inl e"
  using assms by (simp add: label_smoothed_nll_loss_def Let_def split: sum.splits)

text \<open>
  Claim C7: for a log-probability tensor over a vocabulary of \<open>V\<close> entries (\<open>V \<noteq> 1\<close>,
  where \<open>eps_i\<close> is defined) and targets that are indices into the vocabulary,
  \<open>label_smoothed_nll_loss\<close> without reduction returns the per-token loss
  \<open>(1 - \<epsilon> - \<epsilon>/(V-1)) \<cdot> nll + (\<epsilon>/(V-1)) \<cdot> smooth_loss\<close>, with \<open>nll = -lprobs[target]\<close>,
  \<open>smooth_loss = -\<Sum> lprobs\<close> and both zero at padding, together with the per-token
  \<open>nll\<close>; with \<open>\<epsilon> = 0\<close> the loss is the plain negative log-likelihood at the target,
  per token and summed.
\<close>

theorem C7_label_smoothed_nll_loss:
  assumes "wf_tensor2 lprobs"
    and "length target = length (rows lprobs)"
    and "list_all (\<lambda>t. 0 \<le> t \<and> t < int (ncols lprobs)) target"
    and "ncols lprobs \<noteq> 1"
  shows "label_smoothed_nll_loss lprobs target epsilon ignore_index False
           = Inr (PerToken (map (\<lambda>(r, t). spec_token_loss epsilon (ncols lprobs) ignore_index r t)
                              (zip (rows lprobs) target)),
                  PerToken (map (\<lambda>(r, t). spec_nll ignore_index r t) (zip (rows lprobs) target)))
       \<and> label_smoothed_nll_loss lprobs target 0 ignore_index False
           = Inr (PerToken (map (\<lambda>(r, t). spec_nll ignore_index r t) (zip (rows lprobs) target)),
                  PerToken (map (\<lambda>(r, t). spec_nll ignore_index r t) (zip (rows lprobs) target)))
       \<and> label_smoothed_nll_loss lprobs target 0 ignore_index True
           = Inr (Scalar (\<Sum>(r, t)\<leftarrow>zip (rows lprobs) target. spec_nll ignore_index r t),
                  Scalar (\<Sum>(r, t)\<leftarrow>zip (rows lprobs) target. spec_nll ignore_index r t))"
proof -
  have g: "gather_target (rows lprobs) target
             = Inr (map (\<lambda>(r, t). r ! nat t) (zip (rows lprobs) target))"
    using gather_target_ok[OF assms(2) _ assms(3)] assms(1) by (simp add: wf_tensor2_def)
  have v: "int (ncols lprobs) - 1 \<noteq> 0" using assms(4) by simp
  have r: "real_of_int (int (ncols lprobs) - 1) = real (ncols lprobs) - 1" by simp
  note n = nll_loss1_eq[OF assms(2), of ignore_index]
  note s = smooth_loss1_eq[OF assms(2), of ignore_index]
  show ?thesis
    unfolding label_smoothed_nll_loss_def g sum.case Let_def n s
    using v by (simp add: zip_map2_same spec_token_loss_def split_def)
qed

theorem C7_label_smoothed_nll_loss_witness:
  "label_smoothed_nll_loss \<lparr>ncols = 2, rows = [[-1, -2], [-3, -4]]\<rparr> [0, 1] (1 / 10) (Some 1) False
     = Inr (PerToken [4 / 5 * 1 + 1 / 10 * 3, 0], PerToken [1, 0])
   \<and> label_smoothed_nll_loss \<lparr>ncols = 2, rows = [[-1, -2], [-3, -4]]\<rparr> [0, 1] 0 (Some 1) False
     = Inr (PerToken [1, 0], PerToken [1, 0])
   \<and> label_smoothed_nll_loss \<lparr>ncols = 2, rows = [[-1, -2], [-3, -4]]\<rparr> [0, 1] 0 (Some 1) True
     = Inr (Scalar 1, Scalar 1)"
proof -
  let ?l = "\<lparr>ncols = 2, rows = [[-1, -2], [-3, -4]]\<rparr>"
  have a: "wf_tensor2 ?l" by (simp add: wf_tensor2_def)
  have b: "length [0, 1 :: int] = length (rows ?l)" by simp
  have c: "list_all (\<lambda>t. 0 \<le> t \<and> t < int (ncols ?l)) [0, 1]" by simp
  have d: "ncols ?l \<noteq> 1" by simp
  show ?thesis
    using C7_label_smoothed_nll_loss [OF a b c d, of "1 / 10" "Some 1"]
      C7_label_smoothed_nll_loss [OF a b c d, of 0 "Some 1"]
    by (simp add: spec_token_loss_def spec_nll_def spec_smooth_loss_def)
qed

section \<open>Properties of the per-language rates\<close>




lemma sum_list_exp_pos:
  fixes xs :: "real list"
  assumes "xs \<noteq> []"
  shows "0 < sum_list (map exp xs)"
  using assms
proof (induction xs)
  case Nil
  then show ?case by simp
next
  case (Cons x xs)
  have "0 \<le> sum_list (map exp xs)" by (rule sum_list_nonneg) auto
  moreover have "0 < exp x" by simp
  ultimately have "0 < exp x + sum_list (map exp xs)" by (rule add_pos_nonneg[rotated])
  then show ?case by simp
qed




section \<open>Properties of the architecture presets\<close>

lemma fill_defaults_Nil: "fill_defaults [] args = args"
  by (simp add: fill_defaults_def)

lemma fill_defaults_Cons:
  "fill_defaults ((k, d) # kvs) args = fill_defaults kvs (setattr args k (getattr args k d))"
  by (simp add: fill_defaults_def)

lemma fill_defaults_eq: "fill_defaults kvs args = map_of kvs ++ args"
proof (induction kvs arbitrary: args)
  case Nil
  then show ?case by (simp add: fill_defaults_Nil)
next
  case (Cons p kvs)
  obtain k d where p: "p = (k, d)" by (cases p)
  show ?case
    unfolding p fill_defaults_Cons Cons.IH
    by (rule ext) (auto simp: map_add_def setattr_def getattr_def split: option.splits)
qed

lemma base_keeps:
  assumes "fills_gaps_only base_architecture" and "args k = Some v"
  shows "base_architecture args k = Some v"
  using assms by (simp add: fills_gaps_only_def)

lemma base_keeps_defaults:
  assumes "fills_gaps_only base_architecture" and "distinct (map fst defaults)"
  shows "list_all (\<lambda>(k, v). base_architecture (map_of defaults) k = Some v) defaults"
proof -
  have "base_architecture (map_of defaults) k = Some v" if "(k, v) \<in> set defaults" for k v
  proof -
    have "map_of defaults k = Some v" using assms(2) that by (rule map_of_is_SomeI)
    then show ?thesis using assms(1) by (simp add: fills_gaps_only_def)
  qed
  then show ?thesis unfolding list_all_iff by (simp add: split_def)
qed

lemma preset_row:
  assumes p: "\<And>base args. preset base args = base (fill_defaults kvs args)"
    and m: "map_of kvs = map_of defaults"
    and d: "distinct (map fst defaults)"
    and f: "fills_gaps_only base_architecture"
  shows "preset (\<lambda>a. a) Map.empty = map_of defaults
       \<and> list_all (\<lambda>(k, v). preset base_architecture Map.empty k = Some v) defaults"
  using base_keeps_defaults[OF f d] by (simp add: p fill_defaults_eq m)

lemma preset_keeps:
  assumes p: "\<And>base args. preset base args = base (fill_defaults kvs args)"
    and f: "fills_gaps_only base_architecture"
    and a: "args k = Some v"
  shows "preset base_architecture args k = Some v"
  unfolding p fill_defaults_eq by (rule base_keeps[OF f]) (simp add: a)

lemma spec_row_link_distinct: "distinct (map fst (spec_row a b c d e f ''link'' v))"
  by (simp add: spec_row_def)

lemma spec_row_regressor_distinct: "distinct (map fst (spec_row a b c d e f ''regressor'' v))"
  by (simp add: spec_row_def)

lemma spec_row_big_distinct: "distinct (map fst (spec_row_big a b c))"
  by (simp add: spec_row_big_def)

lemma transformer_small_link_8heads_fills:
  "transformer_small_link_8heads base_architecture args
     = base_architecture (fill_defaults
         [(''link'', PyBool True), (''encoder_embed_dim'', PyInt 512), (''encoder_ffn_embed_dim'', PyInt 1024), (''encoder_layers'', PyInt 3), (''encoder_attention_heads'', PyInt 8), (''decoder_layers'', PyInt 6), (''decoder_attention_heads'', PyInt 8)] args)"
  by (simp only: transformer_small_link_8heads_def Let_def fill_defaults_Cons fill_defaults_Nil)

lemma transformer_small_link_8heads_table:
  "map_of [(''link'', PyBool True), (''encoder_embed_dim'', PyInt 512), (''encoder_ffn_embed_dim'', PyInt 1024), (''encoder_layers'', PyInt 3), (''encoder_attention_heads'', PyInt 8), (''decoder_layers'', PyInt 6), (''decoder_attention_heads'', PyInt 8)]
     = map_of (spec_row 512 1024 3 8 6 8 ''link'' True)"
  unfolding spec_row_def spec_row_big_def
  by (subst map_of_inject_set) (simp_all add: insert_commute)

lemma transformer_small_link_8heads_row:
  assumes "fills_gaps_only base_architecture"
  shows "transformer_small_link_8heads (\<lambda>a. a) Map.empty = map_of (spec_row 512 1024 3 8 6 8 ''link'' True)
       \<and> list_all (\<lambda>(k, v). transformer_small_link_8heads base_architecture Map.empty k = Some v)
             (spec_row 512 1024 3 8 6 8 ''link'' True)"
  by (rule preset_row[where preset = transformer_small_link_8heads, OF transformer_small_link_8heads_fills transformer_small_link_8heads_table spec_row_link_distinct assms])

lemma transformer_tiny_link_8heads_fills:
  "transformer_tiny_link_8heads base_architecture args
     = base_architecture (fill_defaults
         [(''link'', PyBool True), (''encoder_embed_dim'', PyInt 512), (''encoder_ffn_embed_dim'', PyInt 1024), (''encoder_layers'', PyInt 3), (''encoder_attention_heads'', PyInt 8), (''decoder_layers'', PyInt 3), (''decoder_attention_heads'', PyInt 8)] args)"
  by (simp only: transformer_tiny_link_8heads_def Let_def fill_defaults_Cons fill_defaults_Nil)

lemma transformer_tiny_link_8heads_table:
  "map_of [(''link'', PyBool True), (''encoder_embed_dim'', PyInt 512), (''encoder_ffn_embed_dim'', PyInt 1024), (''encoder_layers'', PyInt 3), (''encoder_attention_heads'', PyInt 8), (''decoder_layers'', PyInt 3), (''decoder_attention_heads'', PyInt 8)]
     = map_of (spec_row 512 1024 3 8 3 8 ''link'' True)"
  unfolding spec_row_def spec_row_big_def
  by (subst map_of_inject_set) (simp_all add: insert_commute)

lemma transformer_tiny_link_8heads_row:
  assumes "fills_gaps_only base_architecture"
  shows "transformer_tiny_link_8heads (\<lambda>a. a) Map.empty = map_of (spec_row 512 1024 3 8 3 8 ''link'' True)
       \<and> list_all (\<lambda>(k, v). transformer_tiny_link_8heads base_architecture Map.empty k = Some v)
             (spec_row 512 1024 3 8 3 8 ''link'' True)"
  by (rule preset_row[where preset = transformer_tiny_link_8heads, OF transformer_tiny_link_8heads_fills transformer_tiny_link_8heads_table spec_row_link_distinct assms])

lemma transformer_small_link_fills:
  "transformer_small_link base_architecture args
     = base_architecture (fill_defaults
         [(''link'', PyBool True), (''encoder_embed_dim'', PyInt 512), (''encoder_ffn_embed_dim'', PyInt 1024), (''encoder_layers'', PyInt 3), (''encoder_attention_heads'', PyInt 4), (''decoder_layers'', PyInt 6), (''decoder_attention_heads'', PyInt 4)] args)"
  by (simp only: transformer_small_link_def Let_def fill_defaults_Cons fill_defaults_Nil)

lemma transformer_small_link_table:
  "map_of [(''link'', PyBool True), (''encoder_embed_dim'', PyInt 512), (''encoder_ffn_embed_dim'', PyInt 1024), (''encoder_layers'', PyInt 3), (''encoder_attention_heads'', PyInt 4), (''decoder_layers'', PyInt 6), (''decoder_attention_heads'', PyInt 4)]
     = map_of (spec_row 512 1024 3 4 6 4 ''link'' True)"
  unfolding spec_row_def spec_row_big_def
  by (subst map_of_inject_set) (simp_all add: insert_commute)

lemma transformer_small_link_row:
  assumes "fills_gaps_only base_architecture"
  shows "transformer_small_link (\<lambda>a. a) Map.empty = map_of (spec_row 512 1024 3 4 6 4 ''link'' True)
       \<and> list_all (\<lambda>(k, v). transformer_small_link base_architecture Map.empty k = Some v)
             (spec_row 512 1024 3 4 6 4 ''link'' True)"
  by (rule preset_row[where preset = transformer_small_link, OF transformer_small_link_fills transformer_small_link_table spec_row_link_distinct assms])

lemma transformer_2layers_8heads_fills:
  "transformer_2layers_8heads base_architecture args
     = base_architecture (fill_defaults
         [(''link'', PyBool True), (''encoder_embed_dim'', PyInt 512), (''encoder_ffn_embed_dim'', PyInt 1024), (''encoder_layers'', PyInt 2), (''encoder_attention_heads'', PyInt 8), (''decoder_layers'', PyInt 2), (''decoder_attention_heads'', PyInt 8)] args)"
  by (simp only: transformer_2layers_8heads_def Let_def fill_defaults_Cons fill_defaults_Nil)

lemma transformer_2layers_8heads_table:
  "map_of [(''link'', PyBool True), (''encoder_embed_dim'', PyInt 512), (''encoder_ffn_embed_dim'', PyInt 1024), (''encoder_layers'', PyInt 2), (''encoder_attention_heads'', PyInt 8), (''decoder_layers'', PyInt 2), (''decoder_attention_heads'', PyInt 8)]
     = map_of (spec_row 512 1024 2 8 2 8 ''link'' True)"
  unfolding spec_row_def spec_row_big_def
  by (subst map_of_inject_set) (simp_all add: insert_commute)

lemma transformer_2layers_8heads_row:
  assumes "fills_gaps_only base_architecture"
  shows "transformer_2layers_8heads (\<lambda>a. a) Map.empty = map_of (spec_row 512 1024 2 8 2 8 ''link'' True)
       \<and> list_all (\<lambda>(k, v). transformer_2layers_8heads base_architecture Map.empty k = Some v)
             (spec_row 512 1024 2 8 2 8 ''link'' True)"
  by (rule preset_row[where preset = transformer_2layers_8heads, OF transformer_2layers_8heads_fills transformer_2layers_8heads_table spec_row_link_distinct assms])

lemma transformer_2layers_fills:
  "transformer_2layers base_architecture args
     = base_architecture (fill_defaults
         [(''link'', PyBool True), (''encoder_embed_dim'', PyInt 512), (''encoder_ffn_embed_dim'', PyInt 1024), (''encoder_layers'', PyInt 2), (''encoder_attention_heads'', PyInt 4), (''decoder_layers'', PyInt 2), (''decoder_attention_heads'', PyInt 4)] args)"
  by (simp only: transformer_2layers_def Let_def fill_defaults_Cons fill_defaults_Nil)

lemma transformer_2layers_table:
  "map_of [(''link'', PyBool True), (''encoder_embed_dim'', PyInt 512), (''encoder_ffn_embed_dim'', PyInt 1024), (''encoder_layers'', PyInt 2), (''encoder_attention_heads'', PyInt 4), (''decoder_layers'', PyInt 2), (''decoder_attention_heads'', PyInt 4)]
     = map_of (spec_row 512 1024 2 4 2 4 ''link'' True)"
  unfolding spec_row_def spec_row_big_def
  by (subst map_of_inject_set) (simp_all add: insert_commute)

lemma transformer_2layers_row:
  assumes "fills_gaps_only base_architecture"
  shows "transformer_2layers (\<lambda>a. a) Map.empty = map_of (spec_row 512 1024 2 4 2 4 ''link'' True)
       \<and> list_all (\<lambda>(k, v). transformer_2layers base_architecture Map.empty k = Some v)
             (spec_row 512 1024 2 4 2 4 ''link'' True)"
  by (rule preset_row[where preset = transformer_2layers, OF transformer_2layers_fills transformer_2layers_table spec_row_link_distinct assms])

lemma transformer_3layers_regressor_fills:
  "transformer_3layers_regressor base_architecture args
     = base_architecture (fill_defaults
         [(''regressor'', PyBool True), (''encoder_embed_dim'', PyInt 512), (''encoder_ffn_embed_dim'', PyInt 1024), (''encoder_layers'', PyInt 3), (''encoder_attention_heads'', PyInt 4), (''decoder_layers'', PyInt 3), (''decoder_attention_heads'', PyInt 4)] args)"
  by (simp only: transformer_3layers_regressor_def Let_def fill_defaults_Cons fill_defaults_Nil)

lemma transformer_3layers_regressor_table:
  "map_of [(''regressor'', PyBool True), (''encoder_embed_dim'', PyInt 512), (''encoder_ffn_embed_dim'', PyInt 1024), (''encoder_layers'', PyInt 3), (''encoder_attention_heads'', PyInt 4), (''decoder_layers'', PyInt 3), (''decoder_attention_heads'', PyInt 4)]
     = map_of (spec_row 512 1024 3 4 3 4 ''regressor'' True)"
  unfolding spec_row_def spec_row_big_def
  by (subst map_of_inject_set) (simp_all add: insert_commute)

lemma transformer_3layers_regressor_row:
  assumes "fills_gaps_only base_architecture"
  shows "transformer_3layers_regressor (\<lambda>a. a) Map.empty = map_of (spec_row 512 1024 3 4 3 4 ''regressor'' True)
       \<and> list_all (\<lambda>(k, v). transformer_3layers_regressor base_architecture Map.empty k = Some v)
             (spec_row 512 1024 3 4 3 4 ''regressor'' True)"
  by (rule preset_row[where preset = transformer_3layers_regressor, OF transformer_3layers_regressor_fills transformer_3layers_regressor_table spec_row_regressor_distinct assms])

lemma transformer_2layers_regressor_fills:
  "transformer_2layers_regressor base_architecture args
     = base_architecture (fill_defaults
         [(''regressor'', PyBool True), (''encoder_embed_dim'', PyInt 512), (''encoder_ffn_embed_dim'', PyInt 1024), (''encoder_layers'', PyInt 2), (''encoder_attention_heads'', PyInt 4), (''decoder_layers'', PyInt 2), (''decoder_attention_heads'', PyInt 4)] args)"
  by (simp only: transformer_2layers_regressor_def Let_def fill_defaults_Cons fill_defaults_Nil)

lemma transformer_2layers_regressor_table:
  "map_of [(''regressor'', PyBool True), (''encoder_embed_dim'', PyInt 512), (''encoder_ffn_embed_dim'', PyInt 1024), (''encoder_layers'', PyInt 2), (''encoder_attention_heads'', PyInt 4), (''decoder_layers'', PyInt 2), (''decoder_attention_heads'', PyInt 4)]
     = map_of (spec_row 512 1024 2 4 2 4 ''regressor'' True)"
  unfolding spec_row_def spec_row_big_def
  by (subst map_of_inject_set) (simp_all add: insert_commute)

lemma transformer_2layers_regressor_row:
  assumes "fills_gaps_only base_architecture"
  shows "transformer_2layers_regressor (\<lambda>a. a) Map.empty = map_of (spec_row 512 1024 2 4 2 4 ''regressor'' True)
       \<and> list_all (\<lambda>(k, v). transformer_2layers_regressor base_architecture Map.empty k = Some v)
             (spec_row 512 1024 2 4 2 4 ''regressor'' True)"
  by (rule preset_row[where preset = transformer_2layers_regressor, OF transformer_2layers_regressor_fills transformer_2layers_regressor_table spec_row_regressor_distinct assms])

lemma transformer_tiny_link_fills:
  "transformer_tiny_link base_architecture args
     = base_architecture (fill_defaults
         [(''link'', PyBool True), (''encoder_embed_dim'', PyInt 512), (''encoder_ffn_embed_dim'', PyInt 1024), (''encoder_layers'', PyInt 3), (''encoder_attention_heads'', PyInt 4), (''decoder_layers'', PyInt 3), (''decoder_attention_heads'', PyInt 4)] args)"
  by (simp only: transformer_tiny_link_def Let_def fill_defaults_Cons fill_defaults_Nil)

lemma transformer_tiny_link_table:
  "map_of [(''link'', PyBool True), (''encoder_embed_dim'', PyInt 512), (''encoder_ffn_embed_dim'', PyInt 1024), (''encoder_layers'', PyInt 3), (''encoder_attention_heads'', PyInt 4), (''decoder_layers'', PyInt 3), (''decoder_attention_heads'', PyInt 4)]
     = map_of (spec_row 512 1024 3 4 3 4 ''link'' True)"
  unfolding spec_row_def spec_row_big_def
  by (subst map_of_inject_set) (simp_all add: insert_commute)

lemma transformer_tiny_link_row:
  assumes "fills_gaps_only base_architecture"
  shows "transformer_tiny_link (\<lambda>a. a) Map.empty = map_of (spec_row 512 1024 3 4 3 4 ''link'' True)
       \<and> list_all (\<lambda>(k, v). transformer_tiny_link base_architecture Map.empty k = Some v)
             (spec_row 512 1024 3 4 3 4 ''link'' True)"
  by (rule preset_row[where preset = transformer_tiny_link, OF transformer_tiny_link_fills transformer_tiny_link_table spec_row_link_distinct assms])

lemma transformer_tiny_nolink_fills:
  "transformer_tiny_nolink base_architecture args
     = base_architecture (fill_defaults
         [(''link'', PyBool False), (''encoder_embed_dim'', PyInt 512), (''encoder_ffn_embed_dim'', PyInt 1024), (''encoder_layers'', PyInt 3), (''encoder_attention_heads'', PyInt 4), (''decoder_layers'', PyInt 3), (''decoder_attention_heads'', PyInt 4)] args)"
  by (simp only: transformer_tiny_nolink_def Let_def fill_defaults_Cons fill_defaults_Nil)

lemma transformer_tiny_nolink_table:
  "map_of [(''link'', PyBool False), (''encoder_embed_dim'', PyInt 512), (''encoder_ffn_embed_dim'', PyInt 1024), (''encoder_layers'', PyInt 3), (''encoder_attention_heads'', PyInt 4), (''decoder_layers'', PyInt 3), (''decoder_attention_heads'', PyInt 4)]
     = map_of (spec_row 512 1024 3 4 3 4 ''link'' False)"
  unfolding spec_row_def spec_row_big_def
  by (subst map_of_inject_set) (simp_all add: insert_commute)

lemma transformer_tiny_nolink_row:
  assumes "fills_gaps_only base_architecture"
  shows "transformer_tiny_nolink (\<lambda>a. a) Map.empty = map_of (spec_row 512 1024 3 4 3 4 ''link'' False)
       \<and> list_all (\<lambda>(k, v). transformer_tiny_nolink base_architecture Map.empty k = Some v)
             (spec_row 512 1024 3 4 3 4 ''link'' False)"
  by (rule preset_row[where preset = transformer_tiny_nolink, OF transformer_tiny_nolink_fills transformer_tiny_nolink_table spec_row_link_distinct assms])

lemma transformer_big_fills:
  "transformer_big base_architecture args
     = base_architecture (fill_defaults
         [(''encoder_embed_dim'', PyInt 1024), (''encoder_ffn_embed_dim'', PyInt 4096), (''encoder_attention_heads'', PyInt 16), (''encoder_normalize_before'', PyBool False), (''decoder_embed_dim'', PyInt 1024), (''decoder_ffn_embed_dim'', PyInt 4096), (''decoder_attention_heads'', PyInt 16)] args)"
  by (simp only: transformer_big_def Let_def fill_defaults_Cons fill_defaults_Nil)

lemma transformer_big_table:
  "map_of [(''encoder_embed_dim'', PyInt 1024), (''encoder_ffn_embed_dim'', PyInt 4096), (''encoder_attention_heads'', PyInt 16), (''encoder_normalize_before'', PyBool False), (''decoder_embed_dim'', PyInt 1024), (''decoder_ffn_embed_dim'', PyInt 4096), (''decoder_attention_heads'', PyInt 16)]
     = map_of (spec_row_big 1024 4096 16)"
  unfolding spec_row_def spec_row_big_def
  by (subst map_of_inject_set) (simp_all add: insert_commute)

lemma transformer_big_row:
  assumes "fills_gaps_only base_architecture"
  shows "transformer_big (\<lambda>a. a) Map.empty = map_of (spec_row_big 1024 4096 16)
       \<and> list_all (\<lambda>(k, v). transformer_big base_architecture Map.empty k = Some v)
             (spec_row_big 1024 4096 16)"
  by (rule preset_row[where preset = transformer_big, OF transformer_big_fills transformer_big_table spec_row_big_distinct assms])

lemma transformer_huge_fills:
  "transformer_huge base_architecture args
     = base_architecture (fill_defaults
         [(''encoder_embed_dim'', PyInt 1536), (''encoder_ffn_embed_dim'', PyInt 4096), (''encoder_attention_heads'', PyInt 16), (''encoder_normalize_before'', PyBool False), (''decoder_embed_dim'', PyInt 1536), (''decoder_ffn_embed_dim'', PyInt 4096), (''decoder_attention_heads'', PyInt 16)] args)"
  by (simp only: transformer_huge_def Let_def fill_defaults_Cons fill_defaults_Nil)

lemma transformer_huge_table:
  "map_of [(''encoder_embed_dim'', PyInt 1536), (''encoder_ffn_embed_dim'', PyInt 4096), (''encoder_attention_heads'', PyInt 16), (''encoder_normalize_before'', PyBool False), (''decoder_embed_dim'', PyInt 1536), (''decoder_ffn_embed_dim'', PyInt 4096), (''decoder_attention_heads'', PyInt 16)]
     = map_of (spec_row_big 1536 4096 16)"
  unfolding spec_row_def spec_row_big_def
  by (subst map_of_inject_set) (simp_all add: insert_commute)

lemma transformer_huge_row:
  assumes "fills_gaps_only base_architecture"
  shows "transformer_huge (\<lambda>a. a) Map.empty = map_of (spec_row_big 1536 4096 16)
       \<and> list_all (\<lambda>(k, v). transformer_huge base_architecture Map.empty k = Some v)
             (spec_row_big 1536 4096 16)"
  by (rule preset_row[where preset = transformer_huge, OF transformer_huge_fills transformer_huge_table spec_row_big_distinct assms])

lemma transformer_xlarge_fills:
  "transformer_xlarge base_architecture args
     = base_architecture (fill_defaults
         [(''encoder_embed_dim'', PyInt 2048), (''encoder_ffn_embed_dim'', PyInt 8192), (''encoder_attention_heads'', PyInt 16), (''encoder_normalize_before'', PyBool False), (''decoder_embed_dim'', PyInt 2048), (''decoder_ffn_embed_dim'', PyInt 8192), (''decoder_attention_heads'', PyInt 16)] args)"
  by (simp only: transformer_xlarge_def Let_def fill_defaults_Cons fill_defaults_Nil)

lemma transformer_xlarge_table:
  "map_of [(''encoder_embed_dim'', PyInt 2048), (''encoder_ffn_embed_dim'', PyInt 8192), (''encoder_attention_heads'', PyInt 16), (''encoder_normalize_before'', PyBool False), (''decoder_embed_dim'', PyInt 2048), (''decoder_ffn_embed_dim'', PyInt 8192), (''decoder_attention_heads'', PyInt 16)]
     = map_of (spec_row_big 2048 8192 16)"
  unfolding spec_row_def spec_row_big_def
  by (subst map_of_inject_set) (simp_all add: insert_commute)

lemma transformer_xlarge_row:
  assumes "fills_gaps_only base_architecture"
  shows "transformer_xlarge (\<lambda>a. a) Map.empty = map_of (spec_row_big 2048 8192 16)
       \<and> list_all (\<lambda>(k, v). transformer_xlarge base_architecture Map.empty k = Some v)
             (spec_row_big 2048 8192 16)"
  by (rule preset_row[where preset = transformer_xlarge, OF transformer_xlarge_fills transformer_xlarge_table spec_row_big_distinct assms])

text \<open>
  Claim C10: on the empty configuration every preset assigns the defaults of its row of
  the table of section 4.1 (the preset's own assignments are exactly that row, and the
  row's values are the ones found after \<open>base_architecture\<close> has run), and an
  attribute the caller has set keeps its value. \<open>base_architecture\<close> is the host
  framework's; it is taken to fill gaps only.
\<close>

theorem C10_presets:
  assumes "fills_gaps_only base_architecture"
  shows "list_all2 (\<lambda>(name, preset) (name', defaults).
            name = name'
            \<and> preset (\<lambda>a. a) Map.empty = map_of defaults
            \<and> list_all (\<lambda>(k, v). preset base_architecture Map.empty k = Some v) defaults)
          arch_registry spec_preset_table
       \<and> (\<forall>args k v. args k = Some v \<longrightarrow>
             list_all (\<lambda>(name, preset). preset base_architecture args k = Some v) arch_registry)"
proof (intro conjI allI impI)
  show "list_all2 (\<lambda>(name, preset) (name', defaults).
            name = name'
            \<and> preset (\<lambda>a. a) Map.empty = map_of defaults
            \<and> list_all (\<lambda>(k, v). preset base_architecture Map.empty k = Some v) defaults)
          arch_registry spec_preset_table"
    unfolding arch_registry_def spec_preset_table_def
    apply (simp only: list_all2_Cons list_all2_Nil prod.case)
    apply (intro conjI refl TrueI
        transformer_small_link_8heads_row[OF assms, THEN conjunct1] transformer_small_link_8heads_row[OF assms, THEN conjunct2]
        transformer_tiny_link_8heads_row[OF assms, THEN conjunct1] transformer_tiny_link_8heads_row[OF assms, THEN conjunct2]
        transformer_small_link_row[OF assms, THEN conjunct1] transformer_small_link_row[OF assms, THEN conjunct2]
        transformer_2layers_8heads_row[OF assms, THEN conjunct1] transformer_2layers_8heads_row[OF assms, THEN conjunct2]
        transformer_2layers_row[OF assms, THEN conjunct1] transformer_2layers_row[OF assms, THEN conjunct2]
        transformer_3layers_regressor_row[OF assms, THEN conjunct1] transformer_3layers_regressor_row[OF assms, THEN conjunct2]
        transformer_2layers_regressor_row[OF assms, THEN conjunct1] transformer_2layers_regressor_row[OF assms, THEN conjunct2]
        transformer_tiny_link_row[OF assms, THEN conjunct1] transformer_tiny_link_row[OF assms, THEN conjunct2]
        transformer_tiny_nolink_row[OF assms, THEN conjunct1] transformer_tiny_nolink_row[OF assms, THEN conjunct2]
        transformer_big_row[OF assms, THEN conjunct1] transformer_big_row[OF assms, THEN conjunct2]
        transformer_huge_row[OF assms, THEN conjunct1] transformer_huge_row[OF assms, THEN conjunct2]
        transformer_xlarge_row[OF assms, THEN conjunct1] transformer_xlarge_row[OF assms, THEN conjunct2])
    done
next
  fix args :: namespace and k v
  assume a: "args k = Some v"
  show "list_all (\<lambda>(name, preset). preset base_architecture args k = Some v) arch_registry"
    unfolding arch_registry_def
    apply (simp only: list.pred_inject prod.case)
    apply (intro conjI TrueI
        preset_keeps[where preset = transformer_small_link_8heads and args = args and k = k, OF transformer_small_link_8heads_fills assms a]
        preset_keeps[where preset = transformer_tiny_link_8heads and args = args and k = k, OF transformer_tiny_link_8heads_fills assms a]
        preset_keeps[where preset = transformer_small_link and args = args and k = k, OF transformer_small_link_fills assms a]
        preset_keeps[where preset = transformer_2layers_8heads and args = args and k = k, OF transformer_2layers_8heads_fills assms a]
        preset_keeps[where preset = transformer_2layers and args = args and k = k, OF transformer_2layers_fills assms a]
        preset_keeps[where preset = transformer_3layers_regressor and args = args and k = k, OF transformer_3layers_regressor_fills assms a]
        preset_keeps[where preset = transformer_2layers_regressor and args = args and k = k, OF transformer_2layers_regressor_fills assms a]
        preset_keeps[where preset = transformer_tiny_link and args = args and k = k, OF transformer_tiny_link_fills assms a]
        preset_keeps[where preset = transformer_tiny_nolink and args = args and k = k, OF transformer_tiny_nolink_fills assms a]
        preset_keeps[where preset = transformer_big and args = args and k = k, OF transformer_big_fills assms a]
        preset_keeps[where preset = transformer_huge and args = args and k = k, OF transformer_huge_fills assms a]
        preset_keeps[where preset = transformer_xlarge and args = args and k = k, OF transformer_xlarge_fills assms a])
    done
qed

theorem C10_presets_witness:
  "list_all2 (\<lambda>(name, preset) (name', defaults).
      name = name'
      \<and> preset (\<lambda>a. a) Map.empty = map_of defaults
      \<and> list_all (\<lambda>(k, v).
            preset (\<lambda>a. setattr a ''dropout'' (getattr a ''dropout'' (PyFloat (1 / 10))))
              Map.empty k = Some v) defaults)
    arch_registry spec_preset_table
   \<and> list_all (\<lambda>(name, preset).
        preset (\<lambda>a. setattr a ''dropout'' (getattr a ''dropout'' (PyFloat (1 / 10))))
          [''encoder_layers'' \<mapsto> PyInt 12] ''encoder_layers'' = Some (PyInt 12))
      arch_registry"
proof -
  let ?base = "\<lambda>a. setattr a ''dropout'' (getattr a ''dropout'' (PyFloat (1 / 10)))"
  have f: "fills_gaps_only ?base"
    unfolding fills_gaps_only_def setattr_def getattr_def by simp
  have a: "[''encoder_layers'' \<mapsto> PyInt 12] ''encoder_layers'' = Some (PyInt 12)" by simp
  note r = C10_presets [OF f]
  show ?thesis
    by (rule conjI[OF r[THEN conjunct1]
          r[THEN conjunct2, rule_format,
            of "[''encoder_layers'' \<mapsto> PyInt 12]" "''encoder_layers''" "PyInt 12", OF a]])
qed

section \<open>The global multi-level strategy on a batch of two languages\<close>

lemma ml_lang_indices: "lang_indices [5, 7] = [(5, [0]), (7, [1])]"
  by (simp add: lang_indices_def)

lemma ml_get_lang_ids: "get_lang_ids 1 [[5, 11], [7, 12]] = Inr [5, 7]"
  by (simp add: get_lang_ids_def first_max_index_def)

lemma ml_view_rows:
  "view_rows (length [[5 :: int, 11], [7, 12]]) [1, 3, 2, 4] = Inr [[1, 3], [2, 4]]"
proof -
  have len: "length [1, 3, 2, 4 :: real] = 4" "length [[5 :: int, 11], [7, 12]] = 2"
    by simp_all
  have u: "[0..<2] = [0, 1]" by (simp add: upt_rec)
  show ?thesis unfolding view_rows_def len by (simp add: Let_def u)
qed

lemma ml_gate_5: "loss_gate_of [1, 3] (Some (1 / 2)) = Inr 3"
  by (simp add: loss_gate_of_def topk_last_def topk_values_def)

lemma ml_gate_7: "loss_gate_of [2, 4] (Some (1 / 2)) = Inr 4"
  by (simp add: loss_gate_of_def topk_last_def topk_values_def)

lemma ml_push:
  "push_lang_losses 20000 [[1, 3], [2, 4]] [(5, [0]), (7, [1])] [5 \<mapsto> [], 7 \<mapsto> []] None
     = Inr ([5 \<mapsto> [1, 3], 7 \<mapsto> [2, 4]], Some [2, 4])"
  by (simp add: bind_err_def index_select_flat_def push_to_lang_FIFO_queue_def
      push_to_FIFO_queue_def)

lemma ml_select:
  "select_lang_losses [5 \<mapsto> [1, 3], 7 \<mapsto> [2, 4]] (Some [2, 4]) [10, 20, 30, 40]
     [(5, Some (1 / 2)), (7, Some (1 / 2))] 0 = Inr 40"
  by (simp add: bind_err_def ml_gate_5 ml_gate_7 nonzero_def gather0_def)

lemma ml_rates:
  "zip (map fst [(5 :: int, [0 :: nat]), (7, [1])])
     (replicate (length [(5 :: int, [0 :: nat]), (7, [1])]) (Some (1 / 2 :: real)))
   = [(5, Some (1 / 2)), (7, Some (1 / 2))]"
  by simp

lemma ml_fields:
  "padding_idx (multi_level_criterion [5, 7] (Some (1 / 2)) 20000) = 1"
  "queue (multi_level_criterion [5, 7] (Some (1 / 2)) 20000) = LangQueues [5 \<mapsto> [], 7 \<mapsto> []]"
  "kd_queue_size (multi_level_criterion [5, 7] (Some (1 / 2)) 20000) = 20000"
  "use_adaptive_kd_rates (multi_level_criterion [5, 7] (Some (1 / 2)) 20000) = False"
  "kd_rate (multi_level_criterion [5, 7] (Some (1 / 2)) 20000) = Some (1 / 2)"
  by (simp_all add: multi_level_criterion_def init_queue_def)

lemma ml_total:
  "global_multi_level_kd (multi_level_criterion [5, 7] (Some (1 / 2)) 20000)
      [[5, 11], [7, 12]] [1, 3, 2, 4] [10, 20, 30, 40]
     = Inr (40, [5 \<mapsto> [1, 3], 7 \<mapsto> [2, 4]])"
  by (simp only: global_multi_level_kd_def ml_fields ml_get_lang_ids bind_err_def sum.case
      Let_def ml_lang_indices ml_view_rows queue_state.case ml_push prod.case
      get_lang_kd_rates_def if_False ml_rates ml_select)

text \<open>
  Claim C2: for every language of the batch the gate comes from that language's queue,
  and the total KD loss sums the KD values of that language's tokens at or above its
  gate. On a batch of two sentences of two tokens, the first of language 5 and the
  second of language 7, with rate 0.5: the queues hold the losses of their own language
  and the gates are 3 and 4, but the code's total is 40 where the per-language sum is
  60. The second loop reads \<open>nll_loss_lang\<close>, which still holds the losses of the last
  language of the first loop, and uses positions within that tensor as positions in
  the batch-wide \<open>kd_loss\<close>.
\<close>

theorem C2_stale_language_losses:
  "(case global_multi_level_kd (multi_level_criterion [5, 7] (Some (1 / 2)) 20000)
           [[5, 11], [7, 12]] [1, 3, 2, 4] [10, 20, 30, 40] of
      Inl e \<Rightarrow> False
    | Inr (total_kd_loss, queues) \<Rightarrow>
        total_kd_loss = 40 \<and> queues 5 = Some [1, 3] \<and> queues 7 = Some [2, 4])
   \<and> loss_gate_of [1, 3] (Some (1 / 2)) = Inr 3
   \<and> loss_gate_of [2, 4] (Some (1 / 2)) = Inr 4
   \<and> lang_indices [5, 7] = [(5, [0]), (7, [1])]
   \<and> spec_multi_level_total [(5, [0]), (7, [1])] (\<lambda>lang. if lang = 5 then 3 else 4)
        [[1, 3], [2, 4]] [[10, 20], [30, 40]] = 60"
  by (simp add: ml_total ml_gate_5 ml_gate_7 ml_lang_indices spec_multi_level_total_def)

section \<open>The forward pass on a batch without teacher output\<close>

lemma compute_token_loss_no_teacher:
  "compute_token_loss crit lprobs targets student_logits None teacher_lprobs tokens = Inl TypeError"
  by (simp add: compute_token_loss_def bind_err_def)

text \<open>
  Claim C5: on a batch without \<open>teacher_output\<close> the forward pass completes and returns
  the golden loss alone. For every criterion, model output, epoch and batch whose
  \<open>teacher_output\<close> is \<open>None\<close>, \<open>compute_loss\<close> subscripts \<open>teacher_output\<close> on its way
  to the test \<open>if teacher_output is None\<close>, and the forward pass raises \<open>TypeError\<close>: the
  branch \<open>loss = golden_loss\<close> is never reached.
\<close>

theorem C5_forward_without_teacher_output:
  "forward ops crit out (smp\<lparr>sample_teacher_output := None\<rparr>) epoch = Inl TypeError"
  by (simp add: forward_def compute_loss_def compute_token_loss_no_teacher bind_err_def)

section \<open>Properties of the representation distillation\<close>

lemma py_pow_epoch:
  assumes "1 \<le> e"
  shows "py_pow d (e - 1) = Inr (d ^ nat (e - 1))"
  using assms by (simp add: py_pow_def)

lemma weigh_ok:
  assumes "1 \<le> e" and "call = Inr raw"
  shows "weigh crit e call g = Inr (g raw (decay crit ^ nat (e - 1)))"
  using assms by (simp add: weigh_def bind_err_def py_pow_epoch)

lemma value_block_ok:
  assumes "1 \<le> e"
    and "value_kd crit \<longrightarrow> value_relation maps = Some vr \<and> shape2 ops vr = Inr x \<and> 0 < x
           \<and> call2 (kl_flat_batchmean ops) (teacher_value_relation maps) (value_relation maps)
               = Inr v"
  shows "value_block ops crit e maps terms
           = Inr (terms\<lparr>value_relation_loss :=
                    (if value_kd crit then spec_value crit e v x else value_relation_loss terms)\<rparr>)"
  using assms
  by (auto simp: value_block_def bind_err_def weigh_ok[OF assms(1)] spec_value_def spec_weight_def)

lemma decoder_block_mse_ok:
  assumes "1 \<le> e"
    and "self_kd crit \<longrightarrow> call2 f (decoder_self_attn maps) (teacher_decoder_self_attn maps) = Inr s"
    and "cross_kd crit \<longrightarrow> call2 f (decoder_cross_attn maps) (teacher_decoder_cross_attn maps) = Inr c"
    and "decoder_self_attn_loss terms = None" and "decoder_cross_attn_loss terms = None"
  shows "decoder_block f (mse_whole crit) (mse_half crit) crit e maps terms
           = Inr (terms\<lparr>decoder_self_attn_loss := spec_decoder_self crit e s,
                          decoder_cross_attn_loss := spec_decoder_cross crit e c\<rparr>)"
  using assms
  by (auto simp: decoder_block_def bind_err_def weigh_ok[OF assms(1)] spec_decoder_self_def
      spec_decoder_cross_def spec_weight_def mse_whole_def mse_half_def)

lemma decoder_block_kld_ok:
  assumes "1 \<le> e"
    and "self_kd crit \<longrightarrow> call2 f (decoder_self_attn maps) (teacher_decoder_self_attn maps) = Inr s"
    and "cross_kd crit \<longrightarrow> call2 f (decoder_cross_attn maps) (teacher_decoder_cross_attn maps) = Inr c"
    and "decoder_self_attn_loss terms = None" and "decoder_cross_attn_loss terms = None"
  shows "decoder_block f (kld_whole crit) (kld_half crit) crit e maps terms
           = Inr (terms\<lparr>decoder_self_attn_loss := spec_decoder_self crit e s,
                          decoder_cross_attn_loss := spec_decoder_cross crit e c\<rparr>)"
  using assms
  by (auto simp: decoder_block_def bind_err_def weigh_ok[OF assms(1)] spec_decoder_self_def
      spec_decoder_cross_def spec_weight_def kld_whole_def kld_half_def)

lemma mse_terms_ok:
  assumes "1 \<le> e"
    and "call2 (mse_loss ops) (attn maps) (teacher_attn maps) = Inr a"
    and "value_kd crit \<longrightarrow> value_relation maps = Some vr \<and> shape2 ops vr = Inr x \<and> 0 < x
           \<and> call2 (kl_flat_batchmean ops) (teacher_value_relation maps) (value_relation maps)
               = Inr v"
    and "decoder_kd crit \<and> self_kd crit \<longrightarrow>
           call2 (mse_loss ops) (decoder_self_attn maps) (teacher_decoder_self_attn maps) = Inr s"
    and "decoder_kd crit \<and> cross_kd crit \<longrightarrow>
           call2 (mse_loss ops) (decoder_cross_attn maps) (teacher_decoder_cross_attn maps) = Inr c"
  shows "mse_terms ops crit e maps
           = Inr \<lparr>attn_loss = Some (a * spec_weight crit e),
                  decoder_self_attn_loss =
                    (if decoder_kd crit then spec_decoder_self crit e s else None),
                  decoder_cross_attn_loss =
                    (if decoder_kd crit then spec_decoder_cross crit e c else None),
                  value_relation_loss = spec_value crit e v x,
                  regression_loss = None\<rparr>"
proof -
  have w: "weigh crit e (call2 (mse_loss ops) (attn maps) (teacher_attn maps)) (mse_whole crit)
             = Inr (a * spec_weight crit e)"
    using weigh_ok[OF assms(1,2)] by (simp add: mse_whole_def spec_weight_def)
  note vb = value_block_ok[OF assms(1,3), of "no_terms\<lparr>attn_loss := Some (a * spec_weight crit e)\<rparr>"]
  show ?thesis
  proof (cases "decoder_kd crit")
    case True
    have db: "decoder_block (mse_loss ops) (mse_whole crit) (mse_half crit) crit e maps
                (no_terms\<lparr>attn_loss := Some (a * spec_weight crit e),
                          value_relation_loss := (if value_kd crit then spec_value crit e v x
                             else value_relation_loss (no_terms\<lparr>attn_loss := Some (a * spec_weight crit e)\<rparr>))\<rparr>)
              = Inr ((no_terms\<lparr>attn_loss := Some (a * spec_weight crit e),
                          value_relation_loss := (if value_kd crit then spec_value crit e v x
                             else value_relation_loss (no_terms\<lparr>attn_loss := Some (a * spec_weight crit e)\<rparr>))\<rparr>)
                     \<lparr>decoder_self_attn_loss := spec_decoder_self crit e s,
                      decoder_cross_attn_loss := spec_decoder_cross crit e c\<rparr>)"
      using assms(4,5) True
      by (intro decoder_block_mse_ok[OF assms(1)]) (simp_all add: no_terms_def)
    show ?thesis
      unfolding mse_terms_def w bind_err_def sum.case vb
      using True db by (simp add: no_terms_def spec_value_def)
  next
    case False
    show ?thesis
      unfolding mse_terms_def w bind_err_def sum.case vb
      using False by (simp add: no_terms_def spec_value_def)
  qed
qed

lemma regression_terms_ok:
  assumes "1 \<le> e"
    and "call2 (mse_loss ops) (attn maps) (regressed_maps maps) = Inr r"
    and "value_kd crit \<longrightarrow> value_relation maps = Some vr \<and> shape2 ops vr = Inr x \<and> 0 < x
           \<and> call2 (kl_flat_batchmean ops) (teacher_value_relation maps) (value_relation maps)
               = Inr v"
    and "\<not> decoder_kd crit"
  shows "regression_terms ops crit e maps
           = Inr \<lparr>attn_loss = None, decoder_self_attn_loss = None,
                  decoder_cross_attn_loss = None,
                  value_relation_loss = spec_value crit e v x,
                  regression_loss = Some (r * spec_weight crit e / 50)\<rparr>"
proof -
  have w: "weigh crit e (call2 (mse_loss ops) (attn maps) (regressed_maps maps))
             (\<lambda>raw pw. raw * rambda crit * pw / 50)
             = Inr (r * spec_weight crit e / 50)"
    using weigh_ok[OF assms(1,2)] by (simp add: spec_weight_def)
  note vb = value_block_ok[OF assms(1,3),
      of "no_terms\<lparr>regression_loss := Some (r * spec_weight crit e / 50)\<rparr>"]
  show ?thesis
    unfolding regression_terms_def w bind_err_def sum.case vb
    using assms(4) by (simp add: no_terms_def spec_value_def)
qed

lemma kld_terms_ok:
  assumes "1 \<le> e"
    and "call2 (kl_flat_sum ops) (attn maps) (teacher_attn maps) = Inr a"
    and "decoder_kd crit \<and> self_kd crit \<longrightarrow>
           call2 (kl_flat_sum ops) (decoder_self_attn maps) (teacher_decoder_self_attn maps) = Inr s"
    and "decoder_kd crit \<and> cross_kd crit \<longrightarrow>
           call2 (kl_flat_sum ops) (decoder_cross_attn maps) (teacher_decoder_cross_attn maps) = Inr c"
  shows "kld_terms ops crit e maps
           = Inr \<lparr>attn_loss = Some (a * spec_weight crit e),
                  decoder_self_attn_loss =
                    (if decoder_kd crit then spec_decoder_self crit e s else None),
                  decoder_cross_attn_loss =
                    (if decoder_kd crit then spec_decoder_cross crit e c else None),
                  value_relation_loss = None,
                  regression_loss = None\<rparr>"
proof -
  have w: "weigh crit e (call2 (kl_flat_sum ops) (attn maps) (teacher_attn maps)) (kld_whole crit)
             = Inr (a * spec_weight crit e)"
    using weigh_ok[OF assms(1,2)] by (simp add: kld_whole_def spec_weight_def)
  show ?thesis
  proof (cases "decoder_kd crit")
    case True
    have db: "decoder_block (kl_flat_sum ops) (kld_whole crit) (kld_half crit) crit e maps
                (no_terms\<lparr>attn_loss := Some (a * spec_weight crit e)\<rparr>)
              = Inr ((no_terms\<lparr>attn_loss := Some (a * spec_weight crit e)\<rparr>)
                     \<lparr>decoder_self_attn_loss := spec_decoder_self crit e s,
                      decoder_cross_attn_loss := spec_decoder_cross crit e c\<rparr>)"
      using assms(3,4) True
      by (intro decoder_block_kld_ok[OF assms(1)]) (simp_all add: no_terms_def)
    show ?thesis
      unfolding kld_terms_def w bind_err_def sum.case
      using True db by (simp add: no_terms_def)
  next
    case False
    show ?thesis
      unfolding kld_terms_def w bind_err_def sum.case
      using False by (simp add: no_terms_def)
  qed
qed

lemma decoder_terms_ok:
  assumes "1 \<le> e"
    and "self_kd crit \<longrightarrow>
           call2 (mse_loss ops) (decoder_self_attn maps) (teacher_decoder_self_attn maps) = Inr s"
    and "cross_kd crit \<longrightarrow>
           call2 (mse_loss ops) (decoder_cross_attn maps) (teacher_decoder_cross_attn maps) = Inr c"
  shows "decoder_terms ops crit e maps
           = Inr \<lparr>attn_loss = None,
                  decoder_self_attn_loss = spec_decoder_self crit e s,
                  decoder_cross_attn_loss = spec_decoder_cross crit e c,
                  value_relation_loss = None,
                  regression_loss = None\<rparr>"
proof -
  have "decoder_block (mse_loss ops) (mse_whole crit) (mse_half crit) crit e maps no_terms
          = Inr (no_terms\<lparr>decoder_self_attn_loss := spec_decoder_self crit e s,
                          decoder_cross_attn_loss := spec_decoder_cross crit e c\<rparr>)"
    using assms(2,3) by (intro decoder_block_mse_ok[OF assms(1)]) (simp_all add: no_terms_def)
  then show ?thesis by (simp add: decoder_terms_def no_terms_def)
qed

text \<open>The mode \<open>minilm\<close> raises whatever it is given.\<close>

lemma minilm_terms_raises: "\<exists>e'. minilm_terms ops crit e maps = Inl e'"
  by (auto simp: minilm_terms_def bind_err_def split: sum.splits)

lemma add_term_scalar:
  "\<exists>extra1. add_term name t (Scalar l, extra) = Inr (Scalar (l + term_or_zero t), extra1)"
  by (cases t) (auto simp: add_term_def term_or_zero_def bind_err_def)

lemma add_terms_scalar:
  "\<exists>extra1. add_terms terms (Scalar l, extra) = Inr (Scalar (l + terms_total terms), extra1)"
proof -
  obtain x1 where 1: "add_term ''attn_loss'' (attn_loss terms) (Scalar l, extra)
      = Inr (Scalar (l + term_or_zero (attn_loss terms)), x1)"
    using add_term_scalar by blast
  obtain x2 where 2: "add_term ''decoder_self_attn_loss'' (decoder_self_attn_loss terms)
        (Scalar (l + term_or_zero (attn_loss terms)), x1)
      = Inr (Scalar (l + term_or_zero (attn_loss terms)
                     + term_or_zero (decoder_self_attn_loss terms)), x2)"
    using add_term_scalar by blast
  obtain x3 where 3: "add_term ''decoder_cross_attn_loss'' (decoder_cross_attn_loss terms)
        (Scalar (l + term_or_zero (attn_loss terms)
                     + term_or_zero (decoder_self_attn_loss terms)), x2)
      = Inr (Scalar (l + term_or_zero (attn_loss terms)
                     + term_or_zero (decoder_self_attn_loss terms)
                     + term_or_zero (decoder_cross_attn_loss terms)), x3)"
    using add_term_scalar by blast
  obtain x4 where 4: "add_term ''value_relation_loss'' (value_relation_loss terms)
        (Scalar (l + term_or_zero (attn_loss terms)
                     + term_or_zero (decoder_self_attn_loss terms)
                     + term_or_zero (decoder_cross_attn_loss terms)), x3)
      = Inr (Scalar (l + term_or_zero (attn_loss terms)
                     + term_or_zero (decoder_self_attn_loss terms)
                     + term_or_zero (decoder_cross_attn_loss terms)
                     + term_or_zero (value_relation_loss terms)), x4)"
    using add_term_scalar by blast
  obtain x5 where 5: "add_term ''regression_loss'' (regression_loss terms)
        (Scalar (l + term_or_zero (attn_loss terms)
                     + term_or_zero (decoder_self_attn_loss terms)
                     + term_or_zero (decoder_cross_attn_loss terms)
                     + term_or_zero (value_relation_loss terms)), x4)
      = Inr (Scalar (l + term_or_zero (attn_loss terms)
                     + term_or_zero (decoder_self_attn_loss terms)
                     + term_or_zero (decoder_cross_attn_loss terms)
                     + term_or_zero (value_relation_loss terms)
                     + term_or_zero (regression_loss terms)), x5)"
    using add_term_scalar by blast
  have "add_terms terms (Scalar l, extra) = Inr (Scalar (l + terms_total terms), x5)"
    unfolding add_terms_def bind_err_def 1 sum.case 2 3 4 5 terms_total_def
    by (simp add: add.assoc)
  then show ?thesis by blast
qed

lemma add_no_terms: "add_terms no_terms acc = Inr acc"
  by (simp add: add_terms_def add_term_def no_terms_def bind_err_def)

lemma representation_falsy_epoch:
  "representation_losses ops crit None maps lprobs golden_loss kd_loss loss extra = Inr (loss, extra)"
  "representation_losses ops crit (Some 0) maps lprobs golden_loss kd_loss loss extra
     = Inr (loss, extra)"
  by (simp_all add: representation_losses_def add_no_terms)

lemma late_terms_zero:
  assumes "call2 (kl_div_mean ops) (attn maps) (teacher_attn maps) = Inr a"
    and "call2 (kl_div_mean ops) (value_relation maps) (teacher_value_relation maps) = Inr v"
  shows "bind_err (late_terms ops crit maps) (\<lambda>terms. add_terms terms acc) = Inr acc"
  using assms by (simp add: late_terms_def bind_err_def add_terms_def add_term_def no_terms_def)

lemma representation_late_epoch:
  assumes "100 < e"
    and "attn maps \<noteq> None \<and> teacher_attn maps \<noteq> None \<longrightarrow>
           call2 (kl_div_mean ops) (attn maps) (teacher_attn maps) = Inr a
           \<and> call2 (kl_div_mean ops) (value_relation maps) (teacher_value_relation maps) = Inr v"
  shows "representation_losses ops crit (Some e) maps lprobs golden_loss kd_loss loss extra
           = Inr (loss, extra)"
proof (cases "attn maps \<noteq> None \<and> teacher_attn maps \<noteq> None")
  case True
  then have "bind_err (late_terms ops crit maps) (\<lambda>terms. add_terms terms (loss, extra))
               = Inr (loss, extra)"
    using assms(2) late_terms_zero by blast
  then show ?thesis using assms(1) True by (simp add: representation_losses_def)
next
  case False
  then show ?thesis using assms(1) by (auto simp: representation_losses_def add_no_terms)
qed

lemma uncertainty_return_ok:
  assumes "attn_loss terms = Some a" and "decoder_self_attn_loss terms = Some s"
    and "decoder_cross_attn_loss terms = Some c"
    and "alpha crit = Weight w" and "weight_mean lprobs = Inr wm"
  shows "\<exists>extra1. uncertainty_return crit factor rw lprobs golden_loss (Some kd) extra terms
           = Inr (Scalar (sum_list (map (\<lambda>g. (1 - w) * g) golden_loss)
                          + (wm * (a + s + c) * factor
                             + factor * ((1 - wm) * w * sum_list kd))), extra1)"
  using assms
  by (simp add: uncertainty_return_def rep_sum_def bind_err_def golden_part_def alpha_times_def
      Let_def)

lemma mse_uncertainty_ok:
  assumes "1 \<le> e" and "e \<le> 100"
    and "attn maps \<noteq> None" and "teacher_attn maps \<noteq> None"
    and "loss_type crit = ''mse_uncertainty''"
    and "decoder_kd crit" and "self_kd crit" and "cross_kd crit"
    and "mse_terms ops crit e maps = Inr (spec_mse_terms crit e a s c v x)"
    and "alpha crit = Weight w" and "weight_mean lprobs = Inr wm"
  shows "\<exists>extra1. representation_losses ops crit (Some e) maps lprobs golden_loss (Some kd) loss extra
           = Inr (Scalar (spec_uncertainty_loss crit e 1 w wm golden_loss kd a s c), extra1)"
proof -
  let ?t = "spec_mse_terms crit e a s c v x"
  have t: "attn_loss ?t = Some (a * spec_weight crit e)"
    "decoder_self_attn_loss ?t = Some (s * spec_weight crit e * (1 / 2))"
    "decoder_cross_attn_loss ?t = Some (c * spec_weight crit e * (1 / 2))"
    using assms(6-8) by (simp_all add: spec_mse_terms_def spec_decoder_self_def
        spec_decoder_cross_def)
  obtain extra1 where
    "uncertainty_return crit 1 False lprobs golden_loss (Some kd) extra ?t
       = Inr (Scalar (sum_list (map (\<lambda>g. (1 - w) * g) golden_loss)
                      + (wm * (a * spec_weight crit e + s * spec_weight crit e * (1 / 2)
                               + c * spec_weight crit e * (1 / 2)) * 1
                         + 1 * ((1 - wm) * w * sum_list kd))), extra1)"
    using uncertainty_return_ok[OF t assms(10,11)] by blast
  then have "representation_losses ops crit (Some e) maps lprobs golden_loss (Some kd) loss extra
       = Inr (Scalar (spec_uncertainty_loss crit e 1 w wm golden_loss kd a s c), extra1)"
    using assms(1-5,9)
    by (simp add: representation_losses_def bind_err_def spec_uncertainty_loss_def)
  then show ?thesis by blast
qed

lemma kld_uncertainty_ok:
  assumes "1 \<le> e" and "e \<le> 100"
    and "attn maps \<noteq> None" and "teacher_attn maps \<noteq> None"
    and "loss_type crit = ''kld_uncertainty''"
    and "decoder_kd crit" and "self_kd crit" and "cross_kd crit"
    and "kld_terms ops crit e maps = Inr (spec_kld_terms crit e a s c)"
    and "alpha crit = Weight w" and "weight_mean lprobs = Inr wm"
  shows "\<exists>extra1. representation_losses ops crit (Some e) maps lprobs golden_loss (Some kd) loss extra
           = Inr (Scalar (spec_uncertainty_loss crit e 2 w wm golden_loss kd a s c), extra1)"
proof -
  let ?t = "spec_kld_terms crit e a s c"
  have t: "attn_loss ?t = Some (a * spec_weight crit e)"
    "decoder_self_attn_loss ?t = Some (s * spec_weight crit e * (1 / 2))"
    "decoder_cross_attn_loss ?t = Some (c * spec_weight crit e * (1 / 2))"
    using assms(6-8) by (simp_all add: spec_kld_terms_def spec_decoder_self_def
        spec_decoder_cross_def)
  obtain extra1 where
    "uncertainty_return crit 2 True lprobs golden_loss (Some kd) extra ?t
       = Inr (Scalar (sum_list (map (\<lambda>g. (1 - w) * g) golden_loss)
                      + (wm * (a * spec_weight crit e + s * spec_weight crit e * (1 / 2)
                               + c * spec_weight crit e * (1 / 2)) * 2
                         + 2 * ((1 - wm) * w * sum_list kd))), extra1)"
    using uncertainty_return_ok[OF t assms(10,11)] by blast
  then have "representation_losses ops crit (Some e) maps lprobs golden_loss (Some kd) loss extra
       = Inr (Scalar (spec_uncertainty_loss crit e 2 w wm golden_loss kd a s c), extra1)"
    using assms(1-5,9,10)
    by (simp add: representation_losses_def bind_err_def spec_uncertainty_loss_def
        golden_part_def)
  then show ?thesis by blast
qed

lemma fall_through_ok:
  assumes "terms_of_mode = Inr terms"
  shows "\<exists>extra1. bind_err terms_of_mode (\<lambda>terms. add_terms terms (Scalar l, extra))
           = Inr (Scalar (l + terms_total terms), extra1)"
  using add_terms_scalar[of terms l extra] assms by (simp add: bind_err_def)

lemma ln_quarter: "ln (1 / 4 :: real) = 2 * ln (1 / 2)"
proof -
  have "ln ((1 / 2 :: real) ^ 2) = 2 * ln (1 / 2)" by (subst ln_realpow) simp_all
  then show ?thesis by (simp add: power2_eq_square)
qed

lemma ln_eighth: "ln (1 / 8 :: real) = 3 * ln (1 / 2)"
proof -
  have "ln ((1 / 2 :: real) ^ 3) = 3 * ln (1 / 2)" by (subst ln_realpow) simp_all
  then show ?thesis by (simp add: power3_eq_cube)
qed

lemma weight_mean_example:
  "weight_mean \<lparr>ncols = 4, rows = [[ln (1 / 2), ln (1 / 4), ln (1 / 8), ln (1 / 8)]]\<rparr> = Inr (7 / 8)"
proof -
  have r: "replicate 4 (x :: real) = [x, x, x, x]" for x
    by (simp add: numeral_eq_Suc)
  have nz: "ln (1 / 2 :: real) \<noteq> 0" by simp
  have e: "exp (2 * ln (1 / 2 :: real)) = 1 / 4" "exp (3 * ln (1 / 2 :: real)) = 1 / 8"
    using ln_quarter ln_eighth by (metis exp_ln zero_less_divide_1_iff zero_less_numeral)+
  show ?thesis
    unfolding weight_mean_def
    using nz by (simp add: Let_def r ln_quarter ln_eighth e field_simps)
qed

text \<open>
  Claim C6, as stated: in every loss-type mode the weight of each representation term
  at an epoch from 1 to 100 is \<open>rambda \<cdot> decay^(epoch-1)\<close>, up to the constants 2, 50 and
  4 times the flattened dimension. In the mode \<open>mse_uncertainty\<close> at epoch 1, with the
  default \<open>rambda = 1000000\<close>, an attention map whose mean-squared error to the
  teacher's is 1, decoder maps equal to the teacher's, and a student whose distribution
  over four words is \<open>(1/2, 1/4, 1/8, 1/8)\<close>: the attention term is \<open>1000000\<close>, the
  mean confidence weight is \<open>7/8\<close>, and what is added to the loss for the
  representation is \<open>875000\<close>, the term times \<open>7/8\<close>.
\<close>

theorem C6_confidence_weight_counterexample:
  "(case representation_losses row_ops
           (default_criterion\<lparr>loss_type := ''mse_uncertainty'', decoder_kd := True\<rparr>) (Some 1)
           \<lparr>attn = Some [1], teacher_attn = Some [0],
            decoder_self_attn = Some [0], decoder_cross_attn = Some [0],
            teacher_decoder_self_attn = Some [0], teacher_decoder_cross_attn = Some [0],
            value_relation = None, teacher_value_relation = None, regressed_maps = None\<rparr>
           \<lparr>ncols = 4, rows = [[ln (1 / 2), ln (1 / 4), ln (1 / 8), ln (1 / 8)]]\<rparr>
           [2] (Some [3]) (Scalar 0) Map.empty of
      Inl e \<Rightarrow> False
    | Inr (loss, extra) \<Rightarrow>
        extra ''attn_loss'' = Some (Scalar 1000000)
        \<and> extra ''rep_loss'' = Some (Scalar 875000)
        \<and> loss = Scalar (1 + 875000 + 3 / 16))
   \<and> spec_weight (default_criterion\<lparr>loss_type := ''mse_uncertainty'', decoder_kd := True\<rparr>) 1
       = 1000000"
  by (simp add: representation_losses_def default_criterion_def mse_terms_def value_block_def
      decoder_block_def weigh_def py_pow_def call2_def row_ops_def row_mse_def bind_err_def
      uncertainty_return_def rep_sum_def golden_part_def alpha_times_def init_alpha_def
      weight_mean_example mse_whole_def mse_half_def no_terms_def spec_weight_def Let_def)

text \<open>
  Claim C6, amended. At an epoch from 1 to 100, with encoder attention maps of student
  and teacher present and the library calls of the enabled terms succeeding with the
  values \<open>ma\<close>, \<open>ms\<close>, \<open>mc\<close>, \<open>mr\<close> (mean-squared errors), \<open>ka\<close>, \<open>ks\<close>, \<open>kc\<close> (summed
  divergences) and \<open>kv\<close> (value relation, with \<open>x = value_relation.shape[2] > 0\<close>):
  \<^item> in the modes \<open>mse\<close>, \<open>regression\<close> (without decoder distillation), \<open>kld\<close> and
    \<open>decoder\<close> each term is its library value times \<open>rambda \<cdot> decay^(epoch-1)\<close>, halved
    for the decoder terms when self and cross attention are both enabled, divided by 50
    for the regression term and by \<open>4 \<cdot> x\<close> for the value-relation term, and the loss
    grows by the sum of the terms;
  \<^item> in the modes \<open>mse_uncertainty\<close> and \<open>kld_uncertainty\<close> (all three attention terms
    enabled, fixed \<open>alpha\<close>) the same attention terms are summed, multiplied by the mean
    confidence weight (and by 2 in \<open>kld_uncertainty\<close>) and added to the golden part and
    to the KD part weighted by one minus the confidence weight;
  \<^item> at an epoch above 100, with the two library calls of that branch succeeding, the
    loss and the logged entries are unchanged;
  \<^item> without an epoch, or at epoch 0, the loss and the logged entries are unchanged.
\<close>

theorem C6_representation_weights_amended:
  assumes "1 \<le> e" and "e \<le> 100"
    and "attn maps \<noteq> None" and "teacher_attn maps \<noteq> None"
    and "loss_type crit = ''mse'' \<or> loss_type crit = ''mse_uncertainty'' \<longrightarrow>
           call2 (mse_loss ops) (attn maps) (teacher_attn maps) = Inr ma"
    and "(loss_type crit = ''decoder''
          \<or> (loss_type crit = ''mse'' \<or> loss_type crit = ''mse_uncertainty'') \<and> decoder_kd crit)
         \<and> self_kd crit \<longrightarrow>
           call2 (mse_loss ops) (decoder_self_attn maps) (teacher_decoder_self_attn maps) = Inr ms"
    and "(loss_type crit = ''decoder''
          \<or> (loss_type crit = ''mse'' \<or> loss_type crit = ''mse_uncertainty'') \<and> decoder_kd crit)
         \<and> cross_kd crit \<longrightarrow>
           call2 (mse_loss ops) (decoder_cross_attn maps) (teacher_decoder_cross_attn maps) = Inr mc"
    and "loss_type crit = ''regression'' \<longrightarrow>
           call2 (mse_loss ops) (attn maps) (regressed_maps maps) = Inr mr"
    and "loss_type crit = ''kld'' \<or> loss_type crit = ''kld_uncertainty'' \<longrightarrow>
           call2 (kl_flat_sum ops) (attn maps) (teacher_attn maps) = Inr ka"
    and "(loss_type crit = ''kld'' \<or> loss_type crit = ''kld_uncertainty'') \<and> decoder_kd crit
         \<and> self_kd crit \<longrightarrow>
           call2 (kl_flat_sum ops) (decoder_self_attn maps) (teacher_decoder_self_attn maps) = Inr ks"
    and "(loss_type crit = ''kld'' \<or> loss_type crit = ''kld_uncertainty'') \<and> decoder_kd crit
         \<and> cross_kd crit \<longrightarrow>
           call2 (kl_flat_sum ops) (decoder_cross_attn maps) (teacher_decoder_cross_attn maps) = Inr kc"
    and "(loss_type crit = ''mse'' \<or> loss_type crit = ''mse_uncertainty''
          \<or> loss_type crit = ''regression'') \<and> value_kd crit \<longrightarrow>
           value_relation maps = Some vr \<and> shape2 ops vr = Inr x \<and> 0 < x
           \<and> call2 (kl_flat_batchmean ops) (teacher_value_relation maps) (value_relation maps)
               = Inr kv"
  shows "(loss_type crit = ''mse'' \<longrightarrow>
            mse_terms ops crit e maps = Inr (spec_mse_terms crit e ma ms mc kv x)
            \<and> (\<exists>extra1. representation_losses ops crit (Some e) maps lprobs golden_loss kd_loss
                         (Scalar l) extra
                       = Inr (Scalar (l + terms_total (spec_mse_terms crit e ma ms mc kv x)),
                              extra1)))
       \<and> (loss_type crit = ''regression'' \<and> \<not> decoder_kd crit \<longrightarrow>
            regression_terms ops crit e maps = Inr (spec_regression_terms crit e mr kv x)
            \<and> (\<exists>extra1. representation_losses ops crit (Some e) maps lprobs golden_loss kd_loss
                         (Scalar l) extra
                       = Inr (Scalar (l + terms_total (spec_regression_terms crit e mr kv x)),
                              extra1)))
       \<and> (loss_type crit = ''kld'' \<longrightarrow>
            kld_terms ops crit e maps = Inr (spec_kld_terms crit e ka ks kc)
            \<and> (\<exists>extra1. representation_losses ops crit (Some e) maps lprobs golden_loss kd_loss
                         (Scalar l) extra
                       = Inr (Scalar (l + terms_total (spec_kld_terms crit e ka ks kc)), extra1)))
       \<and> (loss_type crit = ''decoder'' \<longrightarrow>
            decoder_terms ops crit e maps = Inr (spec_decoder_terms crit e ms mc)
            \<and> (\<exists>extra1. representation_losses ops crit (Some e) maps lprobs golden_loss kd_loss
                         (Scalar l) extra
                       = Inr (Scalar (l + terms_total (spec_decoder_terms crit e ms mc)), extra1)))
       \<and> (loss_type crit = ''mse_uncertainty'' \<and> decoder_kd crit \<and> self_kd crit \<and> cross_kd crit
            \<and> alpha crit = Weight w \<and> weight_mean lprobs = Inr wm \<longrightarrow>
            mse_terms ops crit e maps = Inr (spec_mse_terms crit e ma ms mc kv x)
            \<and> (\<exists>extra1. representation_losses ops crit (Some e) maps lprobs golden_loss (Some kd)
                         loss extra
                       = Inr (Scalar (spec_uncertainty_loss crit e 1 w wm golden_loss kd ma ms mc),
                              extra1)))
       \<and> (loss_type crit = ''kld_uncertainty'' \<and> decoder_kd crit \<and> self_kd crit \<and> cross_kd crit
            \<and> alpha crit = Weight w \<and> weight_mean lprobs = Inr wm \<longrightarrow>
            kld_terms ops crit e maps = Inr (spec_kld_terms crit e ka ks kc)
            \<and> (\<exists>extra1. representation_losses ops crit (Some e) maps lprobs golden_loss (Some kd)
                         loss extra
                       = Inr (Scalar (spec_uncertainty_loss crit e 2 w wm golden_loss kd ka ks kc),
                              extra1)))
       \<and> (\<forall>e' la lv. 100 < e'
            \<and> call2 (kl_div_mean ops) (attn maps) (teacher_attn maps) = Inr la
            \<and> call2 (kl_div_mean ops) (value_relation maps) (teacher_value_relation maps) = Inr lv
            \<longrightarrow> representation_losses ops crit (Some e') maps lprobs golden_loss kd_loss loss extra
                  = Inr (loss, extra))
       \<and> representation_losses ops crit None maps lprobs golden_loss kd_loss loss extra
           = Inr (loss, extra)
       \<and> representation_losses ops crit (Some 0) maps lprobs golden_loss kd_loss loss extra
           = Inr (loss, extra)"
proof -
  note e1 = assms(1)
  have pre: "e \<noteq> 0" "e \<le> 100" "attn maps \<noteq> None \<and> teacher_attn maps \<noteq> None"
    using assms(1-4) by simp_all
  have mse: "mse_terms ops crit e maps = Inr (spec_mse_terms crit e ma ms mc kv x)"
    if "loss_type crit = ''mse'' \<or> loss_type crit = ''mse_uncertainty''"
    unfolding spec_mse_terms_def
    using assms(5,6,7,12) that by (intro mse_terms_ok[OF e1]) auto
  have reg: "regression_terms ops crit e maps = Inr (spec_regression_terms crit e mr kv x)"
    if "loss_type crit = ''regression'' \<and> \<not> decoder_kd crit"
    unfolding spec_regression_terms_def
    using assms(8,12) that by (intro regression_terms_ok[OF e1]) auto
  have kld: "kld_terms ops crit e maps = Inr (spec_kld_terms crit e ka ks kc)"
    if "loss_type crit = ''kld'' \<or> loss_type crit = ''kld_uncertainty''"
    unfolding spec_kld_terms_def
    using assms(9,10,11) that by (intro kld_terms_ok[OF e1]) auto
  have dec: "decoder_terms ops crit e maps = Inr (spec_decoder_terms crit e ms mc)"
    if "loss_type crit = ''decoder''"
    unfolding spec_decoder_terms_def
    using assms(6,7) that by (intro decoder_terms_ok[OF e1]) auto
  have m1: "\<exists>extra1. representation_losses ops crit (Some e) maps lprobs golden_loss kd_loss
                         (Scalar l) extra
                       = Inr (Scalar (l + terms_total (spec_mse_terms crit e ma ms mc kv x)),
                              extra1)"
    if "loss_type crit = ''mse''"
    using fall_through_ok[OF mse, of l extra] that pre by (simp add: representation_losses_def)
  have m2: "\<exists>extra1. representation_losses ops crit (Some e) maps lprobs golden_loss kd_loss
                         (Scalar l) extra
                       = Inr (Scalar (l + terms_total (spec_regression_terms crit e mr kv x)),
                              extra1)"
    if "loss_type crit = ''regression'' \<and> \<not> decoder_kd crit"
    using fall_through_ok[OF reg, of l extra] that pre by (simp add: representation_losses_def)
  have m3: "\<exists>extra1. representation_losses ops crit (Some e) maps lprobs golden_loss kd_loss
                         (Scalar l) extra
                       = Inr (Scalar (l + terms_total (spec_kld_terms crit e ka ks kc)), extra1)"
    if "loss_type crit = ''kld''"
    using fall_through_ok[OF kld, of l extra] that pre by (simp add: representation_losses_def)
  have m4: "\<exists>extra1. representation_losses ops crit (Some e) maps lprobs golden_loss kd_loss
                         (Scalar l) extra
                       = Inr (Scalar (l + terms_total (spec_decoder_terms crit e ms mc)), extra1)"
    if "loss_type crit = ''decoder''"
    using fall_through_ok[OF dec, of l extra] that pre by (simp add: representation_losses_def)
  have u1: "\<exists>extra1. representation_losses ops crit (Some e) maps lprobs golden_loss (Some kd)
                         loss extra
                       = Inr (Scalar (spec_uncertainty_loss crit e 1 w wm golden_loss kd ma ms mc),
                              extra1)"
    if "loss_type crit = ''mse_uncertainty'' \<and> decoder_kd crit \<and> self_kd crit \<and> cross_kd crit
            \<and> alpha crit = Weight w \<and> weight_mean lprobs = Inr wm"
    using that mse by (intro mse_uncertainty_ok[OF assms(1-4)]) simp_all
  have u2: "\<exists>extra1. representation_losses ops crit (Some e) maps lprobs golden_loss (Some kd)
                         loss extra
                       = Inr (Scalar (spec_uncertainty_loss crit e 2 w wm golden_loss kd ka ks kc),
                              extra1)"
    if "loss_type crit = ''kld_uncertainty'' \<and> decoder_kd crit \<and> self_kd crit \<and> cross_kd crit
            \<and> alpha crit = Weight w \<and> weight_mean lprobs = Inr wm"
    using that kld by (intro kld_uncertainty_ok[OF assms(1-4)]) simp_all
  have late: "representation_losses ops crit (Some e') maps lprobs golden_loss kd_loss loss extra
                  = Inr (loss, extra)"
    if "100 < e'
            \<and> call2 (kl_div_mean ops) (attn maps) (teacher_attn maps) = Inr la
            \<and> call2 (kl_div_mean ops) (value_relation maps) (teacher_value_relation maps) = Inr lv"
    for e' la lv
    using that by (intro representation_late_epoch[where a = la and v = lv]) simp_all
  note falsy = representation_falsy_epoch[of ops crit maps lprobs golden_loss kd_loss loss extra]
  show ?thesis
    using mse reg kld dec m1 m2 m3 m4 u1 u2 late falsy by blast
qed

theorem C6_representation_weights_amended_witness:
  "mse_terms row_ops (default_criterion\<lparr>decoder_kd := True\<rparr>) 3
      \<lparr>attn = Some [1], teacher_attn = Some [0],
       decoder_self_attn = Some [0], decoder_cross_attn = Some [0],
       teacher_decoder_self_attn = Some [0], teacher_decoder_cross_attn = Some [0],
       value_relation = None, teacher_value_relation = None, regressed_maps = None\<rparr>
     = Inr (spec_mse_terms (default_criterion\<lparr>decoder_kd := True\<rparr>) 3 1 0 0 0 1)
   \<and> (\<exists>extra1. representation_losses row_ops (default_criterion\<lparr>decoder_kd := True\<rparr>) (Some 3)
          \<lparr>attn = Some [1], teacher_attn = Some [0],
           decoder_self_attn = Some [0], decoder_cross_attn = Some [0],
           teacher_decoder_self_attn = Some [0], teacher_decoder_cross_attn = Some [0],
           value_relation = None, teacher_value_relation = None, regressed_maps = None\<rparr>
          \<lparr>ncols = 4, rows = [[ln (1 / 2), ln (1 / 4), ln (1 / 8), ln (1 / 8)]]\<rparr>
          [2] (Some [3]) (Scalar 5) Map.empty
        = Inr (Scalar (5 + terms_total
                 (spec_mse_terms (default_criterion\<lparr>decoder_kd := True\<rparr>) 3 1 0 0 0 1)), extra1))
   \<and> terms_total (spec_mse_terms (default_criterion\<lparr>decoder_kd := True\<rparr>) 3 1 0 0 0 1)
       = 1000000 * (985 / 1000)\<^sup>2
   \<and> (\<exists>extra1. representation_losses row_ops
          (default_criterion\<lparr>loss_type := ''mse_uncertainty'', decoder_kd := True\<rparr>) (Some 3)
          \<lparr>attn = Some [1], teacher_attn = Some [0],
           decoder_self_attn = Some [0], decoder_cross_attn = Some [0],
           teacher_decoder_self_attn = Some [0], teacher_decoder_cross_attn = Some [0],
           value_relation = None, teacher_value_relation = None, regressed_maps = None\<rparr>
          \<lparr>ncols = 4, rows = [[ln (1 / 2), ln (1 / 4), ln (1 / 8), ln (1 / 8)]]\<rparr>
          [2] (Some [3]) (Scalar 5) Map.empty
        = Inr (Scalar (spec_uncertainty_loss
                 (default_criterion\<lparr>loss_type := ''mse_uncertainty'', decoder_kd := True\<rparr>)
                 3 1 (1 / 2) (7 / 8) [2] [3] 1 0 0), extra1))
   \<and> representation_losses row_ops (default_criterion\<lparr>decoder_kd := True\<rparr>) None
          \<lparr>attn = Some [1], teacher_attn = Some [0],
           decoder_self_attn = Some [0], decoder_cross_attn = Some [0],
           teacher_decoder_self_attn = Some [0], teacher_decoder_cross_attn = Some [0],
           value_relation = None, teacher_value_relation = None, regressed_maps = None\<rparr>
          \<lparr>ncols = 4, rows = [[ln (1 / 2), ln (1 / 4), ln (1 / 8), ln (1 / 8)]]\<rparr>
          [2] (Some [3]) (Scalar 5) Map.empty
        = Inr (Scalar 5, Map.empty)"
proof -
  let ?C = "default_criterion\<lparr>decoder_kd := True\<rparr>"
  let ?U = "default_criterion\<lparr>loss_type := ''mse_uncertainty'', decoder_kd := True\<rparr>"
  let ?M = "\<lparr>attn = Some [1 :: real], teacher_attn = Some [0],
       decoder_self_attn = Some [0], decoder_cross_attn = Some [0],
       teacher_decoder_self_attn = Some [0], teacher_decoder_cross_attn = Some [0],
       value_relation = None, teacher_value_relation = None, regressed_maps = None\<rparr>"
  let ?L = "\<lparr>ncols = 4, rows = [[ln (1 / 2), ln (1 / 4), ln (1 / 8), ln (1 / 8)]]\<rparr>"
  have h1: "(1 :: int) \<le> 3" and h2: "(3 :: int) \<le> 100" by simp_all
  have h3: "attn ?M \<noteq> None" and h4: "teacher_attn ?M \<noteq> None" by simp_all
  have lt: "loss_type ?C = ''mse''" "loss_type ?U = ''mse_uncertainty''"
    by (simp_all add: default_criterion_def)
  have fl: "decoder_kd ?U" "self_kd ?U" "cross_kd ?U" "alpha ?U = Weight (1 / 2)"
    "value_kd ?C = False" "value_kd ?U = False"
    by (simp_all add: default_criterion_def init_alpha_def)
  have a: "call2 (mse_loss row_ops) (attn ?M) (teacher_attn ?M) = Inr 1"
    by (simp add: call2_def row_ops_def row_mse_def)
  have s: "call2 (mse_loss row_ops) (decoder_self_attn ?M) (teacher_decoder_self_attn ?M) = Inr 0"
    by (simp add: call2_def row_ops_def row_mse_def)
  have c: "call2 (mse_loss row_ops) (decoder_cross_attn ?M) (teacher_decoder_cross_attn ?M) = Inr 0"
    by (simp add: call2_def row_ops_def row_mse_def)
  note r1 = C6_representation_weights_amended
    [where ops = row_ops and crit = ?C and e = 3 and maps = ?M and ma = 1 and ms = 0 and mc = 0
       and mr = 0 and ka = 0 and ks = 0 and kc = 0 and kv = 0 and x = 1 and vr = "[]"
       and lprobs = ?L and golden_loss = "[2]" and kd_loss = "Some [3]" and l = 5
       and loss = "Scalar 5" and extra = Map.empty,
     OF h1 h2 h3 h4]
  note r2 = C6_representation_weights_amended
    [where ops = row_ops and crit = ?U and e = 3 and maps = ?M and ma = 1 and ms = 0 and mc = 0
       and mr = 0 and ka = 0 and ks = 0 and kc = 0 and kv = 0 and x = 1 and vr = "[]"
       and lprobs = ?L and golden_loss = "[2]" and kd = "[3]" and w = "1 / 2" and wm = "7 / 8"
       and loss = "Scalar 5" and extra = Map.empty,
     OF h1 h2 h3 h4]
  have t: "terms_total (spec_mse_terms ?C 3 1 0 0 0 1) = 1000000 * (985 / 1000)\<^sup>2"
    by (simp add: terms_total_def spec_mse_terms_def spec_decoder_self_def spec_decoder_cross_def
        spec_value_def spec_weight_def term_or_zero_def default_criterion_def)
  have p1: "mse_terms row_ops ?C 3 ?M = Inr (spec_mse_terms ?C 3 1 0 0 0 1)"
    "\<exists>extra1. representation_losses row_ops ?C (Some 3) ?M ?L [2] (Some [3]) (Scalar 5) Map.empty
        = Inr (Scalar (5 + terms_total (spec_mse_terms ?C 3 1 0 0 0 1)), extra1)"
    "representation_losses row_ops ?C None ?M ?L [2] (Some [3]) (Scalar 5) Map.empty
        = Inr (Scalar 5, Map.empty)"
    using r1 lt(1) fl(5) a s c by simp_all
  have p2: "\<exists>extra1. representation_losses row_ops ?U (Some 3) ?M ?L [2] (Some [3]) (Scalar 5)
          Map.empty
        = Inr (Scalar (spec_uncertainty_loss ?U 3 1 (1 / 2) (7 / 8) [2] [3] 1 0 0), extra1)"
    using r2 lt(2) fl a s c weight_mean_example by simp
  show ?thesis using p1 p2 t by (intro conjI)
qed

section \<open>Properties of the entropy-weighted distillation loss\<close>

lemma exp_le_sum_list_exp:
  fixes xs :: "real list"
  assumes "x \<in> set xs"
  shows "exp x \<le> sum_list (map exp xs)"
  using assms
proof (induction xs)
  case Nil
  then show ?case by simp
next
  case (Cons y ys)
  have nn: "0 \<le> sum_list (map exp ys)" by (rule sum_list_nonneg) auto
  show ?case
  proof (cases "x = y")
    case True
    then show ?thesis using nn by simp
  next
    case False
    then have "exp x \<le> sum_list (map exp ys)" using Cons by simp
    then have "0 + exp x \<le> exp y + sum_list (map exp ys)"
      by (intro add_mono) simp_all
    then show ?thesis by simp
  qed
qed

lemma sum_list_divide_const:
  fixes c :: real
  shows "(\<Sum>x\<leftarrow>xs. f x / c) = sum_list (map f xs) / c"
  by (induction xs) (simp_all add: add_divide_distrib)

lemma softmax_pos_le:
  assumes "p \<in> set (softmax xs)"
  shows "0 < p \<and> p \<le> 1"
proof -
  obtain x where x: "x \<in> set xs" "p = exp x / sum_list (map exp xs)"
    using assms by (auto simp: softmax_def)
  have "xs \<noteq> []" using x(1) by auto
  then have z: "0 < sum_list (map exp xs)" by (rule sum_list_exp_pos)
  have "exp x \<le> sum_list (map exp xs)" by (rule exp_le_sum_list_exp[OF x(1)])
  then show ?thesis using z x(2) by simp
qed

lemma softmax_sum:
  assumes "xs \<noteq> []"
  shows "sum_list (softmax xs) = 1"
proof -
  have z: "0 < sum_list (map exp xs)" by (rule sum_list_exp_pos[OF assms])
  have "sum_list (softmax xs) = sum_list (map exp xs) / sum_list (map exp xs)"
    by (simp add: softmax_def sum_list_divide_const comp_def)
  then show ?thesis using z by simp
qed

lemma softmax_length: "length (softmax xs) = length xs"
  by (simp add: softmax_def)

lemma ln_ge_one_minus_inverse:
  fixes x :: real
  assumes "0 < x"
  shows "1 - 1 / x \<le> ln x"
proof -
  have "ln (1 / x) \<le> 1 / x - 1" using assms by (intro ln_le_minus_one) simp
  then show ?thesis using assms by (simp add: ln_div)
qed

text \<open>The entropy with the offset, on a list of probabilities.\<close>

lemma offset_entropy_upper:
  fixes ps :: "real list"
  assumes pos: "\<And>p. p \<in> set ps \<Longrightarrow> 0 < p \<and> p \<le> 1"
    and total: "sum_list ps = 1" and len: "2 \<le> length ps"
  shows "- (\<Sum>p\<leftarrow>ps. p * ln (p + 1 / 10 ^ 6)) < ln (real (length ps))"
proof -
  let ?V = "real (length ps)"
  let ?e = "1 / 10 ^ 6 :: real"
  have ne: "ps \<noteq> []" using len by (cases ps) simp_all
  have V: "0 < ?V" using ne by simp
  have step: "- (p * ln (p + ?e)) < p * ln ?V + (1 / ?V - p)" if "p \<in> set ps" for p
  proof -
    have p: "0 < p" using pos[OF that] by simp
    have x: "0 < ?V * (p + ?e)" using V p by simp
    have "1 - 1 / (?V * (p + ?e)) \<le> ln (?V * (p + ?e))"
      by (rule ln_ge_one_minus_inverse[OF x])
    also have "\<dots> = ln ?V + ln (p + ?e)" using V p by (simp add: ln_mult)
    finally have "- ln (p + ?e) \<le> ln ?V + (1 / (?V * (p + ?e)) - 1)" by simp
    then have "p * (- ln (p + ?e)) \<le> p * (ln ?V + (1 / (?V * (p + ?e)) - 1))"
      using p by (intro mult_left_mono) simp_all
    then have a: "- (p * ln (p + ?e)) \<le> p * ln ?V + (p / (?V * (p + ?e)) - p)"
      by (simp add: algebra_simps)
    have "p / (p + ?e) < 1" using p by simp
    then have lt: "p / (p + ?e) / ?V < 1 / ?V" by (rule divide_strict_right_mono[OF _ V])
    have eq: "p / (p + ?e) / ?V = p / (?V * (p + ?e))" by (simp add: mult.commute)
    have "p / (?V * (p + ?e)) < 1 / ?V" using lt unfolding eq .
    then show ?thesis using a by linarith
  qed
  have "(\<Sum>p\<leftarrow>ps. - (p * ln (p + ?e))) < (\<Sum>p\<leftarrow>ps. p * ln ?V + (1 / ?V - p))"
    by (rule sum_list_strict_mono[OF ne step])
  also have "\<dots> = sum_list ps * ln ?V + (?V * (1 / ?V) - sum_list ps)"
    by (simp add: sum_list_addf sum_list_subtractf sum_list_triv sum_list_mult_const)
  also have "\<dots> = ln ?V" using total V by simp
  finally show ?thesis by (simp add: uminus_sum_list_map comp_def)
qed

lemma offset_entropy_lower:
  fixes ps :: "real list"
  assumes pos: "\<And>p. p \<in> set ps \<Longrightarrow> 0 < p \<and> p \<le> 1"
    and total: "sum_list ps = 1"
  shows "- ln (1 + 1 / 10 ^ 6) \<le> - (\<Sum>p\<leftarrow>ps. p * ln (p + 1 / 10 ^ 6))"
proof -
  let ?e = "1 / 10 ^ 6 :: real"
  have step: "p * ln (p + ?e) \<le> p * ln (1 + ?e)" if "p \<in> set ps" for p
  proof -
    have p: "0 < p" "p \<le> 1" using pos[OF that] by simp_all
    have "ln (p + ?e) \<le> ln (1 + ?e)" using p by simp
    then show ?thesis using p(1) by (intro mult_left_mono) simp_all
  qed
  have "(\<Sum>p\<leftarrow>ps. p * ln (p + ?e)) \<le> (\<Sum>p\<leftarrow>ps. p * ln (1 + ?e))"
    by (rule sum_list_mono[OF step])
  also have "\<dots> = sum_list ps * ln (1 + ?e)"
    by (simp add: sum_list_mult_const)
  finally show ?thesis using total by simp
qed

lemma offset_entropy_peaked:
  fixes ps :: "real list"
  assumes pos: "\<And>p. p \<in> set ps \<Longrightarrow> 0 < p \<and> p \<le> 1"
    and total: "sum_list ps = 1" and k: "k < length ps" and peak: "1 - d \<le> ps ! k"
  shows "- (\<Sum>p\<leftarrow>ps. p * ln (p + 1 / 10 ^ 6)) \<le> d * (1 + ln (10 ^ 6))"
proof -
  let ?e = "1 / 10 ^ 6 :: real"
  let ?f = "\<lambda>p :: real. - (p * ln (p + ?e))"
  let ?L = "ln (10 ^ 6 :: real)"
  have L: "0 \<le> ?L" by simp
  have split: "ps = take k ps @ ps ! k # drop (Suc k) ps" by (rule id_take_nth_drop[OF k])
  have small: "?f p \<le> p * ?L" if "p \<in> set ps" for p
  proof -
    have p: "0 < p" using pos[OF that] by simp
    have "ln ?e \<le> ln (p + ?e)" using p by (subst ln_le_cancel_iff) simp_all
    moreover have "ln ?e = - ?L" by (simp add: ln_div)
    ultimately have "- ln (p + ?e) \<le> ?L" by simp
    then have "p * (- ln (p + ?e)) \<le> p * ?L" using p by (intro mult_left_mono) simp_all
    then show ?thesis by simp
  qed
  have big: "?f p \<le> 1 - p" if "p \<in> set ps" for p
  proof -
    have p: "0 < p" using pos[OF that] by simp
    have "1 - 1 / p \<le> ln p" by (rule ln_ge_one_minus_inverse[OF p])
    also have "ln p \<le> ln (p + ?e)" using p by simp
    finally have "- ln (p + ?e) \<le> 1 / p - 1" by simp
    then have "p * (- ln (p + ?e)) \<le> p * (1 / p - 1)" using p by (intro mult_left_mono) simp_all
    also have "\<dots> = 1 - p" using p by (simp add: algebra_simps)
    finally show ?thesis by simp
  qed
  have pk: "ps ! k \<in> set ps" using k by simp
  have s1: "(\<Sum>p\<leftarrow>take k ps. ?f p) \<le> (\<Sum>p\<leftarrow>take k ps. p * ?L)"
  proof (rule sum_list_mono)
    fix p assume "p \<in> set (take k ps)"
    then have "p \<in> set ps" by (rule in_set_takeD)
    then show "?f p \<le> p * ?L" by (rule small)
  qed
  have s2: "(\<Sum>p\<leftarrow>drop (Suc k) ps. ?f p) \<le> (\<Sum>p\<leftarrow>drop (Suc k) ps. p * ?L)"
  proof (rule sum_list_mono)
    fix p assume "p \<in> set (drop (Suc k) ps)"
    then have "p \<in> set ps" by (rule in_set_dropD)
    then show "?f p \<le> p * ?L" by (rule small)
  qed
  have rest: "sum_list (take k ps) + sum_list (drop (Suc k) ps) = 1 - ps ! k"
  proof -
    have "sum_list ps = sum_list (take k ps) + (ps ! k + sum_list (drop (Suc k) ps))"
      by (subst split) simp
    then show ?thesis using total by simp
  qed
  have "(\<Sum>p\<leftarrow>ps. ?f p)
      = (\<Sum>p\<leftarrow>take k ps. ?f p) + (?f (ps ! k) + (\<Sum>p\<leftarrow>drop (Suc k) ps. ?f p))"
    by (subst split) simp
  also have "\<dots> \<le> (\<Sum>p\<leftarrow>take k ps. p * ?L) + ((1 - ps ! k) + (\<Sum>p\<leftarrow>drop (Suc k) ps. p * ?L))"
    using s1 s2 big[OF pk] by (intro add_mono) simp_all
  also have "\<dots> = (sum_list (take k ps) + sum_list (drop (Suc k) ps)) * ?L + (1 - ps ! k)"
    by (simp add: sum_list_mult_const algebra_simps)
  also have "\<dots> = (1 - ps ! k) * (1 + ?L)" unfolding rest by (simp add: algebra_simps)
  also have "\<dots> \<le> d * (1 + ?L)"
    using peak L by (intro mult_right_mono) simp_all
  finally show ?thesis by (simp add: uminus_sum_list_map comp_def)
qed

lemma softmax_uniform:
  assumes "0 < n"
  shows "softmax (replicate n c) = replicate n (1 / real n)"
proof -
  have "sum_list (map exp (replicate n c)) = real n * exp c"
    by (simp add: sum_list_replicate)
  then show ?thesis using assms by (simp add: softmax_def)
qed

lemma student_entropy_uniform:
  assumes "0 < n"
  shows "student_entropy (replicate n c) = - ln (1 / real n + 1 / 10 ^ 6)"
  using assms by (simp add: student_entropy_def softmax_uniform sum_list_replicate)

lemma student_entropy_bounds:
  assumes "2 \<le> length r"
  shows "- ln (1 + 1 / 10 ^ 6) \<le> student_entropy r"
    and "student_entropy r < ln (real (length r))"
    and "k < length r \<Longrightarrow> 1 - d \<le> softmax r ! k
           \<Longrightarrow> student_entropy r \<le> d * (1 + ln (10 ^ 6))"
proof -
  have ne: "r \<noteq> []" using assms by (cases r) simp_all
  have pos: "\<And>p. p \<in> set (softmax r) \<Longrightarrow> 0 < p \<and> p \<le> 1" by (rule softmax_pos_le)
  have total: "sum_list (softmax r) = 1" by (rule softmax_sum[OF ne])
  have len: "2 \<le> length (softmax r)" using assms by (simp add: softmax_length)
  show "- ln (1 + 1 / 10 ^ 6) \<le> student_entropy r"
    unfolding student_entropy_def by (rule offset_entropy_lower[OF pos total])
  show "student_entropy r < ln (real (length r))"
    using offset_entropy_upper[OF pos total len]
    by (simp add: student_entropy_def softmax_length)
  show "student_entropy r \<le> d * (1 + ln (10 ^ 6))"
    if "k < length r" and "1 - d \<le> softmax r ! k"
    unfolding student_entropy_def
    using that by (intro offset_entropy_peaked[OF pos total, of k]) (simp_all add: softmax_length)
qed

text \<open>
  Claim C8, amended: for student logits over a vocabulary of \<open>V \<ge> 2\<close> entries the
  instance weight of every example is the entropy with the offset \<open>1e-6\<close> inside the
  logarithm, divided by \<open>log V\<close>. It lies between \<open>-log(1 + 1e-6) / log V\<close> and 1,
  strictly below 1. For a uniform student it is \<open>-log(1/V + 1e-6) / log V\<close>, positive and
  just below 1. For a student that gives one word a probability of at least \<open>1 - d\<close>
  it is at most \<open>d \<cdot> (1 + log 1e6) / log V\<close>: it approaches a value that is not above
  zero as the student approaches a one-hot distribution.
\<close>

theorem C8_instance_weight_amended:
  assumes "wf_tensor2 student_logits" and "2 \<le> ncols student_logits"
  shows "instance_weight student_logits
           = Inr (map (\<lambda>r. student_entropy r / ln (real (ncols student_logits)))
                    (rows student_logits))
       \<and> (\<forall>r \<in> set (rows student_logits).
             - ln (1 + 1 / 10 ^ 6) / ln (real (ncols student_logits))
               \<le> student_entropy r / ln (real (ncols student_logits))
             \<and> student_entropy r / ln (real (ncols student_logits)) < 1
             \<and> (\<forall>c. r = replicate (ncols student_logits) c \<longrightarrow>
                   student_entropy r / ln (real (ncols student_logits))
                     = - ln (1 / real (ncols student_logits) + 1 / 10 ^ 6)
                       / ln (real (ncols student_logits))
                   \<and> 0 < student_entropy r / ln (real (ncols student_logits)))
             \<and> (\<forall>k d. k < ncols student_logits \<and> 1 - d \<le> softmax r ! k \<longrightarrow>
                   student_entropy r / ln (real (ncols student_logits))
                     \<le> d * (1 + ln (10 ^ 6)) / ln (real (ncols student_logits))))"
proof (intro conjI ballI allI impI)
  let ?V = "ncols student_logits"
  have V: "1 < real ?V" using assms(2) by simp
  then have lnV: "0 < ln (real ?V)" by simp
  show "instance_weight student_logits
           = Inr (map (\<lambda>r. student_entropy r / ln (real ?V)) (rows student_logits))"
    using assms(2) by (simp add: instance_weight_def)
  fix r assume r: "r \<in> set (rows student_logits)"
  then have len: "length r = ?V" using assms(1) by (simp add: wf_tensor2_def list_all_iff)
  then have len2: "2 \<le> length r" using assms(2) by simp
  note b = student_entropy_bounds[OF len2]
  show "- ln (1 + 1 / 10 ^ 6) / ln (real ?V) \<le> student_entropy r / ln (real ?V)"
    by (rule divide_right_mono[OF b(1)]) (use lnV in simp)
  show "student_entropy r / ln (real ?V) < 1"
    using b(2) lnV by (simp add: len)
  {
    fix c assume u: "r = replicate ?V c"
    have pos: "0 < ?V" using assms(2) by simp
    have e: "student_entropy r = - ln (1 / real ?V + 1 / 10 ^ 6)"
      unfolding u by (rule student_entropy_uniform[OF pos])
    show "student_entropy r / ln (real ?V) = - ln (1 / real ?V + 1 / 10 ^ 6) / ln (real ?V)"
      by (simp add: e)
    have "1 / real ?V \<le> 1 / 2" using assms(2) by (simp add: field_simps)
    then have "1 / real ?V + 1 / 10 ^ 6 < 1" by simp
    moreover have "0 < 1 / real ?V + 1 / 10 ^ 6 " using pos by (simp add: add_pos_pos)
    ultimately have "ln (1 / real ?V + 1 / 10 ^ 6) < 0" by (simp add: ln_less_zero)
    then have "0 < - ln (1 / real ?V + 1 / 10 ^ 6)" by simp
    then have "0 < - ln (1 / real ?V + 1 / 10 ^ 6) / ln (real ?V)"
      using lnV by (rule divide_pos_pos)
    then show "0 < student_entropy r / ln (real ?V)" unfolding e .
  }
  {
    fix k d assume kd: "k < ?V \<and> 1 - d \<le> softmax r ! k"
    then have "student_entropy r \<le> d * (1 + ln (10 ^ 6))"
      using b(3)[of k d] len by simp
    then show "student_entropy r / ln (real ?V) \<le> d * (1 + ln (10 ^ 6)) / ln (real ?V)"
      by (rule divide_right_mono) (use lnV in simp)
  }
qed

lemma uniform_weight_value:
  "instance_weight \<lparr>ncols = 2, rows = [[0, 0]]\<rparr> = Inr [- ln (1 / 2 + 1 / 10 ^ 6) / ln 2]"
proof -
  have "student_entropy (replicate 2 0) = - ln (1 / real 2 + 1 / 10 ^ 6)"
    by (rule student_entropy_uniform) simp
  moreover have "replicate 2 (0 :: real) = [0, 0]" by (simp add: numeral_2_eq_2)
  ultimately have "student_entropy [0, 0] = - ln (1 / 2 + 1 / 10 ^ 6)" by simp
  then show ?thesis by (simp add: instance_weight_def)
qed

lemma uniform_weight_below_one: "- ln (1 / 2 + 1 / 10 ^ 6) / ln 2 < (1 :: real)"
proof -
  have "ln (1 / 2 :: real) < ln (1 / 2 + 1 / 10 ^ 6)" by (subst ln_less_cancel_iff) simp_all
  moreover have "ln (1 / 2 :: real) = - ln 2" by (simp add: ln_div)
  ultimately have a: "- ln (1 / 2 + 1 / 10 ^ 6) < ln (2 :: real)" by simp
  have b: "0 < ln (2 :: real)" by simp
  have "- ln (1 / 2 + 1 / 10 ^ 6) / ln 2 < ln (2 :: real) / ln 2"
    by (rule divide_strict_right_mono[OF a b])
  also have "ln (2 :: real) / ln 2 = 1" by simp
  finally show ?thesis .
qed

lemma peaked_softmax:
  "softmax [ln (10 ^ 18 - 1), 0] = [1 - 1 / 10 ^ 18, 1 / 10 ^ 18]"
proof -
  have "exp (ln (10 ^ 18 - 1 :: real)) = 10 ^ 18 - 1" by (subst exp_ln) simp_all
  then show ?thesis by (simp add: softmax_def)
qed

lemma peaked_weight_value:
  "instance_weight \<lparr>ncols = 2, rows = [[ln (10 ^ 18 - 1), 0]]\<rparr>
     = Inr [- ((1 - 1 / 10 ^ 18) * ln (1 - 1 / 10 ^ 18 + 1 / 10 ^ 6)
               + 1 / 10 ^ 18 * ln (1 / 10 ^ 18 + 1 / 10 ^ 6)) / ln 2]"
proof -
  have se: "student_entropy [ln (10 ^ 18 - 1), 0]
      = - ((1 - 1 / 10 ^ 18) * ln (1 - 1 / 10 ^ 18 + 1 / 10 ^ 6)
           + 1 / 10 ^ 18 * ln (1 / 10 ^ 18 + 1 / 10 ^ 6))"
    unfolding student_entropy_def peaked_softmax by simp
  have "instance_weight \<lparr>ncols = 2, rows = [[ln (10 ^ 18 - 1), 0]]\<rparr>
      = Inr [student_entropy [ln (10 ^ 18 - 1), 0] / ln 2]"
    by (simp add: instance_weight_def)
  then show ?thesis unfolding se .
qed

lemma peaked_weight_negative:
  "- ((1 - 1 / 10 ^ 18) * ln (1 - 1 / 10 ^ 18 + 1 / 10 ^ 6)
       + 1 / 10 ^ 18 * ln (1 / 10 ^ 18 + 1 / 10 ^ 6)) / ln 2 < (0 :: real)"
proof -
  let ?a = "1 - 1 / 10 ^ 18 :: real"
  let ?b = "1 / 10 ^ 18 :: real"
  let ?e = "1 / 10 ^ 6 :: real"
  have la: "1 - 1 / (?a + ?e) \<le> ln (?a + ?e)" by (rule ln_ge_one_minus_inverse) simp
  have lb: "1 - 1 / (?b + ?e) \<le> ln (?b + ?e)" by (rule ln_ge_one_minus_inverse) simp
  have "?a * (1 - 1 / (?a + ?e)) \<le> ?a * ln (?a + ?e)"
    by (rule mult_left_mono[OF la]) simp
  moreover have "?b * (1 - 1 / (?b + ?e)) \<le> ?b * ln (?b + ?e)"
    by (rule mult_left_mono[OF lb]) simp
  moreover have "0 < ?a * (1 - 1 / (?a + ?e)) + ?b * (1 - 1 / (?b + ?e))" by simp
  ultimately have "0 < ?a * ln (?a + ?e) + ?b * ln (?b + ?e)" by linarith
  moreover have "0 < ln (2 :: real)" by simp
  ultimately show ?thesis by (simp add: divide_less_0_iff del: ln_gt_zero_iff)
qed

text \<open>
  Claim C8, as stated: the weight is exactly 1 for a uniform student and always lies in
  \<open>[0, 1]\<close>. For two words and equal logits the weight is
  \<open>-log(1/2 + 1e-6) / log 2\<close>, which is below 1; for the logits \<open>(log(1e18 - 1), 0)\<close>
  the student's probabilities are \<open>1 - 1e-18\<close> and \<open>1e-18\<close>, and the weight is
  negative.
\<close>

theorem C8_instance_weight_counterexample:
  "instance_weight \<lparr>ncols = 2, rows = [[0, 0]]\<rparr> = Inr [- ln (1 / 2 + 1 / 10 ^ 6) / ln 2]
   \<and> - ln (1 / 2 + 1 / 10 ^ 6) / ln 2 < (1 :: real)
   \<and> instance_weight \<lparr>ncols = 2, rows = [[ln (10 ^ 18 - 1), 0]]\<rparr>
       = Inr [- ((1 - 1 / 10 ^ 18) * ln (1 - 1 / 10 ^ 18 + 1 / 10 ^ 6)
                 + 1 / 10 ^ 18 * ln (1 / 10 ^ 18 + 1 / 10 ^ 6)) / ln 2]
   \<and> - ((1 - 1 / 10 ^ 18) * ln (1 - 1 / 10 ^ 18 + 1 / 10 ^ 6)
          + 1 / 10 ^ 18 * ln (1 / 10 ^ 18 + 1 / 10 ^ 6)) / ln 2 < (0 :: real)"
  by (intro conjI uniform_weight_value uniform_weight_below_one peaked_weight_value
      peaked_weight_negative)

theorem C8_instance_weight_amended_witness:
  "instance_weight \<lparr>ncols = 2, rows = [[0, 0]]\<rparr>
     = Inr (map (\<lambda>r. student_entropy r / ln (real (ncols \<lparr>ncols = 2, rows = [[0, 0]]\<rparr>)))
              (rows \<lparr>ncols = 2, rows = [[0, 0]]\<rparr>))
   \<and> - ln (1 + 1 / 10 ^ 6) / ln (real (ncols \<lparr>ncols = 2, rows = [[0, 0]]\<rparr>))
       \<le> student_entropy [0, 0] / ln (real (ncols \<lparr>ncols = 2, rows = [[0, 0]]\<rparr>))
   \<and> student_entropy [0, 0] / ln (real (ncols \<lparr>ncols = 2, rows = [[0, 0]]\<rparr>)) < 1
   \<and> student_entropy [0, 0] / ln (real (ncols \<lparr>ncols = 2, rows = [[0, 0]]\<rparr>))
       = - ln (1 / real (ncols \<lparr>ncols = 2, rows = [[0, 0]]\<rparr>) + 1 / 10 ^ 6)
         / ln (real (ncols \<lparr>ncols = 2, rows = [[0, 0]]\<rparr>))"
proof -
  let ?T = "\<lparr>ncols = 2, rows = [[0, 0 :: real]]\<rparr>"
  have a: "wf_tensor2 ?T" by (simp add: wf_tensor2_def)
  have b: "2 \<le> ncols ?T" by simp
  have r: "[0, 0] \<in> set (rows ?T)" by simp
  have u: "[0, 0 :: real] = replicate (ncols ?T) 0" by (simp add: numeral_2_eq_2)
  note t = C8_instance_weight_amended [OF a b]
  note tr = t[THEN conjunct2, THEN bspec, OF r]
  show ?thesis
    using t[THEN conjunct1] tr[THEN conjunct1] tr[THEN conjunct2, THEN conjunct1]
      tr[THEN conjunct2, THEN conjunct2, THEN conjunct1, THEN spec, of 0, THEN mp, OF u,
         THEN conjunct1]
    by (intro conjI)
qed

end
